theory Spec2Isabelle
  imports Main
begin

unbundle bit_operations_syntax

section \<open>The expression tree of the intermediate representation\<close>

text \<open>
  The optimizer of \<^verbatim>\<open>HexagonOptimize.cpp\<close> rewrites immutable, typed expression
  trees. A type is an element kind, a bit width and a lane count; a lane count of 0 is the
  wildcard of pattern templates, a lane count of 1 is a scalar.
\<close>

datatype type_code = TInt | TUInt | TFloat | THandle

datatype htype = Type (code: type_code) (bits: nat) (lanes: nat)

definition Int_t :: "nat \<Rightarrow> nat \<Rightarrow> htype" where
  "Int_t b l = Type TInt b l"

definition UInt_t :: "nat \<Rightarrow> nat \<Rightarrow> htype" where
  "UInt_t b l = Type TUInt b l"

definition Bool_t :: "nat \<Rightarrow> htype" where
  "Bool_t l = Type TUInt 1 l"

definition with_lanes_t :: "htype \<Rightarrow> nat \<Rightarrow> htype" where
  "with_lanes_t t l = Type (code t) (bits t) l"

definition with_bits :: "htype \<Rightarrow> nat \<Rightarrow> htype" where
  "with_bits t b = Type (code t) b (lanes t)"

definition with_code :: "htype \<Rightarrow> type_code \<Rightarrow> htype" where
  "with_code t c = Type c (bits t) (lanes t)"

definition is_scalar :: "htype \<Rightarrow> bool" where
  "is_scalar t = (lanes t = 1)"

definition is_vector :: "htype \<Rightarrow> bool" where
  "is_vector t = (lanes t \<noteq> 1)"

definition is_uint :: "htype \<Rightarrow> bool" where
  "is_uint t = (code t = TUInt)"

text \<open>
  The fifteen binary node kinds that the passes treat through one template
  (\<^verbatim>\<open>visit_binary<T>\<close>, \<^verbatim>\<open>visit_commutative_op<T>\<close>) are one constructor
  \<open>Binary\<close> with the node kind as its first argument.
\<close>

datatype binop =
  Add | Sub | Mul | Div | Mod | Min_op | Max_op | EQ | NE | LT | LE | GT | GE | And | Or

datatype call_type = Image | Extern | PureExtern | Halide | Intrinsic | PureIntrinsic

datatype expr =
    IntImm htype int
  | UIntImm htype nat
  | Variable htype string
  | Cast htype expr
  | Binary binop expr expr
  | Not_e expr
  | Select expr expr expr
  | Load htype string expr
  | Ramp expr expr nat
  | Broadcast expr nat
  | Call htype string "expr list" call_type
  | Let_e string expr expr

definition is_compare :: "binop \<Rightarrow> bool" where
  "is_compare T = (T = EQ \<or> T = NE \<or> T = LT \<or> T = LE \<or> T = GT \<or> T = GE)"

fun type_of :: "expr \<Rightarrow> htype" where
  "type_of (IntImm t v) = t"
| "type_of (UIntImm t v) = t"
| "type_of (Variable t n) = t"
| "type_of (Cast t e) = t"
| "type_of (Binary T a b) =
     (if is_compare T then Bool_t (lanes (type_of a)) else type_of a)"
| "type_of (Not_e a) = type_of a"
| "type_of (Select c t f) = type_of t"
| "type_of (Load t n i) = t"
| "type_of (Ramp b s n) = with_lanes_t (type_of b) n"
| "type_of (Broadcast v n) = with_lanes_t (type_of v) n"
| "type_of (Call t n args ct) = t"
| "type_of (Let_e n v b) = type_of b"

text \<open>
  Internal errors and failed assertions of the source abort the translation; in the
  model they are values. \<open>OutOfFuel\<close> is not an error of the source: it is what a
  traversal that is bounded by fuel returns when the fuel runs out.
\<close>

datatype error =
    CannotInterleave htype
  | CannotDeinterleave htype
  | AssertNotVector
  | AssertSwap01
  | AssertSwap12
  | AssertNoShadow
  | DoesNotYieldInterleave expr
  | EliminatedNonDeadLet
  | OutOfFuel

definition ebind :: "error + 'a \<Rightarrow> ('a \<Rightarrow> error + 'b) \<Rightarrow> error + 'b" where
  "ebind m f = (case m of Inl e \<Rightarrow> Inl e | Inr x \<Rightarrow> f x)"

section \<open>Interleave and deinterleave markers\<close>

definition starts_with :: "string \<Rightarrow> string \<Rightarrow> bool" where
  "starts_with s p = (take (length p) s = p)"

definition native_interleave :: "expr \<Rightarrow> error + expr" where
  "native_interleave x =
     (if bits (type_of x) = 8 then
        Inr (Call (type_of x) ''halide.hexagon.interleave.vb'' [x] PureExtern)
      else if bits (type_of x) = 16 then
        Inr (Call (type_of x) ''halide.hexagon.interleave.vh'' [x] PureExtern)
      else if bits (type_of x) = 32 then
        Inr (Call (type_of x) ''halide.hexagon.interleave.vw'' [x] PureExtern)
      else Inl (CannotInterleave (type_of x)))"

definition native_deinterleave :: "expr \<Rightarrow> error + expr" where
  "native_deinterleave x =
     (if bits (type_of x) = 8 then
        Inr (Call (type_of x) ''halide.hexagon.deinterleave.vb'' [x] PureExtern)
      else if bits (type_of x) = 16 then
        Inr (Call (type_of x) ''halide.hexagon.deinterleave.vh'' [x] PureExtern)
      else if bits (type_of x) = 32 then
        Inr (Call (type_of x) ''halide.hexagon.deinterleave.vw'' [x] PureExtern)
      else Inl (CannotDeinterleave (type_of x)))"

fun is_native_interleave_op :: "expr \<Rightarrow> string \<Rightarrow> bool" where
  "is_native_interleave_op (Call t n args ct) name = (length args = 1 \<and> starts_with n name)"
| "is_native_interleave_op x name = False"

definition is_native_interleave :: "expr \<Rightarrow> bool" where
  "is_native_interleave x = is_native_interleave_op x ''halide.hexagon.interleave''"

definition is_native_deinterleave :: "expr \<Rightarrow> bool" where
  "is_native_deinterleave x = is_native_interleave_op x ''halide.hexagon.deinterleave''"

section \<open>The interleave eliminator\<close>

text \<open>
  \<^verbatim>\<open>Scope<bool> vars\<close> records which names have a deinterleaved shadow. Pushes and
  pops are nested with the tree, so the scope is passed down the traversal: the list
  holds the names pushed and not yet popped.
\<close>

type_synonym scope = "string list"

definition contains :: "scope \<Rightarrow> string \<Rightarrow> bool" where
  "contains vars n = (n \<in> set vars)"

definition push :: "string \<Rightarrow> scope \<Rightarrow> scope" where
  "push n vars = n # vars"

fun is_Broadcast :: "expr \<Rightarrow> bool" where
  "is_Broadcast (Broadcast v n) = True"
| "is_Broadcast x = False"

definition yields_interleave :: "scope \<Rightarrow> expr \<Rightarrow> bool" where
  "yields_interleave vars x =
     (if is_native_interleave x then True
      else if is_scalar (type_of x) \<or> is_Broadcast x then True
      else (case x of
              Variable t n \<Rightarrow> contains vars (n @ ''.deinterleaved'')
            | _ \<Rightarrow> False))"

text \<open>The loop of \<^verbatim>\<open>yields_removable_interleave\<close>, with its early return.\<close>

fun yields_removable_loop :: "scope \<Rightarrow> bool \<Rightarrow> expr list \<Rightarrow> bool" where
  "yields_removable_loop vars any_is_interleave [] = any_is_interleave"
| "yields_removable_loop vars any_is_interleave (i # exprs) =
     (if is_native_interleave i then yields_removable_loop vars True exprs
      else if yields_interleave vars i then yields_removable_loop vars any_is_interleave exprs
      else False)"

definition yields_removable_interleave :: "scope \<Rightarrow> expr list \<Rightarrow> bool" where
  "yields_removable_interleave vars exprs = yields_removable_loop vars False exprs"

definition remove_interleave :: "scope \<Rightarrow> expr \<Rightarrow> error + expr" where
  "remove_interleave vars x =
     (if is_native_interleave x then
        (case x of Call t n args ct \<Rightarrow> Inr (hd args) | _ \<Rightarrow> Inl (DoesNotYieldInterleave x))
      else if is_scalar (type_of x) \<or> is_Broadcast x then Inr x
      else (case x of
              Variable t n \<Rightarrow>
                (if contains vars (n @ ''.deinterleaved'')
                 then Inr (Variable t (n @ ''.deinterleaved''))
                 else Inl AssertNoShadow)
            | _ \<Rightarrow> Inl (DoesNotYieldInterleave x)))"

fun remove_interleaves :: "scope \<Rightarrow> expr list \<Rightarrow> error + expr list" where
  "remove_interleaves vars [] = Inr []"
| "remove_interleaves vars (i # args) =
     ebind (remove_interleave vars i) (\<lambda>i'.
     ebind (remove_interleaves vars args) (\<lambda>args'. Inr (i' # args')))"

text \<open>
  A mutator returns the rewritten node together with a flag that says whether it is the
  very node it was given (\<^verbatim>\<open>same_as\<close>, pointer identity): \<^verbatim>\<open>expr = op\<close> sets the
  flag, every \<^verbatim>\<open>make\<close> and every node taken from elsewhere clears it.
\<close>

type_synonym mres = "error + (expr \<times> bool)"

definition visit_binary :: "scope \<Rightarrow> binop \<Rightarrow> expr \<Rightarrow> expr \<Rightarrow> expr \<times> bool \<Rightarrow> expr \<times> bool \<Rightarrow> mres" where
  "visit_binary vars T op_a op_b ra rb =
     (if yields_removable_interleave vars [fst ra, fst rb] then
        ebind (remove_interleave vars (fst ra)) (\<lambda>a.
        ebind (remove_interleave vars (fst rb)) (\<lambda>b.
        ebind (native_interleave (Binary T a b)) (\<lambda>e. Inr (e, False))))
      else if snd ra \<and> snd rb then Inr (Binary T op_a op_b, True)
      else Inr (Binary T (fst ra) (fst rb), False))"

definition visit_Not :: "scope \<Rightarrow> expr \<Rightarrow> expr \<times> bool \<Rightarrow> mres" where
  "visit_Not vars op_a ra =
     (if is_native_interleave (fst ra) then
        ebind (remove_interleave vars (fst ra)) (\<lambda>a.
        ebind (native_interleave (Not_e a)) (\<lambda>e. Inr (e, False)))
      else if snd ra then Inr (Not_e op_a, True)
      else Inr (Not_e (fst ra), False))"

definition visit_Select ::
  "scope \<Rightarrow> expr \<Rightarrow> expr \<Rightarrow> expr \<Rightarrow> expr \<times> bool \<Rightarrow> expr \<times> bool \<Rightarrow> expr \<times> bool \<Rightarrow> mres" where
  "visit_Select vars op_c op_t op_f rc rt rf =
     (if yields_removable_interleave vars [fst rc, fst rt, fst rf] then
        ebind (remove_interleave vars (fst rc)) (\<lambda>c.
        ebind (remove_interleave vars (fst rt)) (\<lambda>t.
        ebind (remove_interleave vars (fst rf)) (\<lambda>f.
        ebind (native_interleave (Select c t f)) (\<lambda>e. Inr (e, False)))))
      else if snd rc \<and> snd rt \<and> snd rf then Inr (Select op_c op_t op_f, True)
      else Inr (Select (fst rc) (fst rt) (fst rf), False))"

text \<open>
  Modelled from the spec: \<^verbatim>\<open>expr_uses_var\<close> of \<^verbatim>\<open>ExprUsesVar.h\<close>, which is not
  under src/. An expression references a name when a variable node of that name occurs
  in it.
\<close>

fun expr_uses_var :: "expr \<Rightarrow> string \<Rightarrow> bool"
  and exprs_use_var :: "expr list \<Rightarrow> string \<Rightarrow> bool" where
  "expr_uses_var (IntImm t v) x = False"
| "expr_uses_var (UIntImm t v) x = False"
| "expr_uses_var (Variable t n) x = (n = x)"
| "expr_uses_var (Cast t e) x = expr_uses_var e x"
| "expr_uses_var (Binary T a b) x = (expr_uses_var a x \<or> expr_uses_var b x)"
| "expr_uses_var (Not_e a) x = expr_uses_var a x"
| "expr_uses_var (Select c t f) x =
     (expr_uses_var c x \<or> expr_uses_var t x \<or> expr_uses_var f x)"
| "expr_uses_var (Load t n i) x = expr_uses_var i x"
| "expr_uses_var (Ramp b s n) x = (expr_uses_var b x \<or> expr_uses_var s x)"
| "expr_uses_var (Broadcast v n) x = expr_uses_var v x"
| "expr_uses_var (Call t n args ct) x = exprs_use_var args x"
| "expr_uses_var (Let_e n v b) x = (expr_uses_var v x \<or> expr_uses_var b x)"
| "exprs_use_var [] x = False"
| "exprs_use_var (e # es) x = (expr_uses_var e x \<or> exprs_use_var es x)"

text \<open>
  \<^verbatim>\<open>visit_let\<close> after the value and the body have been mutated: \<open>rv\<close> and \<open>rb\<close> are
  the mutated value and body with their \<^verbatim>\<open>same_as\<close> flags. The scope is the one after
  the pop.
\<close>

definition visit_let :: "scope \<Rightarrow> string \<Rightarrow> expr \<Rightarrow> expr \<Rightarrow> expr \<times> bool \<Rightarrow> expr \<times> bool \<Rightarrow> mres" where
  "visit_let vars name op_value op_body rv rb =
     (let value = fst rv; body = fst rb;
          deinterleaved_name = name @ ''.deinterleaved'' in
      if snd rv \<and> snd rb then Inr (Let_e name op_value op_body, True)
      else if snd rb then Inr (Let_e name value body, False)
      else
        (let deinterleaved_used = expr_uses_var body deinterleaved_name;
             interleaved_used = expr_uses_var body name in
         if deinterleaved_used \<and> interleaved_used then
           ebind (remove_interleave vars value) (\<lambda>deinterleaved.
           let deinterleaved_var = Variable (type_of deinterleaved) deinterleaved_name in
           ebind (native_interleave deinterleaved_var) (\<lambda>marker.
           Inr (Let_e deinterleaved_name deinterleaved (Let_e name marker body), False)))
         else if deinterleaved_used then
           ebind (remove_interleave vars value) (\<lambda>deinterleaved.
           Inr (Let_e deinterleaved_name deinterleaved body, False))
         else if interleaved_used then Inr (Let_e name value body, False)
         else if expr_uses_var op_body name then Inl EliminatedNonDeadLet
         else Inr (body, False)))"

definition visit_Cast :: "scope \<Rightarrow> htype \<Rightarrow> expr \<Rightarrow> expr \<times> bool \<Rightarrow> mres" where
  "visit_Cast vars t op_value rv =
     (if bits t = bits (type_of op_value) then
        (if is_native_interleave (fst rv) then
           ebind (remove_interleave vars (fst rv)) (\<lambda>v.
           ebind (native_interleave (Cast t v)) (\<lambda>e. Inr (e, False)))
         else if snd rv then Inr (Cast t op_value, True)
         else Inr (Cast t (fst rv), False))
      else if snd rv then Inr (Cast t op_value, True)
      else Inr (Cast t (fst rv), False))"

definition interleavable :: "string list" where
  "interleavable = [''bitwise_and'', ''bitwise_not'', ''bitwise_xor'', ''bitwise_or'',
     ''shift_left'', ''shift_right'', ''abs'', ''absd'']"

definition not_interleavable :: "string list" where
  "not_interleavable = [''halide.hexagon.interleave.vb'', ''halide.hexagon.interleave.vh'',
     ''halide.hexagon.interleave.vw'', ''halide.hexagon.deinterleave.vb'',
     ''halide.hexagon.deinterleave.vh'', ''halide.hexagon.deinterleave.vw'']"

fun same_shape_args :: "htype \<Rightarrow> expr list \<Rightarrow> bool" where
  "same_shape_args t [] = True"
| "same_shape_args t (i # args) =
     (if is_scalar (type_of i) then same_shape_args t args
      else if bits (type_of i) \<noteq> bits t \<or> lanes (type_of i) \<noteq> lanes t then False
      else same_shape_args t args)"

definition is_interleavable :: "htype \<Rightarrow> string \<Rightarrow> expr list \<Rightarrow> bool" where
  "is_interleavable t name args =
     (if name \<in> set interleavable then True
      else if name \<in> set not_interleavable then False
      else if starts_with name ''halide.hexagon.'' then same_shape_args t args
      else True)"

definition deinterleaving_alts :: "string \<Rightarrow> (string \<times> expr list) option" where
  "deinterleaving_alts name =
     (if name = ''halide.hexagon.pack.vh'' then Some (''halide.hexagon.trunc.vh'', [])
      else if name = ''halide.hexagon.pack.vw'' then Some (''halide.hexagon.trunc.vw'', [])
      else if name = ''halide.hexagon.pack_satub.vh''
        then Some (''halide.hexagon.trunc_satub.vh'', [])
      else if name = ''halide.hexagon.pack_sath.vw''
        then Some (''halide.hexagon.trunc_sath.vw'', [])
      else if name = ''halide.hexagon.pack_satuh.vw''
        then Some (''halide.hexagon.trunc_satuh_shr.vw.w'', [IntImm (Int_t 32 1) 0])
      else None)"

text \<open>
  \<^verbatim>\<open>visit(const Call *)\<close> after the arguments have been mutated: \<open>args\<close> are the
  mutated arguments, \<open>changed\<close> says whether one of them is a new node.
\<close>

definition visit_Call ::
  "scope \<Rightarrow> htype \<Rightarrow> string \<Rightarrow> expr list \<Rightarrow> call_type \<Rightarrow> expr list \<Rightarrow> bool \<Rightarrow> mres" where
  "visit_Call vars t name op_args ct args changed =
     (if is_native_deinterleave (Call t name op_args ct) \<and> yields_interleave vars (hd args) then
        ebind (remove_interleave vars (hd args)) (\<lambda>e. Inr (e, False))
      else if is_interleavable t name op_args \<and> yields_removable_interleave vars args then
        ebind (remove_interleaves vars args) (\<lambda>args'.
        ebind (native_interleave (Call t name args' ct)) (\<lambda>e. Inr (e, False)))
      else if deinterleaving_alts name \<noteq> None \<and> yields_removable_interleave vars args then
        (case deinterleaving_alts name of
           Some (alt_name, extra_args) \<Rightarrow>
             ebind (remove_interleaves vars args) (\<lambda>args'.
             Inr (Call t alt_name (args' @ extra_args) ct, False))
         | None \<Rightarrow> Inr (Call t name args ct, False))
      else if changed then Inr (Call t name args ct, False)
      else Inr (Call t name op_args ct, True))"

text \<open>
  The mutator itself. Node kinds that \<^verbatim>\<open>EliminateInterleaves\<close> does not override
  (constants, variables, loads, ramps, broadcasts) go to the generic traversal of
  \<^verbatim>\<open>IRMutator\<close>. Modelled from the spec: \<^verbatim>\<open>IRMutator.h\<close> is not under src/; its
  default visit rebuilds a node from its rewritten children and returns the node itself
  when no child changed.
\<close>

fun mutate :: "scope \<Rightarrow> expr \<Rightarrow> mres"
  and mutate_args :: "scope \<Rightarrow> expr list \<Rightarrow> error + (expr list \<times> bool)" where
  "mutate vars (IntImm t v) = Inr (IntImm t v, True)"
| "mutate vars (UIntImm t v) = Inr (UIntImm t v, True)"
| "mutate vars (Variable t n) = Inr (Variable t n, True)"
| "mutate vars (Cast t v) =
     (case mutate vars v of Inl e \<Rightarrow> Inl e | Inr rv \<Rightarrow> visit_Cast vars t v rv)"
| "mutate vars (Binary T a b) =
     (case mutate vars a of Inl e \<Rightarrow> Inl e | Inr ra \<Rightarrow>
      (case mutate vars b of Inl e \<Rightarrow> Inl e | Inr rb \<Rightarrow> visit_binary vars T a b ra rb))"
| "mutate vars (Not_e a) =
     (case mutate vars a of Inl e \<Rightarrow> Inl e | Inr ra \<Rightarrow> visit_Not vars a ra)"
| "mutate vars (Select c t f) =
     (case mutate vars c of Inl e \<Rightarrow> Inl e | Inr rc \<Rightarrow>
      (case mutate vars t of Inl e \<Rightarrow> Inl e | Inr rt \<Rightarrow>
       (case mutate vars f of Inl e \<Rightarrow> Inl e | Inr rf \<Rightarrow>
          visit_Select vars c t f rc rt rf)))"
| "mutate vars (Load t n i) =
     (case mutate vars i of Inl e \<Rightarrow> Inl e
      | Inr ri \<Rightarrow> if snd ri then Inr (Load t n i, True) else Inr (Load t n (fst ri), False))"
| "mutate vars (Ramp b s n) =
     (case mutate vars b of Inl e \<Rightarrow> Inl e | Inr rb \<Rightarrow>
      (case mutate vars s of Inl e \<Rightarrow> Inl e | Inr rs \<Rightarrow>
         if snd rb \<and> snd rs then Inr (Ramp b s n, True)
         else Inr (Ramp (fst rb) (fst rs) n, False)))"
| "mutate vars (Broadcast v n) =
     (case mutate vars v of Inl e \<Rightarrow> Inl e
      | Inr rv \<Rightarrow> if snd rv then Inr (Broadcast v n, True)
                  else Inr (Broadcast (fst rv) n, False))"
| "mutate vars (Call t n args ct) =
     (case mutate_args vars args of Inl e \<Rightarrow> Inl e
      | Inr ra \<Rightarrow> visit_Call vars t n args ct (fst ra) (snd ra))"
| "mutate vars (Let_e n v b) =
     (case mutate vars v of Inl e \<Rightarrow> Inl e | Inr rv \<Rightarrow>
      (case (if is_native_interleave (fst rv)
             then mutate (push (n @ ''.deinterleaved'') vars) b
             else mutate vars b) of
         Inl e \<Rightarrow> Inl e
       | Inr rb \<Rightarrow> visit_let vars n v b rv rb))"
| "mutate_args vars [] = Inr ([], False)"
| "mutate_args vars (i # args) =
     (case mutate vars i of Inl e \<Rightarrow> Inl e | Inr ri \<Rightarrow>
      (case mutate_args vars args of Inl e \<Rightarrow> Inl e
       | Inr ra \<Rightarrow> Inr (fst ri # fst ra, if snd ri then snd ra else True)))"

definition eliminate_interleaves :: "expr \<Rightarrow> error + expr" where
  "eliminate_interleaves e = ebind (mutate [] e) (\<lambda>r. Inr (fst r))"

definition interleave_names :: "string set" where
  "interleave_names = {''halide.hexagon.interleave.vb'', ''halide.hexagon.interleave.vh'',
     ''halide.hexagon.interleave.vw''}"

definition deinterleave_names :: "string set" where
  "deinterleave_names = {''halide.hexagon.deinterleave.vb'', ''halide.hexagon.deinterleave.vh'',
     ''halide.hexagon.deinterleave.vw''}"


section \<open>The pattern engine\<close>

text \<open>
  A pattern is an intrinsic name, a template and a flag set; the flag set is the bit mask
  of the source (\<^verbatim>\<open>int flags\<close>), with the flag constants of \<^verbatim>\<open>Pattern::Flags\<close>.
\<close>

datatype pattern = Pattern (intrin: string) (pattern: expr) (flags: nat)

definition InterleaveResult :: nat where "InterleaveResult = push_bit 0 1"
definition SwapOps01 :: nat where "SwapOps01 = push_bit 1 1"
definition SwapOps12 :: nat where "SwapOps12 = push_bit 2 1"
definition ExactLog2Op1 :: nat where "ExactLog2Op1 = push_bit 3 1"
definition ExactLog2Op2 :: nat where "ExactLog2Op2 = push_bit 4 1"
definition DeinterleaveOp0 :: nat where "DeinterleaveOp0 = push_bit 5 1"
definition DeinterleaveOp1 :: nat where "DeinterleaveOp1 = push_bit 6 1"
definition DeinterleaveOp2 :: nat where "DeinterleaveOp2 = push_bit 7 1"
definition DeinterleaveOps :: nat where
  "DeinterleaveOps = DeinterleaveOp0 OR DeinterleaveOp1 OR DeinterleaveOp2"
definition NarrowOp0 :: nat where "NarrowOp0 = push_bit 10 1"
definition NarrowOp1 :: nat where "NarrowOp1 = push_bit 11 1"
definition NarrowOp2 :: nat where "NarrowOp2 = push_bit 12 1"
definition NarrowOps :: nat where "NarrowOps = NarrowOp0 OR NarrowOp1 OR NarrowOp2"
definition NarrowUnsignedOp0 :: nat where "NarrowUnsignedOp0 = push_bit 15 1"
definition NarrowUnsignedOp1 :: nat where "NarrowUnsignedOp1 = push_bit 16 1"
definition NarrowUnsignedOp2 :: nat where "NarrowUnsignedOp2 = push_bit 17 1"
definition NarrowUnsignedOps :: nat where
  "NarrowUnsignedOps = NarrowUnsignedOp0 OR NarrowUnsignedOp1 OR NarrowUnsignedOp2"
definition ReinterleaveOp0 :: nat where "ReinterleaveOp0 = InterleaveResult OR DeinterleaveOp0"

text \<open>The test \<^verbatim>\<open>p.flags & m\<close> of a flag.\<close>

definition has_flag :: "nat \<Rightarrow> nat \<Rightarrow> bool" where
  "has_flag fl msk = (fl AND msk \<noteq> 0)"

text \<open>
  The collaborators of the engine that are not under src/ are parameters: the structural
  matcher (its result is the list of bound wildcards, or nothing), the lossless-cast
  query (nothing for the undefined expression), the power-of-two predicate (the exponent
  it stores through its pointer argument) and the \<^verbatim>\<open>cast\<close> operator.
\<close>

record externals =
  expr_match :: "expr \<Rightarrow> expr \<Rightarrow> expr list option"
  lossless_cast :: "htype \<Rightarrow> expr \<Rightarrow> expr option"
  is_const_power_of_two_integer :: "expr \<Rightarrow> int option"
  cast :: "htype \<Rightarrow> expr \<Rightarrow> expr"

text \<open>The first loop: narrow the operands whose flag asks for it; \<open>i\<close> is the index.\<close>

fun narrow_ops :: "externals \<Rightarrow> nat \<Rightarrow> nat \<Rightarrow> expr list \<Rightarrow> expr list option" where
  "narrow_ops X fl i [] = Some []"
| "narrow_ops X fl i (m # matches) =
     (let t = type_of m; target_t = with_bits t (bits t div 2) in
      case (if has_flag fl (push_bit i NarrowOp0) then lossless_cast X target_t m
            else if has_flag fl (push_bit i NarrowUnsignedOp0)
              then lossless_cast X (with_code target_t TUInt) m
            else Some m) of
        None \<Rightarrow> None
      | Some m' \<Rightarrow>
          (case narrow_ops X fl (Suc i) matches of
             None \<Rightarrow> None
           | Some matches' \<Rightarrow> Some (m' # matches')))"

text \<open>The second loop, over the operands from index 1 on.\<close>

fun exact_log2_from :: "externals \<Rightarrow> nat \<Rightarrow> nat \<Rightarrow> expr list \<Rightarrow> expr list option" where
  "exact_log2_from X fl i [] = Some []"
| "exact_log2_from X fl i (m # matches) =
     (case (if has_flag fl (push_bit (i - 1) ExactLog2Op1) then
              (case is_const_power_of_two_integer X m of
                 Some pow \<Rightarrow> Some (cast X (with_lanes_t (type_of m) 1) (IntImm (Int_t 32 1) pow))
               | None \<Rightarrow> None)
            else Some m) of
        None \<Rightarrow> None
      | Some m' \<Rightarrow>
          (case exact_log2_from X fl (Suc i) matches of
             None \<Rightarrow> None
           | Some matches' \<Rightarrow> Some (m' # matches')))"

definition exact_log2_ops :: "externals \<Rightarrow> nat \<Rightarrow> expr list \<Rightarrow> expr list option" where
  "exact_log2_ops X fl matches =
     (case matches of
        [] \<Rightarrow> Some []
      | m0 # rest \<Rightarrow>
          (case exact_log2_from X fl 1 rest of
             None \<Rightarrow> None
           | Some rest' \<Rightarrow> Some (m0 # rest')))"

text \<open>
  One attempt of a pattern up to the second \<^verbatim>\<open>continue\<close>: the operands that survive the
  match, the narrowing and the exact logarithms, or nothing.
\<close>

definition attempt :: "externals \<Rightarrow> pattern \<Rightarrow> expr \<Rightarrow> expr list option" where
  "attempt X p x =
     (case expr_match X (pattern p) x of
        None \<Rightarrow> None
      | Some matches \<Rightarrow>
          (case narrow_ops X (flags p) 0 matches of
             None \<Rightarrow> None
           | Some matches' \<Rightarrow> exact_log2_ops X (flags p) matches'))"

fun deinterleave_ops :: "nat \<Rightarrow> nat \<Rightarrow> expr list \<Rightarrow> error + expr list" where
  "deinterleave_ops fl i [] = Inr []"
| "deinterleave_ops fl i (m # matches) =
     (if has_flag fl (push_bit i DeinterleaveOp0) then
        (if is_vector (type_of m) then
           ebind (native_deinterleave m) (\<lambda>m'.
           ebind (deinterleave_ops fl (Suc i) matches) (\<lambda>matches'. Inr (m' # matches')))
         else Inl AssertNotVector)
      else ebind (deinterleave_ops fl (Suc i) matches) (\<lambda>matches'. Inr (m # matches')))"

definition swap_ops01 :: "nat \<Rightarrow> expr list \<Rightarrow> error + expr list" where
  "swap_ops01 fl matches =
     (if has_flag fl SwapOps01 then
        (if 2 \<le> length matches then Inr (matches[0 := matches ! 1, 1 := matches ! 0])
         else Inl AssertSwap01)
      else Inr matches)"

definition swap_ops12 :: "nat \<Rightarrow> expr list \<Rightarrow> error + expr list" where
  "swap_ops12 fl matches =
     (if has_flag fl SwapOps12 then
        (if 3 \<le> length matches then Inr (matches[1 := matches ! 2, 2 := matches ! 1])
         else Inl AssertSwap12)
      else Inr matches)"

fun mutate_ops :: "(expr \<Rightarrow> mres) \<Rightarrow> expr list \<Rightarrow> error + expr list" where
  "mutate_ops mut [] = Inr []"
| "mutate_ops mut (op # matches) =
     ebind (mut op) (\<lambda>r.
     ebind (mutate_ops mut matches) (\<lambda>matches'. Inr (fst r # matches')))"

text \<open>The rest of an attempt that has survived: tag, swap, mutate, build the call.\<close>

definition emit :: "(expr \<Rightarrow> mres) \<Rightarrow> pattern \<Rightarrow> expr \<Rightarrow> expr list \<Rightarrow> mres" where
  "emit mut p x matches =
     ebind (deinterleave_ops (flags p) 0 matches) (\<lambda>m1.
     ebind (swap_ops01 (flags p) m1) (\<lambda>m2.
     ebind (swap_ops12 (flags p) m2) (\<lambda>m3.
     ebind (mutate_ops mut m3) (\<lambda>m4.
       (if has_flag (flags p) InterleaveResult then
          ebind (native_interleave (Call (type_of x) (intrin p) m4 PureExtern))
            (\<lambda>e. Inr (e, False))
        else Inr (Call (type_of x) (intrin p) m4 PureExtern, False))))))"

text \<open>
  \<^verbatim>\<open>apply_patterns\<close>: the flag of the result says that the input itself is returned.
\<close>

fun apply_patterns :: "externals \<Rightarrow> (expr \<Rightarrow> mres) \<Rightarrow> pattern list \<Rightarrow> expr \<Rightarrow> mres" where
  "apply_patterns X mut [] x = Inr (x, True)"
| "apply_patterns X mut (p # patterns) x =
     (case attempt X p x of
        None \<Rightarrow> apply_patterns X mut patterns x
      | Some matches \<Rightarrow> emit mut p x matches)"

section \<open>The pattern tables\<close>

text \<open>
  Modelled from the spec: the expression constructors of \<^verbatim>\<open>IROperator.h\<close>, which is not
  under src/. The tables are built with them. \<open>cast_model\<close> is \<^verbatim>\<open>cast\<close> (no node when
  the type is already right); \<open>bop\<close> is an overloaded binary operator on two expressions
  (a scalar operand beside a vector one is broadcast to its lanes); \<open>bop_c\<close> is the
  operator with an integer literal, which becomes a constant of the type of the other
  operand; \<open>clamp\<close> converts its bounds to the type of its first argument.
\<close>

definition cast_model :: "htype \<Rightarrow> expr \<Rightarrow> expr" where
  "cast_model t a = (if type_of a = t then a else Cast t a)"

definition imm :: "htype \<Rightarrow> int \<Rightarrow> expr" where
  "imm t v = (if code t = TUInt then UIntImm t (nat v) else IntImm t v)"

definition make_const :: "htype \<Rightarrow> int \<Rightarrow> expr" where
  "make_const t v =
     (if lanes t = 1 then imm t v else Broadcast (imm (with_lanes_t t 1) v) (lanes t))"

definition bop :: "binop \<Rightarrow> expr \<Rightarrow> expr \<Rightarrow> expr" where
  "bop T a b =
     (if is_vector (type_of a) \<and> is_scalar (type_of b)
        then Binary T a (Broadcast b (lanes (type_of a)))
      else if is_scalar (type_of a) \<and> is_vector (type_of b)
        then Binary T (Broadcast a (lanes (type_of b))) b
      else Binary T a b)"

definition bop_c :: "binop \<Rightarrow> expr \<Rightarrow> int \<Rightarrow> expr" where
  "bop_c T a v = Binary T a (make_const (type_of a) v)"

definition shift_right :: "expr \<Rightarrow> expr \<Rightarrow> expr" where
  "shift_right x y =
     Call (type_of x) ''shift_right''
       [x, if is_vector (type_of x) \<and> is_scalar (type_of y)
           then Broadcast y (lanes (type_of x)) else y] PureIntrinsic"

definition shift_left :: "expr \<Rightarrow> expr \<Rightarrow> expr" where
  "shift_left x y =
     Call (type_of x) ''shift_left''
       [x, if is_vector (type_of x) \<and> is_scalar (type_of y)
           then Broadcast y (lanes (type_of x)) else y] PureIntrinsic"

fun const_value :: "expr \<Rightarrow> int" where
  "const_value (IntImm t v) = v"
| "const_value (UIntImm t v) = int v"
| "const_value e = 0"

fun is_zero :: "expr \<Rightarrow> bool" where
  "is_zero (IntImm t v) = (v = 0)"
| "is_zero (UIntImm t v) = (v = 0)"
| "is_zero e = False"

definition clamp :: "expr \<Rightarrow> expr \<Rightarrow> expr \<Rightarrow> expr" where
  "clamp x min_val max_val =
     Binary Max_op (Binary Min_op x (make_const (type_of x) (const_value max_val)))
       (make_const (type_of x) (const_value min_val))"

definition u8 :: "expr \<Rightarrow> expr" where "u8 E = cast_model (UInt_t 8 (lanes (type_of E))) E"
definition i8 :: "expr \<Rightarrow> expr" where "i8 E = cast_model (Int_t 8 (lanes (type_of E))) E"
definition u16 :: "expr \<Rightarrow> expr" where "u16 E = cast_model (UInt_t 16 (lanes (type_of E))) E"
definition i16 :: "expr \<Rightarrow> expr" where "i16 E = cast_model (Int_t 16 (lanes (type_of E))) E"
definition u32 :: "expr \<Rightarrow> expr" where "u32 E = cast_model (UInt_t 32 (lanes (type_of E))) E"
definition i32 :: "expr \<Rightarrow> expr" where "i32 E = cast_model (Int_t 32 (lanes (type_of E))) E"
definition u64 :: "expr \<Rightarrow> expr" where "u64 E = cast_model (UInt_t 64 (lanes (type_of E))) E"
definition i64 :: "expr \<Rightarrow> expr" where "i64 E = cast_model (Int_t 64 (lanes (type_of E))) E"
definition bc :: "expr \<Rightarrow> expr" where "bc E = Broadcast E 0"

definition min_i8 :: expr where "min_i8 = i8 (IntImm (Int_t 8 1) (- 128))"
definition max_i8 :: expr where "max_i8 = i8 (IntImm (Int_t 8 1) 127)"
definition min_u8 :: expr where "min_u8 = u8 (UIntImm (UInt_t 8 1) 0)"
definition max_u8 :: expr where "max_u8 = u8 (UIntImm (UInt_t 8 1) 255)"
definition min_i16 :: expr where "min_i16 = i16 (IntImm (Int_t 16 1) (- 32768))"
definition max_i16 :: expr where "max_i16 = i16 (IntImm (Int_t 16 1) 32767)"
definition min_u16 :: expr where "min_u16 = u16 (UIntImm (UInt_t 16 1) 0)"
definition max_u16 :: expr where "max_u16 = u16 (UIntImm (UInt_t 16 1) 65535)"
definition min_i32 :: expr where "min_i32 = i32 (IntImm (Int_t 32 1) (- 2147483648))"
definition max_i32 :: expr where "max_i32 = i32 (IntImm (Int_t 32 1) 2147483647)"
definition min_u32 :: expr where "min_u32 = u32 (UIntImm (UInt_t 32 1) 0)"
definition max_u32 :: expr where "max_u32 = u32 (UIntImm (UInt_t 32 1) 4294967295)"

definition simplified_clamp :: "expr \<Rightarrow> expr \<Rightarrow> expr \<Rightarrow> expr" where
  "simplified_clamp x min_val max_val =
     (if is_uint (type_of x) \<and> is_zero min_val
      then Binary Min_op x (make_const (type_of x) (const_value max_val))
      else clamp x min_val max_val)"

definition i32c :: "expr \<Rightarrow> expr" where "i32c e = i32 (simplified_clamp e min_i32 max_i32)"
definition u32c :: "expr \<Rightarrow> expr" where "u32c e = u32 (simplified_clamp e min_u32 max_u32)"
definition i16c :: "expr \<Rightarrow> expr" where "i16c e = i16 (simplified_clamp e min_i16 max_i16)"
definition u16c :: "expr \<Rightarrow> expr" where "u16c e = u16 (simplified_clamp e min_u16 max_u16)"
definition i8c :: "expr \<Rightarrow> expr" where "i8c e = i8 (simplified_clamp e min_i8 max_i8)"
definition u8c :: "expr \<Rightarrow> expr" where "u8c e = u8 (simplified_clamp e min_u8 max_u8)"

definition wild_u8 :: expr where "wild_u8 = Variable (UInt_t 8 1) ''*''"
definition wild_u16 :: expr where "wild_u16 = Variable (UInt_t 16 1) ''*''"
definition wild_u32 :: expr where "wild_u32 = Variable (UInt_t 32 1) ''*''"
definition wild_u64 :: expr where "wild_u64 = Variable (UInt_t 64 1) ''*''"
definition wild_i8 :: expr where "wild_i8 = Variable (Int_t 8 1) ''*''"
definition wild_i16 :: expr where "wild_i16 = Variable (Int_t 16 1) ''*''"
definition wild_i32 :: expr where "wild_i32 = Variable (Int_t 32 1) ''*''"
definition wild_i64 :: expr where "wild_i64 = Variable (Int_t 64 1) ''*''"

definition wild_u8x :: expr where "wild_u8x = Variable (Type TUInt 8 0) ''*''"
definition wild_u16x :: expr where "wild_u16x = Variable (Type TUInt 16 0) ''*''"
definition wild_u32x :: expr where "wild_u32x = Variable (Type TUInt 32 0) ''*''"
definition wild_u64x :: expr where "wild_u64x = Variable (Type TUInt 64 0) ''*''"
definition wild_i8x :: expr where "wild_i8x = Variable (Type TInt 8 0) ''*''"
definition wild_i16x :: expr where "wild_i16x = Variable (Type TInt 16 0) ''*''"
definition wild_i32x :: expr where "wild_i32x = Variable (Type TInt 32 0) ''*''"
definition wild_i64x :: expr where "wild_i64x = Variable (Type TInt 64 0) ''*''"

definition casts :: "pattern list" where
  "casts = [
     Pattern ''halide.hexagon.avg.vub.vub'' (u8 (bop_c Div (bop Add wild_u16x wild_u16x) 2)) NarrowOps,
     Pattern ''halide.hexagon.avg.vuh.vuh'' (u16 (bop_c Div (bop Add wild_u32x wild_u32x) 2)) NarrowOps,
     Pattern ''halide.hexagon.avg.vh.vh'' (i16 (bop_c Div (bop Add wild_i32x wild_i32x) 2)) NarrowOps,
     Pattern ''halide.hexagon.avg.vw.vw'' (i32 (bop_c Div (bop Add wild_i64x wild_i64x) 2)) NarrowOps,
     Pattern ''halide.hexagon.avg_rnd.vub.vub'' (u8 (bop_c Div (bop_c Add (bop Add wild_u16x wild_u16x) 1) 2)) NarrowOps,
     Pattern ''halide.hexagon.avg_rnd.vuh.vuh'' (u16 (bop_c Div (bop_c Add (bop Add wild_u32x wild_u32x) 1) 2)) NarrowOps,
     Pattern ''halide.hexagon.avg_rnd.vh.vh'' (i16 (bop_c Div (bop_c Add (bop Add wild_i32x wild_i32x) 1) 2)) NarrowOps,
     Pattern ''halide.hexagon.avg_rnd.vw.vw'' (i32 (bop_c Div (bop_c Add (bop Add wild_i64x wild_i64x) 1) 2)) NarrowOps,
     Pattern ''halide.hexagon.navg.vub.vub'' (i8c (bop_c Div (bop Sub wild_i16x wild_i16x) 2)) NarrowUnsignedOps,
     Pattern ''halide.hexagon.navg.vh.vh'' (i16c (bop_c Div (bop Sub wild_i32x wild_i32x) 2)) NarrowOps,
     Pattern ''halide.hexagon.navg.vw.vw'' (i32c (bop_c Div (bop Sub wild_i64x wild_i64x) 2)) NarrowOps,
     Pattern ''halide.hexagon.satub_add.vub.vub'' (u8c (bop Add wild_u16x wild_u16x)) NarrowOps,
     Pattern ''halide.hexagon.satuh_add.vuh.vuh'' (u16c (bop Add wild_u32x wild_u32x)) NarrowOps,
     Pattern ''halide.hexagon.sath_add.vh.vh'' (i16c (bop Add wild_i32x wild_i32x)) NarrowOps,
     Pattern ''halide.hexagon.satw_add.vw.vw'' (i32c (bop Add wild_i64x wild_i64x)) NarrowOps,
     Pattern ''halide.hexagon.satub_sub.vub.vub'' (u8c (bop Sub wild_i16x wild_i16x)) NarrowUnsignedOps,
     Pattern ''halide.hexagon.satuh_sub.vuh.vuh'' (u16c (bop Sub wild_i32x wild_i32x)) NarrowUnsignedOps,
     Pattern ''halide.hexagon.sath_sub.vh.vh'' (i16c (bop Sub wild_i32x wild_i32x)) NarrowOps,
     Pattern ''halide.hexagon.satw_sub.vw.vw'' (i32c (bop Sub wild_i64x wild_i64x)) NarrowOps,
     Pattern ''halide.hexagon.trunc_satub_rnd.vh'' (u8c (bop_c Div (bop_c Add wild_i32x 128) 256)) (DeinterleaveOp0 OR NarrowOp0),
     Pattern ''halide.hexagon.trunc_satb_rnd.vh'' (i8c (bop_c Div (bop_c Add wild_i32x 128) 256)) (DeinterleaveOp0 OR NarrowOp0),
     Pattern ''halide.hexagon.trunc_satuh_rnd.vw'' (u16c (bop_c Div (bop_c Add wild_i64x 32768) 65536)) (DeinterleaveOp0 OR NarrowOp0),
     Pattern ''halide.hexagon.trunc_sath_rnd.vw'' (i16c (bop_c Div (bop_c Add wild_i64x 32768) 65536)) (DeinterleaveOp0 OR NarrowOp0),
     Pattern ''halide.hexagon.trunc_satub_shr.vh.h'' (u8c (shift_right wild_i16x wild_i16)) DeinterleaveOp0,
     Pattern ''halide.hexagon.trunc_satuh_shr.vw.w'' (u16c (shift_right wild_i32x wild_i32)) DeinterleaveOp0,
     Pattern ''halide.hexagon.trunc_sath_shr.vw.w'' (i16c (shift_right wild_i32x wild_i32)) DeinterleaveOp0,
     Pattern ''halide.hexagon.trunc_satub_shr.vh.h'' (u8c (bop Div wild_i16x wild_i16)) (DeinterleaveOp0 OR ExactLog2Op1),
     Pattern ''halide.hexagon.trunc_satuh_shr.vw.w'' (u16c (bop Div wild_i32x wild_i32)) (DeinterleaveOp0 OR ExactLog2Op1),
     Pattern ''halide.hexagon.trunc_sath_shr.vw.w'' (i16c (bop Div wild_i32x wild_i32)) (DeinterleaveOp0 OR ExactLog2Op1),
     Pattern ''halide.hexagon.pack_satub.vh'' (u8c wild_i16x) 0,
     Pattern ''halide.hexagon.pack_satuh.vw'' (u16c wild_i32x) 0,
     Pattern ''halide.hexagon.pack_satb.vh'' (i8c wild_i16x) 0,
     Pattern ''halide.hexagon.pack_sath.vw'' (i16c wild_i32x) 0,
     Pattern ''halide.hexagon.trunclo.vh'' (u8 (bop_c Div wild_u16x 256)) DeinterleaveOp0,
     Pattern ''halide.hexagon.trunclo.vh'' (u8 (bop_c Div wild_i16x 256)) DeinterleaveOp0,
     Pattern ''halide.hexagon.trunclo.vh'' (i8 (bop_c Div wild_u16x 256)) DeinterleaveOp0,
     Pattern ''halide.hexagon.trunclo.vh'' (i8 (bop_c Div wild_i16x 256)) DeinterleaveOp0,
     Pattern ''halide.hexagon.trunclo.vw'' (u16 (bop_c Div wild_u32x 65536)) DeinterleaveOp0,
     Pattern ''halide.hexagon.trunclo.vw'' (u16 (bop_c Div wild_i32x 65536)) DeinterleaveOp0,
     Pattern ''halide.hexagon.trunclo.vw'' (i16 (bop_c Div wild_u32x 65536)) DeinterleaveOp0,
     Pattern ''halide.hexagon.trunclo.vw'' (i16 (bop_c Div wild_i32x 65536)) DeinterleaveOp0,
     Pattern ''halide.hexagon.trunc_shr.vw.w'' (i16 (shift_right wild_i32x wild_i32)) DeinterleaveOp0,
     Pattern ''halide.hexagon.trunc_shr.vw.w'' (i16 (bop Div wild_i32x wild_i32)) (DeinterleaveOp0 OR ExactLog2Op1),
     Pattern ''halide.hexagon.pack.vh'' (u8 wild_u16x) 0,
     Pattern ''halide.hexagon.pack.vh'' (u8 wild_i16x) 0,
     Pattern ''halide.hexagon.pack.vh'' (i8 wild_u16x) 0,
     Pattern ''halide.hexagon.pack.vh'' (i8 wild_i16x) 0,
     Pattern ''halide.hexagon.pack.vw'' (u16 wild_u32x) 0,
     Pattern ''halide.hexagon.pack.vw'' (u16 wild_i32x) 0,
     Pattern ''halide.hexagon.pack.vw'' (i16 wild_u32x) 0,
     Pattern ''halide.hexagon.pack.vw'' (i16 wild_i32x) 0,
     Pattern ''halide.hexagon.zxt.vub'' (u16 wild_u8x) InterleaveResult,
     Pattern ''halide.hexagon.zxt.vub'' (i16 wild_u8x) InterleaveResult,
     Pattern ''halide.hexagon.zxt.vuh'' (u32 wild_u16x) InterleaveResult,
     Pattern ''halide.hexagon.zxt.vuh'' (i32 wild_u16x) InterleaveResult,
     Pattern ''halide.hexagon.sxt.vb'' (u16 wild_i8x) InterleaveResult,
     Pattern ''halide.hexagon.sxt.vb'' (i16 wild_i8x) InterleaveResult,
     Pattern ''halide.hexagon.sxt.vh'' (u32 wild_i16x) InterleaveResult,
     Pattern ''halide.hexagon.sxt.vh'' (i32 wild_i16x) InterleaveResult]"

definition muls :: "pattern list" where
  "muls = [
     Pattern ''halide.hexagon.mpy.vub.ub'' (bop Mul wild_u16x (bc wild_u16)) (InterleaveResult OR NarrowOps),
     Pattern ''halide.hexagon.mpy.vub.b'' (bop Mul wild_i16x (bc wild_i16)) (InterleaveResult OR NarrowUnsignedOp0 OR NarrowOp1),
     Pattern ''halide.hexagon.mpy.vuh.uh'' (bop Mul wild_u32x (bc wild_u32)) (InterleaveResult OR NarrowOps),
     Pattern ''halide.hexagon.mpy.vh.h'' (bop Mul wild_i32x (bc wild_i32)) (InterleaveResult OR NarrowOps),
     Pattern ''halide.hexagon.mpy.vub.vub'' (bop Mul wild_u16x wild_u16x) (InterleaveResult OR NarrowOps),
     Pattern ''halide.hexagon.mpy.vuh.vuh'' (bop Mul wild_u32x wild_u32x) (InterleaveResult OR NarrowOps),
     Pattern ''halide.hexagon.mpy.vb.vb'' (bop Mul wild_i16x wild_i16x) (InterleaveResult OR NarrowOps),
     Pattern ''halide.hexagon.mpy.vh.vh'' (bop Mul wild_i32x wild_i32x) (InterleaveResult OR NarrowOps),
     Pattern ''halide.hexagon.mpy.vub.vb'' (bop Mul wild_i16x wild_i16x) (InterleaveResult OR NarrowUnsignedOp0 OR NarrowOp1),
     Pattern ''halide.hexagon.mpy.vh.vuh'' (bop Mul wild_i32x wild_i32x) (InterleaveResult OR NarrowOp0 OR NarrowUnsignedOp1)]"

definition adds :: "pattern list" where
  "adds = [
     Pattern ''halide.hexagon.add_shr.vw.vw.w'' (bop Add wild_i32x (shift_right wild_i32x (bc wild_i32))) 0,
     Pattern ''halide.hexagon.add_shl.vw.vw.w'' (bop Add wild_i32x (shift_left wild_i32x (bc wild_i32))) 0,
     Pattern ''halide.hexagon.add_shl.vw.vw.w'' (bop Add wild_u32x (shift_left wild_u32x (bc wild_u32))) 0,
     Pattern ''halide.hexagon.add_shr.vw.vw.w'' (bop Add wild_i32x (bop Div wild_i32x (bc wild_i32))) ExactLog2Op2,
     Pattern ''halide.hexagon.add_shl.vw.vw.w'' (bop Add wild_i32x (bop Mul wild_i32x (bc wild_i32))) ExactLog2Op2,
     Pattern ''halide.hexagon.add_shl.vw.vw.w'' (bop Add wild_u32x (bop Mul wild_u32x (bc wild_u32))) ExactLog2Op2,
     Pattern ''halide.hexagon.add_shl.vw.vw.w'' (bop Add wild_i32x (bop Mul (bc wild_i32) wild_i32x)) (ExactLog2Op1 OR SwapOps12),
     Pattern ''halide.hexagon.add_shl.vw.vw.w'' (bop Add wild_u32x (bop Mul (bc wild_u32) wild_u32x)) (ExactLog2Op1 OR SwapOps12),
     Pattern ''halide.hexagon.add_mpy.vuh.vub.ub'' (bop Add wild_u16x (bop Mul wild_u16x (bc wild_u16))) (ReinterleaveOp0 OR NarrowOp1 OR NarrowOp2),
     Pattern ''halide.hexagon.add_mpy.vh.vub.b'' (bop Add wild_i16x (bop Mul wild_i16x (bc wild_i16))) (ReinterleaveOp0 OR NarrowUnsignedOp1 OR NarrowOp2),
     Pattern ''halide.hexagon.add_mpy.vuw.vuh.uh'' (bop Add wild_u32x (bop Mul wild_u32x (bc wild_u32))) (ReinterleaveOp0 OR NarrowOp1 OR NarrowOp2),
     Pattern ''halide.hexagon.add_mpy.vuh.vub.ub'' (bop Add wild_u16x (bop Mul (bc wild_u16) wild_u16x)) (ReinterleaveOp0 OR NarrowOp1 OR NarrowOp2 OR SwapOps12),
     Pattern ''halide.hexagon.add_mpy.vh.vub.b'' (bop Add wild_i16x (bop Mul (bc wild_i16) wild_i16x)) (ReinterleaveOp0 OR NarrowOp1 OR NarrowUnsignedOp2 OR SwapOps12),
     Pattern ''halide.hexagon.add_mpy.vuw.vuh.uh'' (bop Add wild_u32x (bop Mul (bc wild_u32) wild_u32x)) (ReinterleaveOp0 OR NarrowOp1 OR NarrowOp2 OR SwapOps12),
     Pattern ''halide.hexagon.satw_add_mpy.vw.vh.h'' (bop Add wild_i32x (bop Mul wild_i32x (bc wild_i32))) (ReinterleaveOp0 OR NarrowOp1 OR NarrowOp2),
     Pattern ''halide.hexagon.satw_add_mpy.vw.vh.h'' (bop Add wild_i32x (bop Mul (bc wild_i32) wild_i32x)) (ReinterleaveOp0 OR NarrowOp1 OR NarrowOp2 OR SwapOps12),
     Pattern ''halide.hexagon.add_mul.vh.vh.b'' (bop Add wild_i16x (bop Mul wild_i16x (bc wild_i16))) NarrowOp2,
     Pattern ''halide.hexagon.add_mul.vw.vw.h'' (bop Add wild_i32x (bop Mul wild_i32x (bc wild_i32))) NarrowOp2,
     Pattern ''halide.hexagon.add_mul.vh.vh.b'' (bop Add wild_i16x (bop Mul (bc wild_i16) wild_i16x)) (NarrowOp1 OR SwapOps12),
     Pattern ''halide.hexagon.add_mul.vw.vw.h'' (bop Add wild_i32x (bop Mul (bc wild_i32) wild_i32x)) (NarrowOp1 OR SwapOps12),
     Pattern ''halide.hexagon.add_mpy.vuh.vub.vub'' (bop Add wild_u16x (bop Mul wild_u16x wild_u16x)) (ReinterleaveOp0 OR NarrowOp1 OR NarrowOp2),
     Pattern ''halide.hexagon.add_mpy.vuw.vuh.vuh'' (bop Add wild_u32x (bop Mul wild_u32x wild_u32x)) (ReinterleaveOp0 OR NarrowOp1 OR NarrowOp2),
     Pattern ''halide.hexagon.add_mpy.vh.vb.vb'' (bop Add wild_i16x (bop Mul wild_i16x wild_i16x)) (ReinterleaveOp0 OR NarrowOp1 OR NarrowOp2),
     Pattern ''halide.hexagon.add_mpy.vw.vh.vh'' (bop Add wild_i32x (bop Mul wild_i32x wild_i32x)) (ReinterleaveOp0 OR NarrowOp1 OR NarrowOp2),
     Pattern ''halide.hexagon.add_mpy.vh.vub.vb'' (bop Add wild_i16x (bop Mul wild_i16x wild_i16x)) (ReinterleaveOp0 OR NarrowUnsignedOp1 OR NarrowOp2),
     Pattern ''halide.hexagon.add_mpy.vw.vh.vuh'' (bop Add wild_i32x (bop Mul wild_i32x wild_i32x)) (ReinterleaveOp0 OR NarrowOp1 OR NarrowUnsignedOp2),
     Pattern ''halide.hexagon.add_mpy.vh.vub.vb'' (bop Add wild_i16x (bop Mul wild_i16x wild_i16x)) (ReinterleaveOp0 OR NarrowOp1 OR NarrowUnsignedOp2 OR SwapOps12),
     Pattern ''halide.hexagon.add_mpy.vw.vh.vuh'' (bop Add wild_i32x (bop Mul wild_i32x wild_i32x)) (ReinterleaveOp0 OR NarrowUnsignedOp1 OR NarrowOp2 OR SwapOps12),
     Pattern ''halide.hexagon.add_mul.vh.vh.vh'' (bop Add wild_i16x (bop Mul wild_i16x wild_i16x)) 0]"

text \<open>The wildcard leaves of a template, in the order in which a traversal meets them.\<close>

fun wildcards :: "expr \<Rightarrow> htype list"
  and wildcards_list :: "expr list \<Rightarrow> htype list" where
  "wildcards (IntImm t v) = []"
| "wildcards (UIntImm t v) = []"
| "wildcards (Variable t n) = (if n = ''*'' then [t] else [])"
| "wildcards (Cast t e) = wildcards e"
| "wildcards (Binary T a b) = wildcards a @ wildcards b"
| "wildcards (Not_e a) = wildcards a"
| "wildcards (Select c t f) = wildcards c @ wildcards t @ wildcards f"
| "wildcards (Load t n i) = wildcards i"
| "wildcards (Ramp b s n) = wildcards b @ wildcards s"
| "wildcards (Broadcast v n) = wildcards v"
| "wildcards (Call t n args ct) = wildcards_list args"
| "wildcards (Let_e n v b) = wildcards v @ wildcards b"
| "wildcards_list [] = []"
| "wildcards_list (e # es) = wildcards e @ wildcards_list es"

section \<open>Models of the collaborators\<close>

text \<open>
  Modelled from the spec: the structural matcher \<^verbatim>\<open>expr_match\<close> of \<^verbatim>\<open>IRMatch.h\<close>, which
  is not under src/. A template matches a candidate of the same shape; a variable named
  \<open>*\<close> is a wildcard and binds the sub-expression at its place when the types are
  compatible: same element kind and bit width, and the same lane count unless the
  template's lane count is the wildcard 0. Lane-count wildcards unify across the whole
  template: the first one fixes the lane count that all later ones must meet. The state
  of a match is that lane count, if fixed, and the operands bound so far.
\<close>

type_synonym match_state = "nat option \<times> expr list"

definition unify_lanes :: "nat \<Rightarrow> nat \<Rightarrow> nat option \<Rightarrow> nat option option" where
  "unify_lanes pl el u =
     (if pl = 0 then
        (case u of
           None \<Rightarrow> Some (Some el)
         | Some k \<Rightarrow> if k = el then Some u else None)
      else if pl = el then Some u else None)"

definition types_match :: "htype \<Rightarrow> htype \<Rightarrow> nat option \<Rightarrow> nat option option" where
  "types_match pt et u =
     (if code pt = code et \<and> bits pt = bits et then unify_lanes (lanes pt) (lanes et) u
      else None)"

fun match_expr :: "expr \<Rightarrow> expr \<Rightarrow> match_state \<Rightarrow> match_state option"
  and match_list :: "expr list \<Rightarrow> expr list \<Rightarrow> match_state \<Rightarrow> match_state option" where
  "match_expr (IntImm t v) e st =
     (case e of
        IntImm t' v' \<Rightarrow>
          (if v = v' then map_option (\<lambda>u. (u, snd st)) (types_match t t' (fst st)) else None)
      | _ \<Rightarrow> None)"
| "match_expr (UIntImm t v) e st =
     (case e of
        UIntImm t' v' \<Rightarrow>
          (if v = v' then map_option (\<lambda>u. (u, snd st)) (types_match t t' (fst st)) else None)
      | _ \<Rightarrow> None)"
| "match_expr (Variable t n) e st =
     (case types_match t (type_of e) (fst st) of
        None \<Rightarrow> None
      | Some u \<Rightarrow>
          (if n = ''*'' then Some (u, snd st @ [e])
           else (case e of
                   Variable t' n' \<Rightarrow> if n' = n then Some (u, snd st) else None
                 | _ \<Rightarrow> None)))"
| "match_expr (Cast t p) e st =
     (case e of
        Cast t' e' \<Rightarrow>
          (case types_match t t' (fst st) of
             None \<Rightarrow> None
           | Some u \<Rightarrow> match_expr p e' (u, snd st))
      | _ \<Rightarrow> None)"
| "match_expr (Binary T a b) e st =
     (case e of
        Binary T' a' b' \<Rightarrow>
          (if T = T' then
             (case match_expr a a' st of
                None \<Rightarrow> None
              | Some st' \<Rightarrow> match_expr b b' st')
           else None)
      | _ \<Rightarrow> None)"
| "match_expr (Not_e a) e st =
     (case e of Not_e a' \<Rightarrow> match_expr a a' st | _ \<Rightarrow> None)"
| "match_expr (Select c t f) e st =
     (case e of
        Select c' t' f' \<Rightarrow>
          (case match_expr c c' st of
             None \<Rightarrow> None
           | Some st1 \<Rightarrow>
               (case match_expr t t' st1 of
                  None \<Rightarrow> None
                | Some st2 \<Rightarrow> match_expr f f' st2))
      | _ \<Rightarrow> None)"
| "match_expr (Load t n i) e st =
     (case e of
        Load t' n' i' \<Rightarrow>
          (if n = n' then
             (case types_match t t' (fst st) of
                None \<Rightarrow> None
              | Some u \<Rightarrow> match_expr i i' (u, snd st))
           else None)
      | _ \<Rightarrow> None)"
| "match_expr (Ramp b s n) e st =
     (case e of
        Ramp b' s' n' \<Rightarrow>
          (case unify_lanes n n' (fst st) of
             None \<Rightarrow> None
           | Some u \<Rightarrow>
               (case match_expr b b' (u, snd st) of
                  None \<Rightarrow> None
                | Some st' \<Rightarrow> match_expr s s' st'))
      | _ \<Rightarrow> None)"
| "match_expr (Broadcast v n) e st =
     (case e of
        Broadcast v' n' \<Rightarrow>
          (case unify_lanes n n' (fst st) of
             None \<Rightarrow> None
           | Some u \<Rightarrow> match_expr v v' (u, snd st))
      | _ \<Rightarrow> None)"
| "match_expr (Call t n args ct) e st =
     (case e of
        Call t' n' args' ct' \<Rightarrow>
          (if n = n' \<and> ct = ct' then
             (case types_match t t' (fst st) of
                None \<Rightarrow> None
              | Some u \<Rightarrow> match_list args args' (u, snd st))
           else None)
      | _ \<Rightarrow> None)"
| "match_expr (Let_e n v b) e st =
     (case e of
        Let_e n' v' b' \<Rightarrow>
          (if n = n' then
             (case match_expr v v' st of
                None \<Rightarrow> None
              | Some st' \<Rightarrow> match_expr b b' st')
           else None)
      | _ \<Rightarrow> None)"
| "match_list [] es st = (case es of [] \<Rightarrow> Some st | _ \<Rightarrow> None)"
| "match_list (p # ps) es st =
     (case es of
        [] \<Rightarrow> None
      | e # es' \<Rightarrow>
          (case match_expr p e st of
             None \<Rightarrow> None
           | Some st' \<Rightarrow> match_list ps es' st'))"

definition expr_match_model :: "expr \<Rightarrow> expr \<Rightarrow> expr list option" where
  "expr_match_model p e = map_option snd (match_expr p e (None, []))"

text \<open>
  Modelled from the spec: the lossless-cast query of \<^verbatim>\<open>IROperator.h\<close>, which is not
  under src/: a cast to the type that provably keeps the value, or nothing. The model
  knows an expression of the type already, a constant that the type can represent, a
  cast from the type and a broadcast of such a value; it gives nothing for the rest.
\<close>

definition can_represent :: "htype \<Rightarrow> int \<Rightarrow> bool" where
  "can_represent t v =
     (if code t = TInt then - (2 ^ (bits t - 1)) \<le> v \<and> v < 2 ^ (bits t - 1)
      else if code t = TUInt then 0 \<le> v \<and> v < 2 ^ bits t
      else False)"

fun lossless_cast_model :: "htype \<Rightarrow> expr \<Rightarrow> expr option" where
  "lossless_cast_model t (IntImm t' v) =
     (if t' = t then Some (IntImm t' v)
      else if lanes t = 1 \<and> can_represent t v then Some (imm t v) else None)"
| "lossless_cast_model t (UIntImm t' v) =
     (if t' = t then Some (UIntImm t' v)
      else if lanes t = 1 \<and> can_represent t (int v) then Some (imm t (int v)) else None)"
| "lossless_cast_model t (Cast t' v) =
     (if t' = t then Some (Cast t' v) else if type_of v = t then Some v else None)"
| "lossless_cast_model t (Broadcast v n) =
     (if lanes t = n then
        (case lossless_cast_model (with_lanes_t t 1) v of
           None \<Rightarrow> None
         | Some v' \<Rightarrow> if type_of v' = with_lanes_t t 1 then Some (Broadcast v' n) else None)
      else None)"
| "lossless_cast_model t e = (if type_of e = t then Some e else None)"

text \<open>
  Modelled from the spec: the power-of-two predicate of \<^verbatim>\<open>IROperator.h\<close>, which is not
  under src/: the exponent of an integer constant that is a power of two, looking
  through broadcasts and casts; exponents below 64 are tried in turn.
\<close>

fun log2_search :: "nat \<Rightarrow> nat \<Rightarrow> nat \<Rightarrow> int option" where
  "log2_search 0 k v = None"
| "log2_search (Suc fuel) k v = (if 2 ^ k = v then Some (int k) else log2_search fuel (Suc k) v)"

fun is_const_power_of_two_integer_model :: "expr \<Rightarrow> int option" where
  "is_const_power_of_two_integer_model (IntImm t v) =
     (if code t = TInt \<and> 0 \<le> v then log2_search 64 0 (nat v) else None)"
| "is_const_power_of_two_integer_model (UIntImm t v) =
     (if code t = TUInt then log2_search 64 0 v else None)"
| "is_const_power_of_two_integer_model (Broadcast v n) = is_const_power_of_two_integer_model v"
| "is_const_power_of_two_integer_model (Cast t v) =
     (if code t = TInt \<or> code t = TUInt then is_const_power_of_two_integer_model v else None)"
| "is_const_power_of_two_integer_model e = None"

definition model_externals :: externals where
  "model_externals = \<lparr> expr_match = expr_match_model, lossless_cast = lossless_cast_model,
     is_const_power_of_two_integer = is_const_power_of_two_integer_model, cast = cast_model \<rparr>"

text \<open>The base \<^verbatim>\<open>IRMutator\<close>, which overrides nothing, returns every node as it is.\<close>

definition IRMutator_mutate :: "expr \<Rightarrow> mres" where
  "IRMutator_mutate e = Inr (e, True)"

section \<open>Well-formed flag sets\<close>

text \<open>
  What the assertions of \<^verbatim>\<open>apply_patterns\<close> need of a pattern: enough wildcards for the
  swaps it asks for, and a vector wildcard, not replaced by an exact logarithm, wherever
  it asks for a deinterleave tag. \<open>log2_flag fl i\<close> is the test of the second loop for
  operand \<open>i\<close>.
\<close>

definition log2_flag :: "nat \<Rightarrow> nat \<Rightarrow> bool" where
  "log2_flag fl i = (if i = 0 then False else has_flag fl (push_bit (i - 1) ExactLog2Op1))"

fun positional_ok :: "nat \<Rightarrow> nat \<Rightarrow> htype list \<Rightarrow> bool" where
  "positional_ok fl i [] = True"
| "positional_ok fl i (t # ts) =
     ((if has_flag fl (push_bit i DeinterleaveOp0)
       then is_vector t \<and> \<not> log2_flag fl i else True)
      \<and> positional_ok fl (Suc i) ts)"

definition flags_ok :: "pattern \<Rightarrow> bool" where
  "flags_ok p =
     (let n = length (wildcards (pattern p)) in
      n \<le> 3
      \<and> (if has_flag (flags p) SwapOps01 then 2 \<le> n else True)
      \<and> (if has_flag (flags p) SwapOps12 then 3 \<le> n else True)
      \<and> (if has_flag (flags p) ExactLog2Op1 then 2 \<le> n else True)
      \<and> (if has_flag (flags p) ExactLog2Op2 then 3 \<le> n else True)
      \<and> (if has_flag (flags p) DeinterleaveOp0 then 1 \<le> n else True)
      \<and> (if has_flag (flags p) DeinterleaveOp1 then 2 \<le> n else True)
      \<and> (if has_flag (flags p) DeinterleaveOp2 then 3 \<le> n else True)
      \<and> positional_ok (flags p) 0 (wildcards (pattern p)))"

text \<open>The failed assertions among the errors.\<close>

fun is_assert :: "error \<Rightarrow> bool" where
  "is_assert AssertNotVector = True"
| "is_assert AssertSwap01 = True"
| "is_assert AssertSwap12 = True"
| "is_assert e = False"

definition asserts :: "error + 'a \<Rightarrow> bool" where
  "asserts r = (case r of Inl e \<Rightarrow> is_assert e | Inr v \<Rightarrow> False)"


section \<open>The instruction selector\<close>

text \<open>
  Modelled from the spec: the generic traversal of \<^verbatim>\<open>IRMutator.h\<close>, which is not under
  src/. The default visit of a node rewrites its children with the mutator at hand and
  rebuilds the node; it returns the node itself when no child changed.
\<close>

fun mutate_children :: "(expr \<Rightarrow> mres) \<Rightarrow> expr list \<Rightarrow> error + (expr list \<times> bool)" where
  "mutate_children mut [] = Inr ([], False)"
| "mutate_children mut (i # args) =
     ebind (mut i) (\<lambda>ri.
     ebind (mutate_children mut args) (\<lambda>ra.
       Inr (fst ri # fst ra, if snd ri then snd ra else True)))"

fun IRMutator_visit :: "(expr \<Rightarrow> mres) \<Rightarrow> expr \<Rightarrow> mres" where
  "IRMutator_visit mut (IntImm t v) = Inr (IntImm t v, True)"
| "IRMutator_visit mut (UIntImm t v) = Inr (UIntImm t v, True)"
| "IRMutator_visit mut (Variable t n) = Inr (Variable t n, True)"
| "IRMutator_visit mut (Cast t v) =
     ebind (mut v) (\<lambda>rv.
       if snd rv then Inr (Cast t v, True) else Inr (Cast t (fst rv), False))"
| "IRMutator_visit mut (Binary T a b) =
     ebind (mut a) (\<lambda>ra.
     ebind (mut b) (\<lambda>rb.
       if snd ra \<and> snd rb then Inr (Binary T a b, True)
       else Inr (Binary T (fst ra) (fst rb), False)))"
| "IRMutator_visit mut (Not_e a) =
     ebind (mut a) (\<lambda>ra.
       if snd ra then Inr (Not_e a, True) else Inr (Not_e (fst ra), False))"
| "IRMutator_visit mut (Select c t f) =
     ebind (mut c) (\<lambda>rc.
     ebind (mut t) (\<lambda>rt.
     ebind (mut f) (\<lambda>rf.
       if snd rc \<and> snd rt \<and> snd rf then Inr (Select c t f, True)
       else Inr (Select (fst rc) (fst rt) (fst rf), False))))"
| "IRMutator_visit mut (Load t n i) =
     ebind (mut i) (\<lambda>ri.
       if snd ri then Inr (Load t n i, True) else Inr (Load t n (fst ri), False))"
| "IRMutator_visit mut (Ramp b s n) =
     ebind (mut b) (\<lambda>rb.
     ebind (mut s) (\<lambda>rs.
       if snd rb \<and> snd rs then Inr (Ramp b s n, True)
       else Inr (Ramp (fst rb) (fst rs) n, False)))"
| "IRMutator_visit mut (Broadcast v n) =
     ebind (mut v) (\<lambda>rv.
       if snd rv then Inr (Broadcast v n, True) else Inr (Broadcast (fst rv) n, False))"
| "IRMutator_visit mut (Call t n args ct) =
     ebind (mutate_children mut args) (\<lambda>ra.
       if snd ra then Inr (Call t n (fst ra) ct, False) else Inr (Call t n args ct, True))"
| "IRMutator_visit mut (Let_e n v b) =
     ebind (mut v) (\<lambda>rv.
     ebind (mut b) (\<lambda>rb.
       if snd rv \<and> snd rb then Inr (Let_e n v b, True)
       else Inr (Let_e n (fst rv) (fst rb), False)))"

text \<open>
  The queries on expressions that are not under src/ are parameters: the algebraic
  simplifier, the sign predicates on constants, common-subexpression elimination, the
  bounds of an expression in a scope of intervals, and the two readers of constants.
\<close>

type_synonym interval = "expr \<times> expr"

record queries =
  simplify :: "expr \<Rightarrow> expr"
  is_negative_negatable_const :: "expr \<Rightarrow> bool"
  is_positive_const :: "expr \<Rightarrow> bool"
  common_subexpression_elimination :: "expr \<Rightarrow> expr"
  bounds_of_expr_in_scope :: "expr \<Rightarrow> (string \<times> interval) list \<Rightarrow> interval"
  is_one :: "expr \<Rightarrow> bool"
  as_const_int :: "expr \<Rightarrow> int option"

text \<open>
  Modelled from the spec: the unary minus of \<^verbatim>\<open>IROperator.h\<close>, the subtraction from the
  zero of the type.
\<close>

definition neg :: "expr \<Rightarrow> expr" where
  "neg x = Binary Sub (make_const (type_of x) 0) x"

definition negate_const :: "queries \<Rightarrow> expr \<Rightarrow> expr option" where
  "negate_const Q x =
     (if is_negative_negatable_const Q x \<or> is_positive_const Q x
      then Some (simplify Q (neg x)) else None)"

fun lossless_negate :: "queries \<Rightarrow> expr \<Rightarrow> expr option" where
  "lossless_negate Q (Binary T a b) =
     (if T = Mul then
        (case lossless_negate Q a of
           Some a' \<Rightarrow> Some (Binary Mul a' b)
         | None \<Rightarrow>
             (case lossless_negate Q b of
                Some b' \<Rightarrow> Some (Binary Mul a b')
              | None \<Rightarrow> negate_const Q (Binary T a b)))
      else negate_const Q (Binary T a b))"
| "lossless_negate Q x = negate_const Q x"

text \<open>
  The visit methods of \<^verbatim>\<open>OptimizePatterns\<close> take the mutator (\<^verbatim>\<open>this\<close>) as an argument:
  it rewrites the operands inside \<^verbatim>\<open>apply_patterns\<close> and the children in the generic
  traversal.
\<close>

definition visit_commutative_op ::
  "externals \<Rightarrow> (expr \<Rightarrow> mres) \<Rightarrow> binop \<Rightarrow> expr \<Rightarrow> expr \<Rightarrow> pattern list \<Rightarrow> mres" where
  "visit_commutative_op X mut T a b patterns =
     (if is_vector (type_of (Binary T a b)) then
        ebind (apply_patterns X mut patterns (Binary T a b)) (\<lambda>r1.
          if \<not> snd r1 then Inr (fst r1, False)
          else
            ebind (apply_patterns X mut patterns (Binary T b a)) (\<lambda>r2.
              if \<not> snd r2 then Inr (fst r2, False)
              else IRMutator_visit mut (Binary T a b)))
      else IRMutator_visit mut (Binary T a b))"

definition visit_Sub :: "queries \<Rightarrow> externals \<Rightarrow> (expr \<Rightarrow> mres) \<Rightarrow> expr \<Rightarrow> expr \<Rightarrow> mres" where
  "visit_Sub Q X mut a b =
     (if is_vector (type_of (Binary Sub a b)) then
        (case lossless_negate Q b of
           Some neg_b \<Rightarrow>
             ebind (apply_patterns X mut adds (Binary Add a neg_b)) (\<lambda>r1.
               if \<not> snd r1 then Inr (fst r1, False)
               else
                 ebind (apply_patterns X mut adds (Binary Add neg_b a)) (\<lambda>r2.
                   if \<not> snd r2 then Inr (fst r2, False)
                   else IRMutator_visit mut (Binary Sub a b)))
         | None \<Rightarrow> IRMutator_visit mut (Binary Sub a b))
      else IRMutator_visit mut (Binary Sub a b))"

text \<open>
  Modelled from the spec: \<^verbatim>\<open>count_leading_zeros\<close>, the bitwise complement and \<^verbatim>\<open>max\<close>
  of \<^verbatim>\<open>IROperator.h\<close>, with which the two templates of \<^verbatim>\<open>visit(const Max *)\<close> are built.
\<close>

definition count_leading_zeros :: "expr \<Rightarrow> expr" where
  "count_leading_zeros x = Call (type_of x) ''count_leading_zeros'' [x] PureIntrinsic"

definition bitwise_not :: "expr \<Rightarrow> expr" where
  "bitwise_not x = Call (type_of x) ''bitwise_not'' [x] PureIntrinsic"

definition cl :: "(string \<times> expr) list" where
  "cl = [
     (''halide.hexagon.cls.vh'',
      bop Max_op (count_leading_zeros wild_i16x) (count_leading_zeros (bitwise_not wild_i16x))),
     (''halide.hexagon.cls.vw'',
      bop Max_op (count_leading_zeros wild_i32x) (count_leading_zeros (bitwise_not wild_i32x)))]"

text \<open>
  The loop over the two templates. The matcher binds both wildcards of a template that
  matches; a shorter list of operands cannot come back and counts as no match.
\<close>

fun cls_loop :: "externals \<Rightarrow> htype \<Rightarrow> expr \<Rightarrow> (string \<times> expr) list \<Rightarrow> expr option" where
  "cls_loop X t e [] = None"
| "cls_loop X t e (i # rest) =
     (case expr_match X (snd i) e of
        Some (m0 # m1 # ms) \<Rightarrow>
          (if m0 = m1 then Some (bop_c Add (Call t (fst i) [m0] PureExtern) 1)
           else cls_loop X t e rest)
      | _ \<Rightarrow> cls_loop X t e rest)"

definition visit_Max :: "externals \<Rightarrow> (expr \<Rightarrow> mres) \<Rightarrow> expr \<Rightarrow> expr \<Rightarrow> mres" where
  "visit_Max X mut a b =
     ebind (IRMutator_visit mut (Binary Max_op a b)) (\<lambda>r.
       if is_vector (type_of (Binary Max_op a b)) then
         (case cls_loop X (type_of (Binary Max_op a b)) (fst r) cl of
            Some e \<Rightarrow> Inr (e, False)
          | None \<Rightarrow> Inr r)
       else Inr r)"

text \<open>
  \<^verbatim>\<open>visit(const Cast *)\<close> with its table of two-stage casts. \<open>with_lanes\<close> is the mutator
  \<^verbatim>\<open>WithLanes\<close>. Modelled from the spec: \<^verbatim>\<open>substitute\<close> of \<^verbatim>\<open>Substitute.h\<close>, which is not
  under src/, replaces the variables of a name by an expression.
\<close>

fun with_lanes :: "expr \<Rightarrow> nat \<Rightarrow> expr"
  and with_lanes_list :: "expr list \<Rightarrow> nat \<Rightarrow> expr list" where
  "with_lanes (IntImm t v) l = IntImm t v"
| "with_lanes (UIntImm t v) l = UIntImm t v"
| "with_lanes (Variable t n) l =
     (if lanes t \<noteq> l then Variable (with_lanes_t t l) n else Variable t n)"
| "with_lanes (Cast t v) l =
     (if lanes t \<noteq> l then Cast (with_lanes_t t l) (with_lanes v l) else Cast t (with_lanes v l))"
| "with_lanes (Binary T a b) l = Binary T (with_lanes a l) (with_lanes b l)"
| "with_lanes (Not_e a) l = Not_e (with_lanes a l)"
| "with_lanes (Select c t f) l = Select (with_lanes c l) (with_lanes t l) (with_lanes f l)"
| "with_lanes (Load t n i) l = Load t n (with_lanes i l)"
| "with_lanes (Ramp b s n) l = Ramp (with_lanes b l) (with_lanes s l) n"
| "with_lanes (Broadcast v n) l =
     (if n \<noteq> l then Broadcast v l else Broadcast (with_lanes v l) n)"
| "with_lanes (Call t n args ct) l = Call t n (with_lanes_list args l) ct"
| "with_lanes (Let_e n v b) l = Let_e n (with_lanes v l) (with_lanes b l)"
| "with_lanes_list [] l = []"
| "with_lanes_list (e # es) l = with_lanes e l # with_lanes_list es l"

fun substitute :: "string \<Rightarrow> expr \<Rightarrow> expr \<Rightarrow> expr"
  and substitute_list :: "string \<Rightarrow> expr \<Rightarrow> expr list \<Rightarrow> expr list" where
  "substitute x r (IntImm t v) = IntImm t v"
| "substitute x r (UIntImm t v) = UIntImm t v"
| "substitute x r (Variable t n) = (if n = x then r else Variable t n)"
| "substitute x r (Cast t v) = Cast t (substitute x r v)"
| "substitute x r (Binary T a b) = Binary T (substitute x r a) (substitute x r b)"
| "substitute x r (Not_e a) = Not_e (substitute x r a)"
| "substitute x r (Select c t f) =
     Select (substitute x r c) (substitute x r t) (substitute x r f)"
| "substitute x r (Load t n i) = Load t n (substitute x r i)"
| "substitute x r (Ramp b s n) = Ramp (substitute x r b) (substitute x r s) n"
| "substitute x r (Broadcast v n) = Broadcast (substitute x r v) n"
| "substitute x r (Call t n args ct) = Call t n (substitute_list x r args) ct"
| "substitute x r (Let_e n v b) = Let_e n (substitute x r v) (substitute x r b)"
| "substitute_list x r [] = []"
| "substitute_list x r (e # es) = substitute x r e # substitute_list x r es"

definition cast_rewrites :: "(expr \<times> expr) list" where
  "cast_rewrites = [
     (u8c wild_u32x, u8c (u16c wild_u32x)),
     (u8c wild_i32x, u8c (i16c wild_i32x)),
     (i8c wild_u32x, i8c (u16c wild_u32x)),
     (i8c wild_i32x, i8c (i16c wild_i32x)),
     (u8 wild_u32x, u8 (u16 wild_u32x)),
     (u8 wild_i32x, u8 (i16 wild_i32x)),
     (i8 wild_u32x, i8 (u16 wild_u32x)),
     (i8 wild_i32x, i8 (i16 wild_i32x)),
     (u32 wild_u8x, u32 (u16 wild_u8x)),
     (u32 wild_i8x, u32 (i16 wild_i8x)),
     (i32 wild_u8x, i32 (u16 wild_u8x)),
     (i32 wild_i8x, i32 (i16 wild_i8x))]"

fun rewrite_loop :: "externals \<Rightarrow> expr \<Rightarrow> nat \<Rightarrow> (expr \<times> expr) list \<Rightarrow> expr option" where
  "rewrite_loop X e l [] = None"
| "rewrite_loop X e l (i # rest) =
     (case expr_match X (fst i) e of
        Some (m0 # ms) \<Rightarrow> Some (substitute ''*'' m0 (with_lanes (snd i) l))
      | _ \<Rightarrow> rewrite_loop X e l rest)"

definition visit_Cast_select :: "externals \<Rightarrow> (expr \<Rightarrow> mres) \<Rightarrow> htype \<Rightarrow> expr \<Rightarrow> mres" where
  "visit_Cast_select X mut t v =
     (if is_vector t then
        ebind (apply_patterns X mut casts (Cast t v)) (\<lambda>r.
          if \<not> snd r then Inr (fst r, False)
          else
            (case rewrite_loop X (Cast t v) (lanes t) cast_rewrites of
               Some e \<Rightarrow> ebind (mut e) (\<lambda>r'. Inr (fst r', False))
             | None \<Rightarrow> IRMutator_visit mut (Cast t v)))
      else IRMutator_visit mut (Cast t v))"

text \<open>
  The mutator \<^verbatim>\<open>OptimizePatterns\<close> itself. It mutates expressions that it has built
  (the operands of a pattern, a two-stage cast), so the recursion is bounded by fuel.
\<close>

fun OptimizePatterns :: "queries \<Rightarrow> externals \<Rightarrow> nat \<Rightarrow> expr \<Rightarrow> mres" where
  "OptimizePatterns Q X 0 e = Inl OutOfFuel"
| "OptimizePatterns Q X (Suc fuel) e =
     (case e of
        Binary T a b \<Rightarrow>
          (if T = Mul then visit_commutative_op X (OptimizePatterns Q X fuel) Mul a b muls
           else if T = Add then visit_commutative_op X (OptimizePatterns Q X fuel) Add a b adds
           else if T = Sub then visit_Sub Q X (OptimizePatterns Q X fuel) a b
           else if T = Max_op then visit_Max X (OptimizePatterns Q X fuel) a b
           else IRMutator_visit (OptimizePatterns Q X fuel) e)
      | Cast t v \<Rightarrow> visit_Cast_select X (OptimizePatterns Q X fuel) t v
      | _ \<Rightarrow> IRMutator_visit (OptimizePatterns Q X fuel) e)"

section \<open>Models of the queries\<close>

text \<open>
  Modelled from the spec: the sign predicates on constants of \<^verbatim>\<open>IROperator.h\<close>, which is
  not under src/. They look through broadcasts and casts. A negative constant is
  negatable when it is not the least value of its type.
\<close>

fun is_positive_const_model :: "expr \<Rightarrow> bool" where
  "is_positive_const_model (IntImm t v) = (0 < v)"
| "is_positive_const_model (UIntImm t v) = (0 < v)"
| "is_positive_const_model (Cast t v) = is_positive_const_model v"
| "is_positive_const_model (Broadcast v n) = is_positive_const_model v"
| "is_positive_const_model e = False"

fun is_negative_negatable_const_model :: "expr \<Rightarrow> bool" where
  "is_negative_negatable_const_model (IntImm t v) = (v < 0 \<and> v \<noteq> - (2 ^ (bits t - 1)))"
| "is_negative_negatable_const_model (Cast t v) = is_negative_negatable_const_model v"
| "is_negative_negatable_const_model (Broadcast v n) = is_negative_negatable_const_model v"
| "is_negative_negatable_const_model e = False"

text \<open>
  Modelled from the spec: the algebraic simplifier of \<^verbatim>\<open>Simplify.h\<close>, which is not under
  src/. The model folds a sum, a difference or a comparison of two constants of one type
  (scalar, or broadcast to the same lanes) at the root of the expression, in the
  arithmetic of the type, and leaves every other expression as it is.
\<close>

fun const_of :: "expr \<Rightarrow> (htype \<times> int) option" where
  "const_of (IntImm t v) = Some (t, v)"
| "const_of (UIntImm t v) = Some (t, int v)"
| "const_of (Broadcast (IntImm t v) n) = Some (with_lanes_t t n, v)"
| "const_of (Broadcast (UIntImm t v) n) = Some (with_lanes_t t n, int v)"
| "const_of e = None"

definition wrap :: "htype \<Rightarrow> int \<Rightarrow> int" where
  "wrap t v =
     (if code t = TUInt then v mod 2 ^ bits t
      else if code t = TInt then (v + 2 ^ (bits t - 1)) mod 2 ^ bits t - 2 ^ (bits t - 1)
      else v)"

definition fold_const :: "binop \<Rightarrow> htype \<Rightarrow> int \<Rightarrow> int \<Rightarrow> expr option" where
  "fold_const T t x y =
     (if T = Add then Some (make_const t (wrap t (x + y)))
      else if T = Sub then Some (make_const t (wrap t (x - y)))
      else if T = LT then Some (make_const (Bool_t (lanes t)) (if x < y then 1 else 0))
      else None)"

fun simplify_model :: "expr \<Rightarrow> expr" where
  "simplify_model (Binary T a b) =
     (case (const_of a, const_of b) of
        (Some (t, x), Some (t', y)) \<Rightarrow>
          (if t = t' then
             (case fold_const T t x y of Some e \<Rightarrow> e | None \<Rightarrow> Binary T a b)
           else Binary T a b)
      | _ \<Rightarrow> Binary T a b)"
| "simplify_model e = e"

text \<open>
  Modelled from the spec: the readers of constants of \<^verbatim>\<open>IROperator.h\<close>, which is not
  under src/: the value of a signed integer constant, and the test for the constant one;
  both look through broadcasts.
\<close>

fun as_const_int_model :: "expr \<Rightarrow> int option" where
  "as_const_int_model (IntImm t v) = Some v"
| "as_const_int_model (Broadcast v n) = as_const_int_model v"
| "as_const_int_model e = None"

fun is_one_model :: "expr \<Rightarrow> bool" where
  "is_one_model (IntImm t v) = (v = 1)"
| "is_one_model (UIntImm t v) = (v = 1)"
| "is_one_model (Cast t v) = is_one_model v"
| "is_one_model (Broadcast v n) = is_one_model v"
| "is_one_model e = False"

text \<open>
  Modelled from the spec: the bounds of an expression in a scope of \<^verbatim>\<open>Bounds.h\<close>, which
  is not under src/: a conservative interval. The model knows the interval of a variable
  in the scope, a constant, a broadcast, and the clamps \<open>min\<close> and \<open>max\<close> with a constant
  on the right; a variable outside the scope is its own interval.
\<close>

fun lookup_bounds :: "(string \<times> interval) list \<Rightarrow> string \<Rightarrow> interval option" where
  "lookup_bounds [] n = None"
| "lookup_bounds (b # bounds) n = (if fst b = n then Some (snd b) else lookup_bounds bounds n)"

fun bounds_model :: "expr \<Rightarrow> (string \<times> interval) list \<Rightarrow> interval" where
  "bounds_model (IntImm t v) sc = (IntImm t v, IntImm t v)"
| "bounds_model (UIntImm t v) sc = (UIntImm t v, UIntImm t v)"
| "bounds_model (Variable t n) sc =
     (case lookup_bounds sc n of
        Some i \<Rightarrow> i
      | None \<Rightarrow> (Variable t n, Variable t n))"
| "bounds_model (Broadcast v n) sc = bounds_model v sc"
| "bounds_model (Binary T a b) sc =
     (if T = Min_op \<or> T = Max_op then
        (case const_of (fst (bounds_model b sc)) of
           Some k \<Rightarrow>
             (Binary T (fst (bounds_model a sc)) (fst (bounds_model b sc)),
              Binary T (snd (bounds_model a sc)) (snd (bounds_model b sc)))
         | None \<Rightarrow> (Binary T a b, Binary T a b))
      else (Binary T a b, Binary T a b))"
| "bounds_model e sc = (e, e)"

definition model_queries :: queries where
  "model_queries = \<lparr> simplify = simplify_model,
     is_negative_negatable_const = is_negative_negatable_const_model,
     is_positive_const = is_positive_const_model,
     common_subexpression_elimination = (\<lambda>e. e),
     bounds_of_expr_in_scope = bounds_model,
     is_one = is_one_model,
     as_const_int = as_const_int_model \<rparr>"

section \<open>Lossless negation, in the words of the specification\<close>

text \<open>
  An expression is losslessly negatable when it is a negatable constant, or a product
  with a negatable factor.
\<close>

fun losslessly_negatable :: "queries \<Rightarrow> expr \<Rightarrow> bool" where
  "losslessly_negatable Q (Binary T a b) =
     ((T = Mul \<and> (losslessly_negatable Q a \<or> losslessly_negatable Q b))
      \<or> is_negative_negatable_const Q (Binary T a b) \<or> is_positive_const Q (Binary T a b))"
| "losslessly_negatable Q x = (is_negative_negatable_const Q x \<or> is_positive_const Q x)"

text \<open>
  \<open>negates Q x v\<close>: \<open>v\<close> is \<open>x\<close> with one negatable constant, \<open>x\<close> itself or a factor of
  the product \<open>x\<close>, replaced by its simplified negation.
\<close>

inductive negates :: "queries \<Rightarrow> expr \<Rightarrow> expr \<Rightarrow> bool" where
  negates_const:
    "is_negative_negatable_const Q x \<or> is_positive_const Q x
       \<Longrightarrow> negates Q x (simplify Q (neg x))"
| negates_left: "negates Q a a' \<Longrightarrow> negates Q (Binary Mul a b) (Binary Mul a' b)"
| negates_right: "negates Q b b' \<Longrightarrow> negates Q (Binary Mul a b) (Binary Mul a b')"

section \<open>The upper bound of an expression and the shuffle optimizer\<close>

fun as_Max :: "expr \<Rightarrow> (expr \<times> expr) option" where
  "as_Max (Binary T a b) = (if T = Max_op then Some (a, b) else None)"
| "as_Max e = None"

fun as_Min :: "expr \<Rightarrow> (expr \<times> expr) option" where
  "as_Min (Binary T a b) = (if T = Min_op then Some (a, b) else None)"
| "as_Min e = None"

text \<open>
  The test of \<^verbatim>\<open>UpperBound::visit(const Sub *)\<close> on the two mutated operands: both are
  a \<open>max\<close> (or both a \<open>min\<close>) and their second operands are structurally equal. It gives
  the two first operands.
\<close>

definition equal_second :: "(expr \<times> expr) option \<Rightarrow> (expr \<times> expr) option \<Rightarrow> (expr \<times> expr) option"
  where
  "equal_second ma mb =
     (case ma of
        Some a \<Rightarrow>
          (case mb of
             Some b \<Rightarrow> (if snd a = snd b then Some (fst a, fst b) else None)
           | None \<Rightarrow> None)
      | None \<Rightarrow> None)"

definition UpperBound_visit_Sub :: "queries \<Rightarrow> (expr \<Rightarrow> mres) \<Rightarrow> expr \<Rightarrow> expr \<Rightarrow> mres" where
  "UpperBound_visit_Sub Q mut op_a op_b =
     ebind (mut op_a) (\<lambda>ra.
     ebind (mut op_b) (\<lambda>rb.
       (case equal_second (as_Max (fst ra)) (as_Max (fst rb)) of
          Some m \<Rightarrow>
            ebind (mut (simplify Q (bop Sub (fst m) (snd m)))) (\<lambda>r. Inr (fst r, False))
        | None \<Rightarrow>
            (case equal_second (as_Min (fst ra)) (as_Min (fst rb)) of
               Some m \<Rightarrow>
                 ebind (mut (simplify Q (bop Sub (fst m) (snd m)))) (\<lambda>r. Inr (fst r, False))
             | None \<Rightarrow>
                 (if \<not> snd ra \<or> \<not> snd rb then Inr (Binary Sub (fst ra) (fst rb), False)
                  else Inr (Binary Sub op_a op_b, True))))))"

text \<open>
  The mutator \<^verbatim>\<open>UpperBound\<close>. It mutates the difference that it has built and
  simplified, so the recursion is bounded by fuel.
\<close>

fun UpperBound :: "queries \<Rightarrow> nat \<Rightarrow> expr \<Rightarrow> mres" where
  "UpperBound Q 0 e = Inl OutOfFuel"
| "UpperBound Q (Suc fuel) e =
     (case e of
        Binary T a b \<Rightarrow>
          (if T = Sub then UpperBound_visit_Sub Q (UpperBound Q fuel) a b
           else IRMutator_visit (UpperBound Q fuel) e)
      | _ \<Rightarrow> IRMutator_visit (UpperBound Q fuel) e)"

definition upper_bound :: "queries \<Rightarrow> nat \<Rightarrow> expr \<Rightarrow> error + expr" where
  "upper_bound Q fuel x = ebind (UpperBound Q fuel x) (\<lambda>r. Inr (simplify Q (fst r)))"








text \<open>
  Modelled from the spec: the value of a scalar integer expression under a valuation of
  its free variables; the arithmetic of the expression language is not under src/. The
  model covers constants, variables, sums, differences, \<open>min\<close> and \<open>max\<close>, in
  integer arithmetic.
\<close>

fun value_of :: "(string \<Rightarrow> int) \<Rightarrow> expr \<Rightarrow> int option" where
  "value_of env (IntImm t v) = Some v"
| "value_of env (UIntImm t v) = Some (int v)"
| "value_of env (Variable t n) = Some (env n)"
| "value_of env (Binary T a b) =
     (case value_of env a of
        Some x \<Rightarrow>
          (case value_of env b of
             Some y \<Rightarrow>
               (if T = Add then Some (x + y)
                else if T = Sub then Some (x - y)
                else if T = Min_op then Some (min x y)
                else if T = Max_op then Some (max x y)
                else None)
           | None \<Rightarrow> None)
      | None \<Rightarrow> None)"
| "value_of env e = None"



section \<open>Sample expressions\<close>

text \<open>Concrete inputs at which the theorems below are instantiated.\<close>

definition v0 :: expr where
  "v0 = Variable (UInt_t 8 64) ''v''"

text \<open>\<^verbatim>\<open>native_deinterleave(native_interleave(x))\<close> for an 8-bit \<open>x\<close>.\<close>

definition pair_of :: "expr \<Rightarrow> expr" where
  "pair_of x = Call (type_of x) ''halide.hexagon.deinterleave.vb''
     [Call (type_of x) ''halide.hexagon.interleave.vb'' [x] PureExtern] PureExtern"

definition bc0 :: expr where
  "bc0 = Broadcast (Variable (UInt_t 8 1) ''s'') 64"

definition vx :: expr where
  "vx = Variable (UInt_t 8 64) ''x''"

definition deint_vb :: "expr \<Rightarrow> expr" where
  "deint_vb e = Call (type_of e) ''halide.hexagon.deinterleave.vb'' [e] PureExtern"

definition c0 :: expr where
  "c0 = Call (UInt_t 8 1) ''f'' [pair_of v0] Extern"

definition int_vb :: "expr \<Rightarrow> expr" where
  "int_vb e = Call (type_of e) ''halide.hexagon.interleave.vb'' [e] PureExtern"

definition vxd :: expr where
  "vxd = Variable (UInt_t 8 64) ''x.deinterleaved''"

definition let_both :: expr where
  "let_both = Let_e ''x'' (int_vb v0) (Binary Add (deint_vb vx) vx)"

definition let_kept :: expr where
  "let_kept = Let_e ''x'' (int_vb (pair_of v0)) (IntImm (Int_t 32 1) 5)"


definition va16 :: expr where "va16 = Variable (Int_t 16 64) ''a''"
definition vb16 :: expr where "vb16 = Variable (Int_t 16 64) ''b''"
definition vc16 :: expr where "vc16 = Variable (Int_t 16 64) ''c''"

text \<open>\<open>a + b * c\<close> on 16-bit signed vectors.\<close>

definition mac16 :: expr where "mac16 = bop Add va16 (bop Mul vb16 vc16)"

definition acc16 :: expr where "acc16 = Variable (UInt_t 16 64) ''acc''"
definition s8 :: expr where "s8 = Variable (UInt_t 8 1) ''s''"
definition v8 :: expr where "v8 = Variable (UInt_t 8 64) ''v''"

text \<open>\<open>acc + broadcast(u16(s)) * u16(v)\<close>: a widening multiply-accumulate with a scalar.\<close>

definition wmac :: expr where
  "wmac = bop Add acc16 (bop Mul (Broadcast (Cast (UInt_t 16 1) s8) 64) (Cast (UInt_t 16 64) v8))"

definition a32 :: expr where "a32 = Variable (Int_t 32 64) ''a''"
definition b32 :: expr where "b32 = Variable (Int_t 32 64) ''b''"

text \<open>\<open>a + b * 8\<close>, \<open>a + b * 6\<close>, \<open>a + b / 8\<close> and \<open>a + b / 6\<close> on 32-bit signed vectors.\<close>

definition mul_by_8 :: expr where "mul_by_8 = bop Add a32 (bop_c Mul b32 8)"
definition mul_by_6 :: expr where "mul_by_6 = bop Add a32 (bop_c Mul b32 6)"
definition div_by_8 :: expr where "div_by_8 = bop Add a32 (bop_c Div b32 8)"
definition div_by_6 :: expr where "div_by_6 = bop Add a32 (bop_c Div b32 6)"

text \<open>\<open>a - b * 8\<close> and \<open>a - b\<close> on 32-bit signed vectors.\<close>

definition sub_mul_8 :: expr where "sub_mul_8 = bop Sub a32 (bop_c Mul b32 8)"
definition sub_ab :: expr where "sub_ab = bop Sub a32 b32"

definition h16 :: expr where "h16 = Variable (Int_t 16 64) ''h''"
definition g16 :: expr where "g16 = Variable (Int_t 16 64) ''g''"

text \<open>
  \<open>max(count_leading_zeros(h), count_leading_zeros(~h))\<close> on a 16-bit signed vector, and
  the same with another variable under the complement.
\<close>

definition cls_same :: expr where
  "cls_same = bop Max_op (count_leading_zeros h16) (count_leading_zeros (bitwise_not h16))"

definition cls_other :: expr where
  "cls_other = bop Max_op (count_leading_zeros h16) (count_leading_zeros (bitwise_not g16))"

text \<open>An unsigned 16-bit vector.\<close>

definition u16v :: expr where "u16v = Variable (UInt_t 16 64) ''u''"

text \<open>
  Scalar 32-bit variables, \<open>max(x, k) - max(y, k)\<close>, \<open>min(x, k) - min(y, k)\<close> and
  \<open>a - (max(x, k) - max(y, k))\<close>, and three valuations.
\<close>

definition sx :: expr where "sx = Variable (Int_t 32 1) ''x''"
definition sy :: expr where "sy = Variable (Int_t 32 1) ''y''"
definition sk :: expr where "sk = Variable (Int_t 32 1) ''k''"

definition max_diff :: expr where
  "max_diff = Binary Sub (Binary Max_op sx sk) (Binary Max_op sy sk)"

definition min_diff :: expr where
  "min_diff = Binary Sub (Binary Min_op sx sk) (Binary Min_op sy sk)"

definition sa :: expr where "sa = Variable (Int_t 32 1) ''a''"

definition neg_diff :: expr where "neg_diff = Binary Sub sa max_diff"

definition env_max :: "string \<Rightarrow> int" where
  "env_max n = (if n = ''x'' then 0 else if n = ''y'' then 5 else 10)"

definition env_min :: "string \<Rightarrow> int" where
  "env_min n = (if n = ''x'' then 15 else if n = ''y'' then 20 else 10)"

definition env_neg :: "string \<Rightarrow> int" where
  "env_neg n = (if n = ''x'' then 5 else if n = ''y'' then 0 else if n = ''k'' then 10 else 0)"










section \<open>Properties of the interleave eliminator\<close>

lemma mutate_same_both:
  "mutate vars e = Inr (e', True) \<Longrightarrow> e' = e"
  "mutate_args vars es = Inr (es', False) \<Longrightarrow> es' = es"
proof (induction vars e and vars es arbitrary: e' and es' rule: mutate_mutate_args.induct)
  case (4 vars t v)
  then show ?case
    by (auto simp: visit_Cast_def ebind_def split: sum.splits if_splits)
next
  case (5 vars T a b)
  then show ?case
    by (auto simp: visit_binary_def ebind_def split: sum.splits if_splits)
next
  case (6 vars a)
  then show ?case
    by (auto simp: visit_Not_def ebind_def split: sum.splits if_splits)
next
  case (7 vars c t f)
  then show ?case
    by (auto simp: visit_Select_def ebind_def split: sum.splits if_splits)
next
  case (11 vars t n args ct)
  then show ?case
    by (auto simp: visit_Call_def ebind_def split: sum.splits if_splits option.splits)
next
  case (12 vars n v b)
  then show ?case
    by (auto simp: visit_let_def ebind_def Let_def split: sum.splits if_splits)
next
  case (14 vars i args)
  then show ?case
    by (auto split: sum.splits if_splits)
qed (auto split: sum.splits if_splits)

lemmas mutate_same = mutate_same_both(1)

lemma marker_names:
  "is_native_interleave (Call t ''halide.hexagon.interleave.vb'' [x] ct)"
  "is_native_interleave (Call t ''halide.hexagon.interleave.vh'' [x] ct)"
  "is_native_interleave (Call t ''halide.hexagon.interleave.vw'' [x] ct)"
  "\<not> is_native_deinterleave (Call t ''halide.hexagon.interleave.vb'' [x] ct)"
  "\<not> is_native_deinterleave (Call t ''halide.hexagon.interleave.vh'' [x] ct)"
  "\<not> is_native_deinterleave (Call t ''halide.hexagon.interleave.vw'' [x] ct)"
  "is_native_deinterleave (Call t ''halide.hexagon.deinterleave.vb'' [x] ct)"
  "is_native_deinterleave (Call t ''halide.hexagon.deinterleave.vh'' [x] ct)"
  "is_native_deinterleave (Call t ''halide.hexagon.deinterleave.vw'' [x] ct)"
  "\<not> is_native_interleave (Call t ''halide.hexagon.deinterleave.vb'' [x] ct)"
  "\<not> is_native_interleave (Call t ''halide.hexagon.deinterleave.vh'' [x] ct)"
  "\<not> is_native_interleave (Call t ''halide.hexagon.deinterleave.vw'' [x] ct)"
  by (simp_all add: is_native_interleave_def is_native_deinterleave_def starts_with_def)

lemma not_interleavable_markers:
  "\<not> is_interleavable t ''halide.hexagon.interleave.vb'' args"
  "\<not> is_interleavable t ''halide.hexagon.interleave.vh'' args"
  "\<not> is_interleavable t ''halide.hexagon.interleave.vw'' args"
  by (simp_all add: is_interleavable_def interleavable_def not_interleavable_def)

lemma no_alts_markers:
  "deinterleaving_alts ''halide.hexagon.interleave.vb'' = None"
  "deinterleaving_alts ''halide.hexagon.interleave.vh'' = None"
  "deinterleaving_alts ''halide.hexagon.interleave.vw'' = None"
  by (simp_all add: deinterleaving_alts_def)


lemma interleave_name_facts:
  assumes "n \<in> interleave_names"
  shows "is_native_interleave (Call t n [x] ct)"
    and "\<not> is_native_deinterleave (Call t n [x] ct)"
    and "\<not> is_interleavable t n args"
    and "deinterleaving_alts n = None"
proof -
  from assms have n: "n = ''halide.hexagon.interleave.vb'' \<or> n = ''halide.hexagon.interleave.vh''
      \<or> n = ''halide.hexagon.interleave.vw''"
    unfolding interleave_names_def insert_iff empty_iff by blast
  from n show "is_native_interleave (Call t n [x] ct)"
    by (elim disjE) (simp_all only: marker_names)
  from n show "\<not> is_native_deinterleave (Call t n [x] ct)"
    by (elim disjE) (simp_all only: marker_names not_False_eq_True)
  from n show "\<not> is_interleavable t n args"
    by (elim disjE) (simp_all only: not_interleavable_markers not_False_eq_True)
  from n show "deinterleaving_alts n = None"
    by (elim disjE) (simp_all only: no_alts_markers)
qed

lemma deinterleave_name_facts:
  assumes "m \<in> deinterleave_names"
  shows "is_native_deinterleave (Call t m [x] ct)"
proof -
  from assms have m: "m = ''halide.hexagon.deinterleave.vb'' \<or> m = ''halide.hexagon.deinterleave.vh''
      \<or> m = ''halide.hexagon.deinterleave.vw''"
    unfolding deinterleave_names_def insert_iff empty_iff by blast
  from m show ?thesis
    by (elim disjE) (simp_all only: marker_names)
qed

lemma native_interleave_Inr:
  assumes "native_interleave x = Inr ix"
  shows "\<exists>n. n \<in> interleave_names \<and> ix = Call (type_of x) n [x] PureExtern"
proof -
  have "bits (type_of x) = 8 \<or> bits (type_of x) = 16 \<or> bits (type_of x) = 32"
    using assms unfolding native_interleave_def by (simp split: if_splits)
  then show ?thesis
    using assms unfolding native_interleave_def interleave_names_def
    by (elim disjE) (simp_all, blast+)
qed

lemma native_deinterleave_Inr:
  assumes "native_deinterleave x = Inr dx"
  shows "\<exists>n. n \<in> deinterleave_names \<and> dx = Call (type_of x) n [x] PureExtern"
proof -
  have "bits (type_of x) = 8 \<or> bits (type_of x) = 16 \<or> bits (type_of x) = 32"
    using assms unfolding native_deinterleave_def by (simp split: if_splits)
  then show ?thesis
    using assms unfolding native_deinterleave_def deinterleave_names_def
    by (elim disjE) (simp_all, blast+)
qed

lemma mutate_Call1:
  "mutate vars (Call t n [x] ct) =
     ebind (mutate vars x) (\<lambda>r. visit_Call vars t n [x] ct [fst r] (\<not> snd r))"
  by (simp add: ebind_def split: sum.splits)

lemma visit_Call_interleave:
  assumes "n \<in> interleave_names"
  shows "visit_Call vars t n [x] ct [x'] changed =
     (if changed then Inr (Call t n [x'] ct, False) else Inr (Call t n [x] ct, True))"
  unfolding visit_Call_def
  by (simp only: interleave_name_facts [OF assms] simp_thms if_False if_True)

lemma yields_interleave_marker:
  "is_native_interleave y \<Longrightarrow> yields_interleave vars y"
  by (simp add: yields_interleave_def)

lemma remove_interleave_marker:
  "is_native_interleave (Call t n [y] ct) \<Longrightarrow> remove_interleave vars (Call t n [y] ct) = Inr y"
  by (simp add: remove_interleave_def)

lemma visit_Call_deinterleave_marker:
  assumes "m \<in> deinterleave_names" and "n \<in> interleave_names"
  shows "visit_Call vars t m [x] ct [Call t' n [y] ct'] changed = Inr (y, False)"
proof -
  have a: "is_native_deinterleave (Call t m [x] ct)"
    by (rule deinterleave_name_facts [OF assms(1)])
  have b: "is_native_interleave (Call t' n [y] ct')"
    by (rule interleave_name_facts(1) [OF assms(2)])
  show ?thesis
    unfolding visit_Call_def
    by (simp only: a yields_interleave_marker [OF b] remove_interleave_marker [OF b]
          list.sel simp_thms if_True ebind_def sum.case)
qed


section \<open>Properties of the pattern engine\<close>

lemmas flag_defs = InterleaveResult_def SwapOps01_def SwapOps12_def ExactLog2Op1_def
  ExactLog2Op2_def DeinterleaveOp0_def DeinterleaveOp1_def DeinterleaveOp2_def
  DeinterleaveOps_def NarrowOp0_def NarrowOp1_def NarrowOp2_def NarrowOps_def
  NarrowUnsignedOp0_def NarrowUnsignedOp1_def NarrowUnsignedOp2_def NarrowUnsignedOps_def
  ReinterleaveOp0_def

lemmas template_defs = cast_model_def imm_def make_const_def bop_def bop_c_def shift_right_def
  shift_left_def clamp_def u8_def i8_def u16_def i16_def u32_def i32_def u64_def i64_def
  bc_def min_i8_def max_i8_def min_u8_def max_u8_def min_i16_def max_i16_def min_u16_def
  max_u16_def min_i32_def max_i32_def min_u32_def max_u32_def simplified_clamp_def
  i32c_def u32c_def i16c_def u16c_def i8c_def u8c_def wild_u8_def wild_u16_def wild_u32_def
  wild_u64_def wild_i8_def wild_i16_def wild_i32_def wild_i64_def wild_u8x_def wild_u16x_def
  wild_u32x_def wild_u64x_def wild_i8x_def wild_i16x_def wild_i32x_def wild_i64x_def
  Int_t_def UInt_t_def Bool_t_def with_lanes_t_def with_bits_def with_code_def is_scalar_def
  is_vector_def is_uint_def is_compare_def

lemma muls_ok: "list_all flags_ok muls"
  by (simp add: muls_def flags_ok_def log2_flag_def has_flag_def flag_defs template_defs)

lemma adds_ok: "list_all flags_ok adds"
  by (simp add: adds_def flags_ok_def log2_flag_def has_flag_def flag_defs template_defs)

lemma casts_ok: "list_all flags_ok casts"
  by (simp add: casts_def flags_ok_def log2_flag_def has_flag_def flag_defs template_defs)

lemma asserts_simps [simp]:
  "asserts (Inr v) = False" "asserts (Inl e) = is_assert e"
  by (simp_all add: asserts_def)

lemma asserts_ebind:
  "asserts (ebind m f) = (case m of Inl e \<Rightarrow> is_assert e | Inr v \<Rightarrow> asserts (f v))"
  by (cases m) (simp_all add: ebind_def)

lemma narrow_ops_shape:
  assumes "\<And>t e e'. lossless_cast X t e = Some e' \<Longrightarrow> lanes (type_of e') = lanes t"
    and "narrow_ops X fl i ms0 = Some ms1"
  shows "length ms1 = length ms0
       \<and> (\<forall>j<length ms0. lanes (type_of (ms1 ! j)) = lanes (type_of (ms0 ! j)))"
  using assms(2)
proof (induction ms0 arbitrary: i ms1)
  case Nil
  then show ?case by simp
next
  case (Cons m ms0)
  from Cons.prems obtain m' rest where
    m': "(if has_flag fl (push_bit i NarrowOp0)
            then lossless_cast X (with_bits (type_of m) (bits (type_of m) div 2)) m
          else if has_flag fl (push_bit i NarrowUnsignedOp0)
            then lossless_cast X (with_code (with_bits (type_of m) (bits (type_of m) div 2)) TUInt) m
          else Some m) = Some m'"
    and rest: "narrow_ops X fl (Suc i) ms0 = Some rest"
    and ms1: "ms1 = m' # rest"
    by (auto simp: Let_def split: option.splits)
  have l: "lanes (type_of m') = lanes (type_of m)"
    using m' assms(1) by (auto simp: with_bits_def with_code_def split: if_splits)
  from Cons.IH [OF rest] l show ?case
    by (auto simp: ms1 nth_Cons split: nat.splits)
qed

lemma exact_log2_from_shape:
  assumes "exact_log2_from X fl i ms1 = Some ms2"
  shows "length ms2 = length ms1
       \<and> (\<forall>j<length ms1. \<not> has_flag fl (push_bit (i + j - 1) ExactLog2Op1)
              \<longrightarrow> ms2 ! j = ms1 ! j)"
  using assms
proof (induction ms1 arbitrary: i ms2)
  case Nil
  then show ?case by simp
next
  case (Cons m ms1)
  from Cons.prems obtain m' rest where
    m': "has_flag fl (push_bit (i - 1) ExactLog2Op1) \<or> m' = m"
    and rest: "exact_log2_from X fl (Suc i) ms1 = Some rest"
    and ms2: "ms2 = m' # rest"
    by (auto split: option.splits if_splits)
  from Cons.IH [OF rest] m' show ?case
    by (auto simp: ms2 nth_Cons split: nat.splits)
qed

lemma exact_log2_ops_shape:
  assumes "exact_log2_ops X fl ms1 = Some ms2"
  shows "length ms2 = length ms1
       \<and> (\<forall>j<length ms1. \<not> log2_flag fl j \<longrightarrow> ms2 ! j = ms1 ! j)"
proof (cases ms1)
  case Nil
  with assms show ?thesis by (simp add: exact_log2_ops_def)
next
  case (Cons m0 rest)
  with assms obtain rest' where r: "exact_log2_from X fl 1 rest = Some rest'"
    and ms2: "ms2 = m0 # rest'"
    by (auto simp: exact_log2_ops_def split: option.splits)
  from exact_log2_from_shape [OF r] show ?thesis
    by (auto simp: Cons ms2 nth_Cons log2_flag_def split: nat.splits)
qed

lemma deinterleave_ops_no_assert:
  assumes "\<forall>j<length ms. has_flag fl (push_bit (i + j) DeinterleaveOp0)
      \<longrightarrow> is_vector (type_of (ms ! j))"
  shows "\<not> asserts (deinterleave_ops fl i ms)
       \<and> (\<forall>ms'. deinterleave_ops fl i ms = Inr ms' \<longrightarrow> length ms' = length ms)"
  using assms
proof (induction ms arbitrary: i)
  case Nil
  then show ?case by simp
next
  case (Cons m ms)
  have tl: "\<forall>j<length ms. has_flag fl (push_bit (Suc i + j) DeinterleaveOp0)
      \<longrightarrow> is_vector (type_of (ms ! j))"
  proof (intro allI impI)
    fix j assume j: "j < length ms"
      and f: "has_flag fl (push_bit (Suc i + j) DeinterleaveOp0)"
    from Cons.prems [rule_format, of "Suc j"] j f
    show "is_vector (type_of (ms ! j))" by simp
  qed
  from Cons.IH [OF tl]
  have ih1: "\<not> asserts (deinterleave_ops fl (Suc i) ms)"
    and ih2: "\<And>r. deinterleave_ops fl (Suc i) ms = Inr r \<Longrightarrow> length r = length ms"
    by simp_all
  have hd: "has_flag fl (push_bit i DeinterleaveOp0) \<Longrightarrow> is_vector (type_of m)"
    using Cons.prems [rule_format, of 0] by simp
  have nd: "\<not> asserts (native_deinterleave m)"
    by (simp add: native_deinterleave_def)
  show ?case
  proof (cases "deinterleave_ops fl (Suc i) ms")
    case (Inl e)
    with ih1 have e: "\<not> is_assert e" by simp
    show ?thesis
    proof (cases "native_deinterleave m")
      case l: (Inl e')
      with nd have "\<not> is_assert e'" by simp
      with e hd show ?thesis by (simp add: Inl l ebind_def)
    next
      case r: (Inr m')
      with e hd show ?thesis by (simp add: Inl r ebind_def)
    qed
  next
    case (Inr r)
    from ih2 [OF Inr] have len: "length r = length ms" .
    show ?thesis
    proof (cases "native_deinterleave m")
      case l: (Inl e')
      with nd have "\<not> is_assert e'" by simp
      with hd len show ?thesis by (simp add: Inr l ebind_def)
    next
      case r': (Inr m')
      with hd len show ?thesis by (simp add: Inr r' ebind_def)
    qed
  qed
qed

lemma mutate_ops_no_assert:
  assumes "\<forall>e. \<not> asserts (mut e)"
  shows "\<not> asserts (mutate_ops mut ms)"
proof (induction ms)
  case Nil
  then show ?case by simp
next
  case (Cons m ms)
  with assms [rule_format, of m] show ?case
    by (cases "mut m"; cases "mutate_ops mut ms") (auto simp: ebind_def)
qed

lemma swap_ops01_ok:
  assumes "has_flag fl SwapOps01 \<Longrightarrow> 2 \<le> length ms"
  shows "\<exists>ms'. swap_ops01 fl ms = Inr ms' \<and> length ms' = length ms"
  using assms by (cases "has_flag fl SwapOps01") (simp_all add: swap_ops01_def)

lemma swap_ops12_ok:
  assumes "has_flag fl SwapOps12 \<Longrightarrow> 3 \<le> length ms"
  shows "\<exists>ms'. swap_ops12 fl ms = Inr ms' \<and> length ms' = length ms"
  using assms by (cases "has_flag fl SwapOps12") (simp_all add: swap_ops12_def)

lemma emit_no_assert:
  assumes d: "\<forall>j<length ms. has_flag (flags p) (push_bit j DeinterleaveOp0)
      \<longrightarrow> is_vector (type_of (ms ! j))"
    and s01: "has_flag (flags p) SwapOps01 \<Longrightarrow> 2 \<le> length ms"
    and s12: "has_flag (flags p) SwapOps12 \<Longrightarrow> 3 \<le> length ms"
    and mut: "\<forall>e. \<not> asserts (mut e)"
  shows "\<not> asserts (emit mut p x ms)"
proof -
  have d0: "\<forall>j<length ms. has_flag (flags p) (push_bit (0 + j) DeinterleaveOp0)
      \<longrightarrow> is_vector (type_of (ms ! j))"
    using d by simp
  note dn = deinterleave_ops_no_assert [OF d0]
  show ?thesis
  proof (cases "deinterleave_ops (flags p) 0 ms")
    case (Inl e)
    with dn show ?thesis by (simp add: emit_def ebind_def)
  next
    case (Inr m1)
    with dn have l1: "length m1 = length ms" by simp
    have "has_flag (flags p) SwapOps01 \<Longrightarrow> 2 \<le> length m1" using s01 l1 by simp
    from swap_ops01_ok [OF this]
    obtain m2 where m2: "swap_ops01 (flags p) m1 = Inr m2" and l2: "length m2 = length ms"
      using l1 by auto
    have "has_flag (flags p) SwapOps12 \<Longrightarrow> 3 \<le> length m2" using s12 l2 by simp
    from swap_ops12_ok [OF this]
    obtain m3 where m3: "swap_ops12 (flags p) m2 = Inr m3"
      by auto
    have ni: "\<And>e. \<not> asserts (native_interleave e)"
      by (simp add: native_interleave_def)
    show ?thesis
    proof (cases "mutate_ops mut m3")
      case (Inl e)
      with mutate_ops_no_assert [OF mut, where ms = m3] show ?thesis
        by (simp add: emit_def ebind_def Inr m2 m3)
    next
      case r: (Inr m4)
      show ?thesis
        using ni [of "Call (type_of x) (intrin p) m4 PureExtern"]
        by (cases "native_interleave (Call (type_of x) (intrin p) m4 PureExtern)")
           (simp_all add: emit_def ebind_def Inr m2 m3 r)
    qed
  qed
qed

lemma positional_ok_nth:
  "positional_ok fl i ts \<Longrightarrow> j < length ts \<Longrightarrow> has_flag fl (push_bit (i + j) DeinterleaveOp0)
     \<Longrightarrow> is_vector (ts ! j) \<and> \<not> log2_flag fl (i + j)"
proof (induction ts arbitrary: i j)
  case Nil
  then show ?case by simp
next
  case (Cons t ts)
  show ?case
  proof (cases j)
    case 0
    with Cons.prems show ?thesis by (simp split: if_splits)
  next
    case (Suc k)
    with Cons.prems Cons.IH [of "Suc i" k] show ?thesis by simp
  qed
qed

lemma attempt_emit_no_assert:
  assumes ok: "flags_ok p"
    and lc: "\<And>t e e'. lossless_cast X t e = Some e' \<Longrightarrow> lanes (type_of e') = lanes t"
    and em: "expr_match X (pattern p) x = Some ms0"
    and len: "length ms0 = length (wildcards (pattern p))"
    and vec: "\<forall>j<length ms0. is_vector (wildcards (pattern p) ! j) \<longrightarrow> is_vector (type_of (ms0 ! j))"
    and at: "attempt X p x = Some ms"
    and mut: "\<forall>e. \<not> asserts (mut e)"
  shows "\<not> asserts (emit mut p x ms)"
proof -
  from at em obtain ms1 where n: "narrow_ops X (flags p) 0 ms0 = Some ms1"
    and l: "exact_log2_ops X (flags p) ms1 = Some ms"
    by (auto simp: attempt_def split: option.splits)
  note ns = narrow_ops_shape [OF lc n]
  note ls = exact_log2_ops_shape [OF l]
  have length: "length ms = length (wildcards (pattern p))"
    using ns ls len by simp
  have pos: "positional_ok (flags p) 0 (wildcards (pattern p))"
    using ok by (simp add: flags_ok_def Let_def)
  have d: "\<forall>j<length ms. has_flag (flags p) (push_bit j DeinterleaveOp0)
      \<longrightarrow> is_vector (type_of (ms ! j))"
  proof (intro allI impI)
    fix j assume j: "j < length ms" and f: "has_flag (flags p) (push_bit j DeinterleaveOp0)"
    from positional_ok_nth [OF pos, of j] j f length
    have v: "is_vector (wildcards (pattern p) ! j)" and nl: "\<not> log2_flag (flags p) j" by simp_all
    from v vec j length len have "is_vector (type_of (ms0 ! j))" by simp
    moreover have "lanes (type_of (ms1 ! j)) = lanes (type_of (ms0 ! j))"
      using ns j length len by simp
    moreover have "ms ! j = ms1 ! j" using ls nl j length len ns by simp
    ultimately show "is_vector (type_of (ms ! j))" by (simp add: is_vector_def)
  qed
  have s01: "has_flag (flags p) SwapOps01 \<Longrightarrow> 2 \<le> length ms"
    using ok length by (simp add: flags_ok_def Let_def split: if_splits)
  have s12: "has_flag (flags p) SwapOps12 \<Longrightarrow> 3 \<le> length ms"
    using ok length by (simp add: flags_ok_def Let_def split: if_splits)
  show ?thesis by (rule emit_no_assert [OF d s01 s12 mut])
qed

lemmas model_defs = model_externals_def expr_match_model_def types_match_def unify_lanes_def
  attempt_def exact_log2_ops_def has_flag_def emit_def swap_ops01_def swap_ops12_def
  IRMutator_mutate_def ebind_def native_interleave_def native_deinterleave_def can_represent_def

lemmas example_defs = va16_def vb16_def vc16_def mac16_def acc16_def s8_def v8_def wmac_def
  a32_def b32_def mul_by_8_def mul_by_6_def div_by_8_def div_by_6_def

lemma lossless_cast_model_lanes:
  "lossless_cast_model t e = Some e' \<Longrightarrow> lanes (type_of e') = lanes t"
proof (induction t e arbitrary: e' rule: lossless_cast_model.induct)
  case (4 t v n)
  then show ?case
    by (auto simp: with_lanes_t_def split: if_splits option.splits)
qed (auto simp: imm_def split: if_splits)

lemma tables_flags_ok: "p \<in> set (casts @ muls @ adds) \<Longrightarrow> flags_ok p"
  using casts_ok muls_ok adds_ok by (auto simp: list_all_iff)

lemma adds_11:
  "adds ! 11 = Pattern ''halide.hexagon.add_mpy.vuh.vub.ub''
     (bop Add wild_u16x (bop Mul (bc wild_u16) wild_u16x))
     (ReinterleaveOp0 OR NarrowOp1 OR NarrowOp2 OR SwapOps12)"
  by (simp add: adds_def)

lemma adds_11_mem: "adds ! 11 \<in> set (casts @ muls @ adds)"
proof -
  have "length adds = 29" by (simp add: adds_def)
  then have "adds ! 11 \<in> set adds" by (intro nth_mem) simp
  then show ?thesis by simp
qed

lemma wmac_match:
  "expr_match model_externals (pattern (adds ! 11)) wmac
     = Some [acc16, Cast (UInt_t 16 1) s8, Cast (UInt_t 16 64) v8]"
  by (simp add: adds_11 example_defs model_defs flag_defs template_defs)

lemma wmac_attempt:
  "attempt model_externals (adds ! 11) wmac = Some [acc16, s8, v8]"
  by (simp add: adds_11 example_defs model_defs flag_defs template_defs)

lemma wmac_emit:
  "emit IRMutator_mutate (adds ! 11) wmac [acc16, s8, v8]
     = Inr (Call (UInt_t 16 64) ''halide.hexagon.interleave.vh''
         [Call (UInt_t 16 64) ''halide.hexagon.add_mpy.vuh.vub.ub''
            [Call (UInt_t 16 64) ''halide.hexagon.deinterleave.vh'' [acc16] PureExtern, v8, s8]
            PureExtern] PureExtern, False)"
  by (simp add: adds_11 example_defs model_defs flag_defs template_defs)

lemma mutate_deinterleave_interleave:
  assumes "native_interleave x = Inr ix" and "native_deinterleave ix = Inr dx"
  shows "mutate vars dx = ebind (mutate vars x) (\<lambda>r. Inr (fst r, False))"
proof -
  from assms(1) obtain n where n: "n \<in> interleave_names"
    and ix: "ix = Call (type_of x) n [x] PureExtern"
    using native_interleave_Inr by blast
  from assms(2) obtain m where m: "m \<in> deinterleave_names"
    and dx: "dx = Call (type_of ix) m [ix] PureExtern"
    using native_deinterleave_Inr by blast
  show ?thesis
  proof (cases "mutate vars x")
    case (Inl e)
    then show ?thesis
      by (simp only: dx ix mutate_Call1 ebind_def sum.case)
  next
    case (Inr r)
    have same: "snd r \<Longrightarrow> fst r = x"
      using Inr mutate_same [of vars x "fst r"] by (cases r) simp
    have "mutate vars ix = Inr (Call (type_of x) n [fst r] PureExtern, snd r)"
      unfolding ix mutate_Call1 Inr ebind_def sum.case visit_Call_interleave [OF n]
      using same by (cases "snd r") simp_all
    then show ?thesis
      using Inr
      by (simp only: dx mutate_Call1 ebind_def sum.case fst_conv snd_conv
            visit_Call_deinterleave_marker [OF m n])
  qed
qed

lemma pair_of_native:
  "bits (type_of x) = 8 \<Longrightarrow>
     native_interleave x = Inr (Call (type_of x) ''halide.hexagon.interleave.vb'' [x] PureExtern) \<and>
     native_deinterleave (Call (type_of x) ''halide.hexagon.interleave.vb'' [x] PureExtern)
       = Inr (pair_of x)"
  by (simp add: native_interleave_def native_deinterleave_def pair_of_def)

lemma mutate_pair_of:
  "bits (type_of x) = 8 \<Longrightarrow>
     mutate vars (pair_of x) = ebind (mutate vars x) (\<lambda>r. Inr (fst r, False))"
  using mutate_deinterleave_interleave
    [OF conjunct1 [OF pair_of_native] conjunct2 [OF pair_of_native]]
  by simp

lemma bits_v0: "bits (type_of v0) = 8" "bits (type_of (pair_of x)) = bits (type_of x)"
  by (simp_all add: pair_of_def v0_def UInt_t_def)

lemma mutate_v0: "mutate vars v0 = Inr (v0, True)"
  by (simp add: v0_def)

lemma mutate_pair_v0: "mutate vars (pair_of v0) = Inr (v0, False)"
  by (simp only: mutate_pair_of [OF bits_v0(1)] mutate_v0 ebind_def sum.case fst_conv)

text \<open>
  Claim C1, as amended. The interleave eliminator rewrites
  \<open>deinterleave(interleave(x))\<close> to what it makes of \<open>x\<close>: the arguments of a call are
  mutated before the pair is cancelled, so the result is the rewritten \<open>x\<close>, and it is a
  new node. For every scope, and for the whole pass, the pair and \<open>x\<close> have the same
  result or the same error.
\<close>

theorem C1_marker_cancellation:
  assumes "native_interleave x = Inr ix" and "native_deinterleave ix = Inr dx"
  shows "mutate vars dx = ebind (mutate vars x) (\<lambda>r. Inr (fst r, False))
       \<and> eliminate_interleaves dx = eliminate_interleaves x"
proof -
  have m: "\<And>vs. mutate vs dx = ebind (mutate vs x) (\<lambda>r. Inr (fst r, False))"
    using assms by (rule mutate_deinterleave_interleave)
  have "eliminate_interleaves dx = eliminate_interleaves x"
    unfolding eliminate_interleaves_def m
    by (cases "mutate [] x") (simp_all add: ebind_def)
  with m show ?thesis by simp
qed

theorem C1_marker_cancellation_witness:
  "native_interleave v0
     = Inr (Call (UInt_t 8 64) ''halide.hexagon.interleave.vb'' [v0] PureExtern)
   \<and> native_deinterleave (Call (UInt_t 8 64) ''halide.hexagon.interleave.vb'' [v0] PureExtern)
     = Inr (pair_of v0)
   \<and> mutate [] (pair_of v0) = Inr (v0, False)
   \<and> eliminate_interleaves (pair_of v0) = Inr v0"
proof -
  have t: "type_of v0 = UInt_t 8 64" by (simp add: v0_def)
  have a: "native_interleave v0
     = Inr (Call (UInt_t 8 64) ''halide.hexagon.interleave.vb'' [v0] PureExtern)"
    and b: "native_deinterleave (Call (UInt_t 8 64) ''halide.hexagon.interleave.vb'' [v0] PureExtern)
     = Inr (pair_of v0)"
    using pair_of_native [OF bits_v0(1)] by (simp_all add: t)
  have e: "eliminate_interleaves v0 = Inr v0"
    by (simp add: eliminate_interleaves_def mutate_v0 ebind_def)
  from C1_marker_cancellation [OF a b, of "[]"] a b show ?thesis
    by (simp only: mutate_v0 e ebind_def sum.case fst_conv simp_thms)
qed

text \<open>
  The claim as stated fails when the eliminator rewrites \<open>x\<close> itself: for
  \<open>x = deinterleave(interleave(v))\<close> the pair around \<open>x\<close> is rewritten to \<open>v\<close>, not to \<open>x\<close>.
\<close>

theorem C1_counterexample:
  "native_interleave (pair_of v0)
     = Inr (Call (UInt_t 8 64) ''halide.hexagon.interleave.vb'' [pair_of v0] PureExtern)
   \<and> native_deinterleave
       (Call (UInt_t 8 64) ''halide.hexagon.interleave.vb'' [pair_of v0] PureExtern)
     = Inr (pair_of (pair_of v0))
   \<and> eliminate_interleaves (pair_of (pair_of v0)) = Inr v0
   \<and> v0 \<noteq> pair_of v0"
proof -
  have t: "type_of (pair_of v0) = UInt_t 8 64" by (simp add: pair_of_def v0_def)
  have b8: "bits (type_of (pair_of v0)) = 8" by (simp only: bits_v0)
  have "mutate [] (pair_of (pair_of v0)) = Inr (v0, False)"
    by (simp only: mutate_pair_of [OF b8] mutate_pair_v0 ebind_def sum.case fst_conv)
  then have e: "eliminate_interleaves (pair_of (pair_of v0)) = Inr v0"
    by (simp only: eliminate_interleaves_def ebind_def sum.case fst_conv)
  have n: "v0 \<noteq> pair_of v0" by (simp add: pair_of_def v0_def)
  from pair_of_native [OF b8] e n show ?thesis by (simp only: t simp_thms)
qed

lemma deinterleave_not_interleavable:
  "\<not> is_interleavable t ''halide.hexagon.deinterleave.vb'' args"
  "\<not> is_interleavable t ''halide.hexagon.deinterleave.vh'' args"
  "\<not> is_interleavable t ''halide.hexagon.deinterleave.vw'' args"
  by (simp_all add: is_interleavable_def interleavable_def not_interleavable_def)

lemma deinterleave_no_alts:
  "deinterleaving_alts ''halide.hexagon.deinterleave.vb'' = None"
  "deinterleaving_alts ''halide.hexagon.deinterleave.vh'' = None"
  "deinterleaving_alts ''halide.hexagon.deinterleave.vw'' = None"
  by (simp_all add: deinterleaving_alts_def)

lemma deinterleave_name_facts2:
  assumes "m \<in> deinterleave_names"
  shows "\<not> is_interleavable t m args" and "deinterleaving_alts m = None"
proof -
  from assms have m: "m = ''halide.hexagon.deinterleave.vb'' \<or> m = ''halide.hexagon.deinterleave.vh''
      \<or> m = ''halide.hexagon.deinterleave.vw''"
    unfolding deinterleave_names_def insert_iff empty_iff by blast
  from m show "\<not> is_interleavable t m args"
    by (elim disjE) (simp_all only: deinterleave_not_interleavable not_False_eq_True)
  from m show "deinterleaving_alts m = None"
    by (elim disjE) (simp_all only: deinterleave_no_alts)
qed

lemma visit_Call_deinterleave:
  assumes "m \<in> deinterleave_names"
  shows "visit_Call vars t m [x] ct [b'] changed =
     (if yields_interleave vars b' then ebind (remove_interleave vars b') (\<lambda>e. Inr (e, False))
      else if changed then Inr (Call t m [b'] ct, False)
      else Inr (Call t m [x] ct, True))"
  unfolding visit_Call_def
  by (simp only: deinterleave_name_facts [OF assms] deinterleave_name_facts2 [OF assms]
        list.sel simp_thms if_False if_True)

lemma mutate_deinterleave_yields:
  assumes "native_deinterleave b = Inr d" and "mutate vars b = Inr (b', s)"
    and "yields_interleave vars b'"
  shows "mutate vars d = ebind (remove_interleave vars b') (\<lambda>e. Inr (e, False))"
proof -
  from assms(1) obtain m where m: "m \<in> deinterleave_names"
    and d: "d = Call (type_of b) m [b] PureExtern"
    using native_deinterleave_Inr by blast
  show ?thesis
    unfolding d mutate_Call1 assms(2) ebind_def sum.case fst_conv snd_conv
      visit_Call_deinterleave [OF m]
    using assms(3) by (simp add: ebind_def)
qed

lemma mutate_deinterleave_scalar_or_broadcast:
  assumes "native_deinterleave b = Inr d" and "mutate vars b = Inr (b', s)"
    and "\<not> is_native_interleave b'" and "is_scalar (type_of b') \<or> is_Broadcast b'"
  shows "mutate vars d = Inr (b', False)"
proof -
  have y: "yields_interleave vars b'"
    using assms(3,4) by (auto simp: yields_interleave_def)
  have r: "remove_interleave vars b' = Inr b'"
    using assms(3,4) by (auto simp: remove_interleave_def)
  show ?thesis
    by (simp only: mutate_deinterleave_yields [OF assms(1,2) y] r ebind_def sum.case)
qed

lemma mutate_deinterleave_shadow:
  assumes "native_deinterleave b = Inr d" and "mutate vars b = Inr (Variable t n, s)"
    and "\<not> is_scalar t" and "contains vars (n @ ''.deinterleaved'')"
  shows "mutate vars d = Inr (Variable t (n @ ''.deinterleaved''), False)"
proof -
  have ni: "\<not> is_native_interleave (Variable t n)"
    by (simp add: is_native_interleave_def)
  have y: "yields_interleave vars (Variable t n)"
    using assms(3,4) by (simp add: yields_interleave_def ni)
  have r: "remove_interleave vars (Variable t n) = Inr (Variable t (n @ ''.deinterleaved''))"
    using assms(3,4) by (simp add: remove_interleave_def ni)
  show ?thesis
    by (simp only: mutate_deinterleave_yields [OF assms(1,2) y] r ebind_def sum.case)
qed

text \<open>
  Claim C10, as amended. A deinterleave marker is removed with no interleave marker
  present: when what the eliminator makes of the argument \<open>b\<close> is scalar-typed or a lane
  broadcast (and is not itself a marker), \<open>deinterleave(b)\<close> is rewritten to that
  rewritten argument, which is \<open>b\<close> itself when the eliminator leaves \<open>b\<close> unchanged; when
  it is a vector-typed variable with a deinterleaved shadow in scope, the result is the
  shadow variable.
\<close>

theorem C10_deinterleave_without_marker:
  assumes "native_deinterleave b = Inr d" and "mutate vars b = Inr (b', s)"
    and "\<not> is_native_interleave b'"
  shows "(is_scalar (type_of b') \<or> is_Broadcast b' \<longrightarrow> mutate vars d = Inr (b', False))
     \<and> (\<forall>t n. b' = Variable t n \<and> \<not> is_scalar t \<and> contains vars (n @ ''.deinterleaved'')
           \<longrightarrow> mutate vars d = Inr (Variable t (n @ ''.deinterleaved''), False))"
proof (intro conjI impI allI)
  assume "is_scalar (type_of b') \<or> is_Broadcast b'"
  with assms show "mutate vars d = Inr (b', False)"
    by (rule mutate_deinterleave_scalar_or_broadcast)
next
  fix t n
  assume a: "b' = Variable t n \<and> \<not> is_scalar t \<and> contains vars (n @ ''.deinterleaved'')"
  from a assms(2) have m: "mutate vars b = Inr (Variable t n, s)" by simp
  from assms(1) m a show "mutate vars d = Inr (Variable t (n @ ''.deinterleaved''), False)"
    by (blast intro: mutate_deinterleave_shadow)
qed

lemma native_deinterleave_vb:
  "bits (type_of e) = 8 \<Longrightarrow> native_deinterleave e = Inr (deint_vb e)"
  by (simp add: native_deinterleave_def deint_vb_def)

lemma bc0_facts:
  "bits (type_of bc0) = 8" "mutate vars bc0 = Inr (bc0, True)"
  "\<not> is_native_interleave bc0" "is_Broadcast bc0"
  by (simp_all add: bc0_def UInt_t_def with_lanes_t_def is_native_interleave_def)

lemma vx_facts:
  "bits (type_of vx) = 8" "mutate vars vx = Inr (vx, True)"
  "\<not> is_native_interleave vx" "vx = Variable (UInt_t 8 64) ''x''"
  "\<not> is_scalar (UInt_t 8 64)" "contains [''x.deinterleaved''] (''x'' @ ''.deinterleaved'')"
  by (simp_all add: vx_def UInt_t_def is_native_interleave_def is_scalar_def contains_def)

theorem C10_deinterleave_without_marker_witness:
  "mutate [] (deint_vb bc0) = Inr (bc0, False)
   \<and> mutate [''x.deinterleaved''] (deint_vb vx)
       = Inr (Variable (UInt_t 8 64) ''x.deinterleaved'', False)"
proof -
  have a: "mutate [] (deint_vb bc0) = Inr (bc0, False)"
    using C10_deinterleave_without_marker
      [OF native_deinterleave_vb [OF bc0_facts(1)] bc0_facts(2) bc0_facts(3), of "[]"]
      bc0_facts(4)
    by blast
  have b: "mutate [''x.deinterleaved''] (deint_vb vx)
       = Inr (Variable (UInt_t 8 64) (''x'' @ ''.deinterleaved''), False)"
    using C10_deinterleave_without_marker
      [OF native_deinterleave_vb [OF vx_facts(1)] vx_facts(2) vx_facts(3),
        of "[''x.deinterleaved'']"]
      vx_facts(4,5,6)
    by blast
  from a b show ?thesis by simp
qed

lemma f_facts:
  "\<not> is_native_deinterleave (Call t ''f'' args ct)"
  "is_interleavable t ''f'' args"
  "deinterleaving_alts ''f'' = None"
  by (simp_all add: is_native_deinterleave_def starts_with_def is_interleavable_def
      interleavable_def not_interleavable_def deinterleaving_alts_def)

lemma v0_not_removable: "\<not> yields_removable_interleave [] [v0]"
  by (simp add: yields_removable_interleave_def yields_interleave_def v0_def
      is_native_interleave_def is_scalar_def UInt_t_def contains_def)

lemma mutate_c0: "mutate [] c0 = Inr (Call (UInt_t 8 1) ''f'' [v0] Extern, False)"
  unfolding c0_def mutate_Call1 mutate_pair_v0 ebind_def sum.case fst_conv snd_conv visit_Call_def
  by (simp only: f_facts v0_not_removable simp_thms if_True if_False)

text \<open>
  The claim as stated fails for a scalar expression that the eliminator rewrites: the
  scalar call \<open>f(deinterleave(interleave(v)))\<close> under a deinterleave marker comes back as
  \<open>f(v)\<close>, not as itself.
\<close>

theorem C10_counterexample:
  "is_scalar (type_of c0)
   \<and> native_deinterleave c0 = Inr (deint_vb c0)
   \<and> eliminate_interleaves (deint_vb c0) = Inr (Call (UInt_t 8 1) ''f'' [v0] Extern)
   \<and> Call (UInt_t 8 1) ''f'' [v0] Extern \<noteq> c0"
proof -
  have t: "type_of c0 = UInt_t 8 1" by (simp add: c0_def)
  have b8: "bits (type_of c0) = 8" by (simp add: t UInt_t_def)
  have sc: "is_scalar (type_of c0)" by (simp add: t UInt_t_def is_scalar_def)
  have sc': "is_scalar (type_of (Call (UInt_t 8 1) ''f'' [v0] Extern))"
    by (simp add: UInt_t_def is_scalar_def)
  have ni: "\<not> is_native_interleave (Call (UInt_t 8 1) ''f'' [v0] Extern)"
    by (simp add: is_native_interleave_def starts_with_def)
  have "mutate [] (deint_vb c0) = Inr (Call (UInt_t 8 1) ''f'' [v0] Extern, False)"
    using mutate_deinterleave_scalar_or_broadcast
      [OF native_deinterleave_vb [OF b8] mutate_c0 ni] sc' by blast
  then have e: "eliminate_interleaves (deint_vb c0) = Inr (Call (UInt_t 8 1) ''f'' [v0] Extern)"
    by (simp only: eliminate_interleaves_def ebind_def sum.case fst_conv)
  have n: "Call (UInt_t 8 1) ''f'' [v0] Extern \<noteq> c0"
    by (simp add: c0_def pair_of_def v0_def)
  from sc native_deinterleave_vb [OF b8] e n show ?thesis by (simp only: simp_thms)
qed

lemma mutate_Let:
  assumes "mutate vars value = Inr (value', sv)"
    and "is_native_interleave value'"
    and "mutate (push (name @ ''.deinterleaved'') vars) body = Inr rb"
  shows "mutate vars (Let_e name value body) = visit_let vars name value body (value', sv) rb"
  using assms by simp

lemma visit_let_marker_changed:
  assumes "is_native_interleave (Call t n [y] ct)"
  shows "visit_let vars name value body (Call t n [y] ct, sv) (body', False) =
     (if expr_uses_var body' (name @ ''.deinterleaved'') \<and> expr_uses_var body' name then
        ebind (native_interleave (Variable (type_of y) (name @ ''.deinterleaved''))) (\<lambda>marker.
          Inr (Let_e (name @ ''.deinterleaved'') y (Let_e name marker body'), False))
      else if expr_uses_var body' (name @ ''.deinterleaved'') then
        Inr (Let_e (name @ ''.deinterleaved'') y body', False)
      else if expr_uses_var body' name then Inr (Let_e name (Call t n [y] ct) body', False)
      else if expr_uses_var body name then Inl EliminatedNonDeadLet
      else Inr (body', False))"
  unfolding visit_let_def Let_def fst_conv snd_conv remove_interleave_marker [OF assms]
  by (simp add: ebind_def)

lemma visit_let_unchanged:
  "visit_let vars name value body (value', sv) (body', True) =
     (if sv then Inr (Let_e name value body, True) else Inr (Let_e name value' body', False))"
  unfolding visit_let_def Let_def fst_conv snd_conv by simp

lemma mutate_let_marker:
  assumes "mutate vars value = Inr (Call t n [y] ct, sv)"
    and "is_native_interleave (Call t n [y] ct)"
    and "mutate (push (name @ ''.deinterleaved'') vars) body = Inr (body', sb)"
  shows "mutate vars (Let_e name value body) =
     (if sb then
        (if sv then Inr (Let_e name value body, True)
         else Inr (Let_e name (Call t n [y] ct) body', False))
      else if expr_uses_var body' (name @ ''.deinterleaved'') \<and> expr_uses_var body' name then
        ebind (native_interleave (Variable (type_of y) (name @ ''.deinterleaved''))) (\<lambda>marker.
          Inr (Let_e (name @ ''.deinterleaved'') y (Let_e name marker body'), False))
      else if expr_uses_var body' (name @ ''.deinterleaved'') then
        Inr (Let_e (name @ ''.deinterleaved'') y body', False)
      else if expr_uses_var body' name then Inr (Let_e name (Call t n [y] ct) body', False)
      else if expr_uses_var body name then Inl EliminatedNonDeadLet
      else Inr (body', False))"
proof (cases sb)
  case True
  then show ?thesis
    by (simp only: mutate_Let [OF assms(1,2,3)] visit_let_unchanged if_True)
next
  case False
  then show ?thesis
    by (simp only: mutate_Let [OF assms(1,2,3)] visit_let_marker_changed [OF assms(2)] if_False)
qed

lemma int_vb_facts:
  "is_native_interleave (int_vb e)"
  "int_vb e = Call (type_of e) ''halide.hexagon.interleave.vb'' [e] PureExtern"
  "type_of (int_vb e) = type_of e"
  by (simp_all add: int_vb_def marker_names)

lemma mutate_int_vb:
  "mutate vars e = Inr (e', s) \<Longrightarrow> type_of e' = type_of e \<Longrightarrow>
     mutate vars (int_vb e) = Inr (int_vb e', s)"
proof -
  assume m: "mutate vars e = Inr (e', s)" and t: "type_of e' = type_of e"
  have n: "''halide.hexagon.interleave.vb'' \<in> interleave_names"
    by (simp add: interleave_names_def)
  have same: "s \<Longrightarrow> e' = e" using m mutate_same [of vars e e'] by simp
  show ?thesis
    unfolding int_vb_def mutate_Call1 m ebind_def sum.case fst_conv snd_conv
      visit_Call_interleave [OF n] t
    using same by (cases s) simp_all
qed

lemma type_pair_of: "type_of (pair_of x) = type_of x"
  by (simp add: pair_of_def)

lemma type_v0: "type_of v0 = UInt_t 8 64"
  by (simp add: v0_def)

lemma vxd_facts:
  "\<not> is_native_interleave vxd" "\<not> yields_interleave [''x.deinterleaved''] vxd"
  "mutate vars vxd = Inr (vxd, True)"
  "native_interleave (Variable (UInt_t 8 64) (''x'' @ ''.deinterleaved'')) = Inr (int_vb vxd)"
  "vxd = Variable (UInt_t 8 64) (''x'' @ ''.deinterleaved'')"
  by (simp_all add: vxd_def is_native_interleave_def yields_interleave_def is_scalar_def
      UInt_t_def contains_def native_interleave_def int_vb_def)

lemma mutate_body_both:
  "mutate (push (''x'' @ ''.deinterleaved'') []) (Binary Add (deint_vb vx) vx)
     = Inr (Binary Add vxd vx, False)"
proof -
  have a: "mutate [''x.deinterleaved''] (deint_vb vx) = Inr (vxd, False)"
    using mutate_deinterleave_shadow
      [OF native_deinterleave_vb [OF vx_facts(1)], of "[''x.deinterleaved'']" "UInt_t 8 64" "''x''" True]
      vx_facts(2) [of "[''x.deinterleaved'']"] vx_facts(4,5,6)
    by (simp add: vxd_def)
  have b: "mutate [''x.deinterleaved''] vx = Inr (vx, True)" by (rule vx_facts(2))
  have c: "\<not> yields_removable_interleave [''x.deinterleaved''] [vxd, vx]"
    by (simp add: yields_removable_interleave_def vxd_facts(1,2))
  show ?thesis
    by (simp add: push_def a b visit_binary_def c)
qed

lemma uses_both:
  "expr_uses_var (Binary Add vxd vx) (''x'' @ ''.deinterleaved'')"
  "expr_uses_var (Binary Add vxd vx) ''x''"
  by (simp_all add: vxd_def vx_def)

lemma mutate_let_both:
  "mutate [] let_both
     = Inr (Let_e ''x.deinterleaved'' v0 (Let_e ''x'' (int_vb vxd) (Binary Add vxd vx)), False)"
proof -
  have v: "mutate [] (int_vb v0)
      = Inr (Call (type_of v0) ''halide.hexagon.interleave.vb'' [v0] PureExtern, True)"
    using mutate_int_vb [OF mutate_v0 refl] by (simp only: int_vb_facts(2))
  have k: "is_native_interleave (Call (type_of v0) ''halide.hexagon.interleave.vb'' [v0] PureExtern)"
    by (rule marker_names)
  show ?thesis
    unfolding let_both_def
    by (simp only: mutate_let_marker [OF v k mutate_body_both] uses_both type_v0
          vxd_facts(4) ebind_def sum.case if_True if_False simp_thms)
      (simp add: vxd_def)
qed

lemma mutate_let_kept:
  "mutate [] let_kept = Inr (Let_e ''x'' (int_vb v0) (IntImm (Int_t 32 1) 5), False)"
proof -
  have v: "mutate [] (int_vb (pair_of v0))
      = Inr (Call (type_of v0) ''halide.hexagon.interleave.vb'' [v0] PureExtern, False)"
    using mutate_int_vb [OF mutate_pair_v0, of "[]"] by (simp only: int_vb_facts(2) type_pair_of)
  have k: "is_native_interleave (Call (type_of v0) ''halide.hexagon.interleave.vb'' [v0] PureExtern)"
    by (rule marker_names)
  have b: "mutate (push (''x'' @ ''.deinterleaved'') []) (IntImm (Int_t 32 1) 5)
      = Inr (IntImm (Int_t 32 1) 5, True)"
    by simp
  show ?thesis
    unfolding let_kept_def
    by (simp only: mutate_let_marker [OF v k b] if_True if_False) (simp add: int_vb_def)
qed

text \<open>
  Claim C4, as amended. For a let whose mutated value is an interleave marker over \<open>y\<close>:
  when the body comes back unchanged, the let keeps binding the original name to the
  (mutated) value, whatever the body references. When the body was changed, the names it
  references decide: both names give two nested lets, the outer one binding the shadow
  name to \<open>y\<close> and the inner one binding the original name to a fresh marker over the
  shadow variable; the shadow name alone gives one let of the shadow name to \<open>y\<close>; the
  original name alone gives one let of the original name to the marked value; neither
  drops the binding, after the assertion that the original body does not reference the
  original name.
\<close>

theorem C4_let_rebinding:
  assumes "mutate vars value = Inr (Call t n [y] ct, sv)"
    and "is_native_interleave (Call t n [y] ct)"
    and "mutate (push (name @ ''.deinterleaved'') vars) body = Inr (body', sb)"
  shows "mutate vars (Let_e name value body) =
     (if sb then
        (if sv then Inr (Let_e name value body, True)
         else Inr (Let_e name (Call t n [y] ct) body', False))
      else if expr_uses_var body' (name @ ''.deinterleaved'') \<and> expr_uses_var body' name then
        ebind (native_interleave (Variable (type_of y) (name @ ''.deinterleaved''))) (\<lambda>marker.
          Inr (Let_e (name @ ''.deinterleaved'') y (Let_e name marker body'), False))
      else if expr_uses_var body' (name @ ''.deinterleaved'') then
        Inr (Let_e (name @ ''.deinterleaved'') y body', False)
      else if expr_uses_var body' name then Inr (Let_e name (Call t n [y] ct) body', False)
      else if expr_uses_var body name then Inl EliminatedNonDeadLet
      else Inr (body', False))"
  using assms by (rule mutate_let_marker)

theorem C4_let_rebinding_witness:
  "mutate [] (int_vb v0)
     = Inr (Call (UInt_t 8 64) ''halide.hexagon.interleave.vb'' [v0] PureExtern, True)
   \<and> is_native_interleave (Call (UInt_t 8 64) ''halide.hexagon.interleave.vb'' [v0] PureExtern)
   \<and> mutate (push (''x'' @ ''.deinterleaved'') []) (Binary Add (deint_vb vx) vx)
     = Inr (Binary Add vxd vx, False)
   \<and> mutate [] (Let_e ''x'' (int_vb v0) (Binary Add (deint_vb vx) vx))
     = Inr (Let_e ''x.deinterleaved'' v0 (Let_e ''x'' (int_vb vxd) (Binary Add vxd vx)), False)"
proof -
  have v: "mutate [] (int_vb v0)
      = Inr (Call (UInt_t 8 64) ''halide.hexagon.interleave.vb'' [v0] PureExtern, True)"
    using mutate_int_vb [OF mutate_v0 refl] by (simp only: int_vb_facts(2) type_v0)
  have k: "is_native_interleave (Call (UInt_t 8 64) ''halide.hexagon.interleave.vb'' [v0] PureExtern)"
    by (rule marker_names)
  have r: "mutate [] (Let_e ''x'' (int_vb v0) (Binary Add (deint_vb vx) vx))
     = Inr (Let_e ''x.deinterleaved'' v0 (Let_e ''x'' (int_vb vxd) (Binary Add vxd vx)), False)"
    by (simp only: C4_let_rebinding [OF v k mutate_body_both] uses_both type_v0
          vxd_facts(4) ebind_def sum.case if_True if_False simp_thms)
      (simp add: vxd_def)
  from v k mutate_body_both r show ?thesis by (simp only: simp_thms)
qed

text \<open>
  The claim as stated fails twice. In \<open>let x = interleave(v) in deinterleave(x) + x\<close> the
  body references both names, and the outer let of the result binds the shadow name, the
  inner one the original name (the claim has them the other way round). In
  \<open>let x = interleave(deinterleave(interleave(v))) in 5\<close> the let is rewritten (its value
  changes), the body references neither name, and the binding is kept.
\<close>

theorem C4_counterexample:
  "eliminate_interleaves let_both
     = Inr (Let_e ''x.deinterleaved'' v0 (Let_e ''x'' (int_vb vxd) (Binary Add vxd vx)))
   \<and> Let_e ''x.deinterleaved'' v0 (Let_e ''x'' (int_vb vxd) (Binary Add vxd vx))
     \<noteq> Let_e ''x'' (int_vb vxd) (Let_e ''x.deinterleaved'' v0 (Binary Add vxd vx))
   \<and> eliminate_interleaves let_kept = Inr (Let_e ''x'' (int_vb v0) (IntImm (Int_t 32 1) 5))
   \<and> \<not> expr_uses_var (IntImm (Int_t 32 1) 5) ''x''
   \<and> \<not> expr_uses_var (IntImm (Int_t 32 1) 5) ''x.deinterleaved''"
proof -
  have a: "eliminate_interleaves let_both
     = Inr (Let_e ''x.deinterleaved'' v0 (Let_e ''x'' (int_vb vxd) (Binary Add vxd vx)))"
    by (simp only: eliminate_interleaves_def mutate_let_both ebind_def sum.case fst_conv)
  have b: "eliminate_interleaves let_kept = Inr (Let_e ''x'' (int_vb v0) (IntImm (Int_t 32 1) 5))"
    by (simp only: eliminate_interleaves_def mutate_let_kept ebind_def sum.case fst_conv)
  have c: "Let_e ''x.deinterleaved'' v0 (Let_e ''x'' (int_vb vxd) (Binary Add vxd vx))
     \<noteq> Let_e ''x'' (int_vb vxd) (Let_e ''x.deinterleaved'' v0 (Binary Add vxd vx))"
    by simp
  from a b c show ?thesis by simp
qed

text \<open>
  Claim C9, as amended. For every pattern of the shipped cast, multiply and add tables,
  the swap, exact-logarithm and deinterleave flags stay within the template's wildcard
  count (the narrowing masks do not: they name three operands also on templates with
  two, where the narrowing loop does not reach the third): a pattern with \<open>SwapOps01\<close>
  binds at least 2 wildcards, one with \<open>SwapOps12\<close> at least 3, and every wildcard
  carrying a deinterleave flag is a vector wildcard that no exact logarithm replaces. So
  no assertion of \<open>apply_patterns\<close> fires on a match, for a matcher that binds one
  operand per wildcard and vector operands to vector wildcards, a lossless cast that
  keeps the lanes, and an operand mutator that raises no assertion.
\<close>

theorem C9_table_flags_in_range:
  assumes "p \<in> set (casts @ muls @ adds)"
  shows "flags_ok p
     \<and> (\<forall>X mut x ms0 ms.
          (\<forall>t e e'. lossless_cast X t e = Some e' \<longrightarrow> lanes (type_of e') = lanes t)
          \<and> expr_match X (pattern p) x = Some ms0
          \<and> length ms0 = length (wildcards (pattern p))
          \<and> (\<forall>j<length ms0. is_vector (wildcards (pattern p) ! j)
                \<longrightarrow> is_vector (type_of (ms0 ! j)))
          \<and> attempt X p x = Some ms
          \<and> (\<forall>e. \<not> asserts (mut e))
          \<longrightarrow> \<not> asserts (emit mut p x ms))"
proof (intro conjI allI impI)
  show ok: "flags_ok p" using assms by (rule tables_flags_ok)
  fix X and mut :: "expr \<Rightarrow> mres" and x ms0 ms
  assume h: "(\<forall>t e e'. lossless_cast X t e = Some e' \<longrightarrow> lanes (type_of e') = lanes t)
          \<and> expr_match X (pattern p) x = Some ms0
          \<and> length ms0 = length (wildcards (pattern p))
          \<and> (\<forall>j<length ms0. is_vector (wildcards (pattern p) ! j)
                \<longrightarrow> is_vector (type_of (ms0 ! j)))
          \<and> attempt X p x = Some ms
          \<and> (\<forall>e. \<not> asserts (mut e))"
  then have lc: "\<And>t e e'. lossless_cast X t e = Some e' \<Longrightarrow> lanes (type_of e') = lanes t"
    by blast
  from h have em: "expr_match X (pattern p) x = Some ms0"
    and len: "length ms0 = length (wildcards (pattern p))"
    and vec: "\<forall>j<length ms0. is_vector (wildcards (pattern p) ! j)
                \<longrightarrow> is_vector (type_of (ms0 ! j))"
    and at: "attempt X p x = Some ms"
    and mut: "\<forall>e. \<not> asserts (mut e)"
    by blast+
  show "\<not> asserts (emit mut p x ms)"
    by (rule attempt_emit_no_assert [OF ok lc em len vec at mut])
qed

theorem C9_table_flags_in_range_witness:
  "adds ! 11 \<in> set (casts @ muls @ adds)
   \<and> flags_ok (adds ! 11)
   \<and> has_flag (flags (adds ! 11)) SwapOps12
   \<and> has_flag (flags (adds ! 11)) DeinterleaveOp0
   \<and> attempt model_externals (adds ! 11) wmac = Some [acc16, s8, v8]
   \<and> \<not> asserts (emit IRMutator_mutate (adds ! 11) wmac [acc16, s8, v8])"
proof -
  note t = C9_table_flags_in_range [OF adds_11_mem]
  have lc: "\<forall>t e e'. lossless_cast model_externals t e = Some e'
      \<longrightarrow> lanes (type_of e') = lanes t"
    by (simp add: model_externals_def lossless_cast_model_lanes)
  have len: "length [acc16, Cast (UInt_t 16 1) s8, Cast (UInt_t 16 64) v8]
      = length (wildcards (pattern (adds ! 11)))"
    by (simp add: adds_11 template_defs)
  have vec: "\<forall>j<length [acc16, Cast (UInt_t 16 1) s8, Cast (UInt_t 16 64) v8].
      is_vector (wildcards (pattern (adds ! 11)) ! j)
        \<longrightarrow> is_vector (type_of ([acc16, Cast (UInt_t 16 1) s8, Cast (UInt_t 16 64) v8] ! j))"
    by (simp add: adds_11 template_defs example_defs less_Suc_eq nth_Cons split: nat.splits)
  have mut: "\<forall>e. \<not> asserts (IRMutator_mutate e)"
    by (simp add: IRMutator_mutate_def)
  have fl: "has_flag (flags (adds ! 11)) SwapOps12" "has_flag (flags (adds ! 11)) DeinterleaveOp0"
    by (simp_all add: adds_11 has_flag_def flag_defs)
  from t have "flags_ok (adds ! 11)" by blast
  moreover from t lc wmac_match len vec wmac_attempt mut
  have "\<not> asserts (emit IRMutator_mutate (adds ! 11) wmac [acc16, s8, v8])"
    by blast
  ultimately show ?thesis using adds_11_mem wmac_attempt fl by simp
qed

text \<open>
  The claim as stated fails for the narrowing flags: the first pattern of the cast
  table, the average of two operands, carries \<open>NarrowOps\<close>, whose third bit names an
  operand 2 that its two-wildcard template does not have.
\<close>

theorem C9_counterexample:
  "intrin (casts ! 0) = ''halide.hexagon.avg.vub.vub''
   \<and> flags (casts ! 0) = NarrowOps
   \<and> has_flag (flags (casts ! 0)) (push_bit 2 NarrowOp0)
   \<and> length (wildcards (pattern (casts ! 0))) = 2"
  by (simp add: casts_def has_flag_def flag_defs template_defs)

lemma apply_patterns_none:
  "(\<forall>p\<in>set ps. attempt X p x = None) \<Longrightarrow> apply_patterns X mut ps x = Inr (x, True)"
  by (induction ps) simp_all

lemma apply_patterns_first:
  "(\<forall>q\<in>set pre. attempt X q x = None) \<Longrightarrow> attempt X p x = Some ms
     \<Longrightarrow> apply_patterns X mut (pre @ p # post) x = emit mut p x ms"
  by (induction pre) simp_all

lemma attempt_no_match:
  "expr_match X (pattern p) x = None \<Longrightarrow> attempt X p x = None"
  by (simp add: attempt_def)

lemma emit_Inr:
  assumes "emit mut p x ms = Inr (e, f)"
  shows "\<not> f \<and> (\<exists>ops. e = Call (type_of x) (intrin p) ops PureExtern
            \<or> native_interleave (Call (type_of x) (intrin p) ops PureExtern) = Inr e)"
proof -
  from assms obtain m4 where
    r: "(if has_flag (flags p) InterleaveResult then
          ebind (native_interleave (Call (type_of x) (intrin p) m4 PureExtern))
            (\<lambda>e. Inr (e, False))
        else Inr (Call (type_of x) (intrin p) m4 PureExtern, False)) = Inr (e, f)"
    unfolding emit_def ebind_def by (auto split: sum.splits)
  show ?thesis
  proof (cases "has_flag (flags p) InterleaveResult")
    case True
    with r show ?thesis by (auto simp: ebind_def split: sum.splits)
  next
    case False
    with r show ?thesis by auto
  qed
qed

text \<open>
  Claim C2, as amended. \<open>apply_patterns\<close> scans its table in declaration order and the
  first pattern whose attempt succeeds wins, where an attempt is the structural match
  followed by the narrowing and exact-logarithm conversions that its flags ask for: a
  pattern that matches structurally and fails a conversion is skipped. The result is
  then what that pattern emits, and when that is an expression it is a new node, the
  call of the pattern's intrinsic or its interleave marker. When no attempt succeeds, in
  particular when no pattern matches structurally, the input itself is returned and no
  error is raised.
\<close>

theorem C2_first_successful_attempt_wins:
  "((\<forall>p\<in>set ps. attempt X p x = None) \<longrightarrow> apply_patterns X mut ps x = Inr (x, True))
   \<and> ((\<forall>p\<in>set ps. expr_match X (pattern p) x = None)
        \<longrightarrow> apply_patterns X mut ps x = Inr (x, True))
   \<and> ((\<forall>q\<in>set pre. attempt X q x = None) \<and> attempt X p x = Some ms
        \<longrightarrow> apply_patterns X mut (pre @ p # post) x = emit mut p x ms
          \<and> (\<forall>e f. emit mut p x ms = Inr (e, f)
                \<longrightarrow> \<not> f \<and> (\<exists>ops. e = Call (type_of x) (intrin p) ops PureExtern
                     \<or> native_interleave (Call (type_of x) (intrin p) ops PureExtern) = Inr e)))"
proof (intro conjI impI allI)
  assume "\<forall>p\<in>set ps. attempt X p x = None"
  then show "apply_patterns X mut ps x = Inr (x, True)" by (rule apply_patterns_none)
next
  assume "\<forall>p\<in>set ps. expr_match X (pattern p) x = None"
  then have "\<forall>p\<in>set ps. attempt X p x = None" by (simp add: attempt_no_match)
  then show "apply_patterns X mut ps x = Inr (x, True)" by (rule apply_patterns_none)
next
  assume "(\<forall>q\<in>set pre. attempt X q x = None) \<and> attempt X p x = Some ms"
  then show "apply_patterns X mut (pre @ p # post) x = emit mut p x ms"
    by (simp add: apply_patterns_first)
next
  fix e f
  assume "emit mut p x ms = Inr (e, f)"
  from emit_Inr [OF this] show "\<not> f" by simp
next
  fix e f
  assume "emit mut p x ms = Inr (e, f)"
  from emit_Inr [OF this]
  show "\<exists>ops. e = Call (type_of x) (intrin p) ops PureExtern
          \<or> native_interleave (Call (type_of x) (intrin p) ops PureExtern) = Inr e" by simp
qed

lemma adds_split: "adds = take 28 adds @ adds ! 28 # []"
  by (simp add: adds_def)

lemma mac16_attempts:
  "\<forall>q\<in>set (take 28 adds). attempt model_externals q mac16 = None"
  by (simp add: adds_def example_defs model_defs flag_defs template_defs)

lemma mac16_last: "attempt model_externals (adds ! 28) mac16 = Some [va16, vb16, vc16]"
  by (simp add: adds_def example_defs model_defs flag_defs template_defs)

lemma mac16_muls: "\<forall>p\<in>set muls. expr_match model_externals (pattern p) mac16 = None"
  by (simp add: muls_def example_defs model_defs flag_defs template_defs)

lemma mac16_emit:
  "emit IRMutator_mutate (adds ! 28) mac16 [va16, vb16, vc16]
     = Inr (Call (Int_t 16 64) ''halide.hexagon.add_mul.vh.vh.vh'' [va16, vb16, vc16] PureExtern,
         False)"
  by (simp add: adds_def example_defs model_defs flag_defs template_defs)

theorem C2_first_successful_attempt_wins_witness:
  "apply_patterns model_externals IRMutator_mutate muls mac16 = Inr (mac16, True)
   \<and> apply_patterns model_externals IRMutator_mutate adds mac16
     = Inr (Call (Int_t 16 64) ''halide.hexagon.add_mul.vh.vh.vh'' [va16, vb16, vc16] PureExtern,
         False)"
proof -
  have a: "apply_patterns model_externals IRMutator_mutate muls mac16 = Inr (mac16, True)"
    using C2_first_successful_attempt_wins
      [of muls model_externals mac16 IRMutator_mutate "[]" "adds ! 28" "[]" "[]"] mac16_muls
    by blast
  have "apply_patterns model_externals IRMutator_mutate (take 28 adds @ adds ! 28 # []) mac16
      = emit IRMutator_mutate (adds ! 28) mac16 [va16, vb16, vc16]"
    using C2_first_successful_attempt_wins
      [of "[]" model_externals mac16 IRMutator_mutate "take 28 adds" "adds ! 28"
        "[va16, vb16, vc16]" "[]"] mac16_attempts mac16_last
    by blast
  then have b: "apply_patterns model_externals IRMutator_mutate adds mac16
     = Inr (Call (Int_t 16 64) ''halide.hexagon.add_mul.vh.vh.vh'' [va16, vb16, vc16] PureExtern,
         False)"
    using adds_split mac16_emit by simp
  from a b show ?thesis by simp
qed

text \<open>
  The claim as stated fails on the shipped add table. The pattern at index 22,
  \<open>add_mpy.vh.vb.vb\<close>, matches \<open>a + b * c\<close> on 16-bit vectors structurally, and no
  pattern up to it carries the name \<open>add_mul.vh.vh.vh\<close>; its operands cannot be
  narrowed, so it is skipped, and the call that comes back is the one of the last
  pattern, \<open>add_mul.vh.vh.vh\<close>.
\<close>

theorem C2_counterexample:
  "expr_match model_externals (pattern (adds ! 22)) mac16 = Some [va16, vb16, vc16]
   \<and> intrin (adds ! 22) = ''halide.hexagon.add_mpy.vh.vb.vb''
   \<and> apply_patterns model_externals IRMutator_mutate adds mac16
     = Inr (Call (Int_t 16 64) ''halide.hexagon.add_mul.vh.vh.vh'' [va16, vb16, vc16] PureExtern,
         False)
   \<and> ''halide.hexagon.add_mul.vh.vh.vh'' \<notin> intrin ` set (take 23 adds)"
  by (simp add: adds_def example_defs model_defs flag_defs template_defs)

lemma log2_search_numeral [simp]:
  "log2_search (numeral n) k v =
     (if 2 ^ k = v then Some (int k) else log2_search (pred_numeral n) (Suc k) v)"
  by (simp add: numeral_eq_Suc)

lemma log2_search_1 [simp]:
  "log2_search 1 k v = (if 2 ^ k = v then Some (int k) else None)"
  by (simp add: One_nat_def [symmetric] del: One_nat_def) (metis One_nat_def log2_search.simps)














lemma lossless_negate_iff: "(lossless_negate Q x \<noteq> None) = losslessly_negatable Q x"
  by (induction Q x rule: lossless_negate.induct)
     (auto simp: negate_const_def split: option.splits)

lemma lossless_negate_negates: "lossless_negate Q x = Some v \<Longrightarrow> negates Q x v"
proof (induction Q x arbitrary: v rule: lossless_negate.induct)
  case (1 Q T a b)
  show ?case
  proof (cases "T = Mul")
    case True
    show ?thesis
    proof (cases "lossless_negate Q a")
      case (Some a')
      with True "1.prems" "1.IH"(1) [OF True Some] show ?thesis
        by (auto intro: negates.intros)
    next
      case None
      show ?thesis
      proof (cases "lossless_negate Q b")
        case (Some b')
        with True None "1.prems" "1.IH"(2) [OF True None Some] show ?thesis
          by (auto intro: negates.intros)
      next
        case n: None
        with True None "1.prems" show ?thesis
          by (auto simp: negate_const_def intro: negates.intros split: if_splits)
      qed
    qed
  next
    case False
    with "1.prems" show ?thesis
      by (auto simp: negate_const_def intro: negates.intros split: if_splits)
  qed
qed (auto simp: negate_const_def intro: negates.intros split: if_splits)

lemma visit_Sub_not_negatable:
  "\<not> losslessly_negatable Q b \<Longrightarrow> visit_Sub Q X mut a b = IRMutator_visit mut (Binary Sub a b)"
  using lossless_negate_iff [of Q b] by (simp add: visit_Sub_def)

lemmas query_defs = model_queries_def negate_const_def neg_def fold_const_def wrap_def

lemmas example_defs2 = example_defs sub_mul_8_def sub_ab_def

text \<open>
  Claim C6. The lossless-negation helper returns a result exactly for a losslessly
  negatable expression (a negatable constant, or a product with a negatable factor), and
  the result is the expression with one such constant replaced by its simplified
  negation; otherwise it returns nothing. A subtraction \<open>a - b\<close> is given to the add
  table, as \<open>a + (-b)\<close> and then as \<open>(-b) + a\<close>, only when it is vector-typed and \<open>b\<close> has
  such a negation; when \<open>b\<close> is not negatable, or the subtraction is scalar, or neither
  order of the sum is rewritten by the table, the subtraction goes to the generic
  traversal.
\<close>

theorem C6_subtract_by_negation:
  "(lossless_negate Q x \<noteq> None) = losslessly_negatable Q x
   \<and> (\<forall>v. lossless_negate Q x = Some v \<longrightarrow> negates Q x v)
   \<and> (\<not> losslessly_negatable Q b
        \<longrightarrow> lossless_negate Q b = None
          \<and> visit_Sub Q X mut a b = IRMutator_visit mut (Binary Sub a b))
   \<and> (\<not> is_vector (type_of (Binary Sub a b))
        \<longrightarrow> visit_Sub Q X mut a b = IRMutator_visit mut (Binary Sub a b))
   \<and> (\<forall>neg_b. is_vector (type_of (Binary Sub a b)) \<and> lossless_negate Q b = Some neg_b
        \<longrightarrow> visit_Sub Q X mut a b =
            ebind (apply_patterns X mut adds (Binary Add a neg_b)) (\<lambda>r1.
              if \<not> snd r1 then Inr (fst r1, False)
              else
                ebind (apply_patterns X mut adds (Binary Add neg_b a)) (\<lambda>r2.
                  if \<not> snd r2 then Inr (fst r2, False)
                  else IRMutator_visit mut (Binary Sub a b))))"
proof (intro conjI allI impI)
  show "(lossless_negate Q x \<noteq> None) = losslessly_negatable Q x"
    by (rule lossless_negate_iff)
next
  fix v assume "lossless_negate Q x = Some v"
  then show "negates Q x v" by (rule lossless_negate_negates)
next
  assume "\<not> losslessly_negatable Q b"
  then show "lossless_negate Q b = None" using lossless_negate_iff [of Q b] by simp
next
  assume "\<not> losslessly_negatable Q b"
  then show "visit_Sub Q X mut a b = IRMutator_visit mut (Binary Sub a b)"
    by (rule visit_Sub_not_negatable)
next
  assume "\<not> is_vector (type_of (Binary Sub a b))"
  then show "visit_Sub Q X mut a b = IRMutator_visit mut (Binary Sub a b)"
    by (simp add: visit_Sub_def)
next
  fix neg_b
  assume "is_vector (type_of (Binary Sub a b)) \<and> lossless_negate Q b = Some neg_b"
  then show "visit_Sub Q X mut a b =
            ebind (apply_patterns X mut adds (Binary Add a neg_b)) (\<lambda>r1.
              if \<not> snd r1 then Inr (fst r1, False)
              else
                ebind (apply_patterns X mut adds (Binary Add neg_b a)) (\<lambda>r2.
                  if \<not> snd r2 then Inr (fst r2, False)
                  else IRMutator_visit mut (Binary Sub a b)))"
    by (simp add: visit_Sub_def)
qed

lemma negate_mul_8:
  "lossless_negate model_queries (bop_c Mul b32 8)
     = Some (Binary Mul b32 (Broadcast (IntImm (Int_t 32 1) (- 8)) 64))"
  by (simp add: example_defs2 query_defs template_defs)

lemma negate_b32: "\<not> losslessly_negatable model_queries b32"
  by (simp add: example_defs2 query_defs)

lemma mutate_leaves:
  "OptimizePatterns Q X (Suc 0) (Variable t n) = Inr (Variable t n, True)"
  "OptimizePatterns Q X (Suc 0) (IntImm t v) = Inr (IntImm t v, True)"
  by simp_all

lemma add_neg_8:
  "apply_patterns model_externals (OptimizePatterns model_queries model_externals (Suc 0)) adds
     (Binary Add a32 (Binary Mul b32 (Broadcast (IntImm (Int_t 32 1) (- 8)) 64)))
   = Inr (Call (Int_t 32 64) ''halide.hexagon.add_mul.vw.vw.h''
       [a32, b32, IntImm (Int_t 16 1) (- 8)] PureExtern, False)"
  by (simp add: adds_def example_defs2 model_defs flag_defs template_defs
        del: OptimizePatterns.simps add: mutate_leaves)

lemma sub_vector: "is_vector (type_of (Binary Sub a32 x))"
  by (simp add: example_defs2 template_defs)

theorem C6_subtract_by_negation_witness:
  "lossless_negate model_queries (bop_c Mul b32 8)
     = Some (Binary Mul b32 (Broadcast (IntImm (Int_t 32 1) (- 8)) 64))
   \<and> visit_Sub model_queries model_externals
       (OptimizePatterns model_queries model_externals (Suc 0)) a32 (bop_c Mul b32 8)
     = Inr (Call (Int_t 32 64) ''halide.hexagon.add_mul.vw.vw.h''
         [a32, b32, IntImm (Int_t 16 1) (- 8)] PureExtern, False)
   \<and> lossless_negate model_queries b32 = None
   \<and> visit_Sub model_queries model_externals
       (OptimizePatterns model_queries model_externals (Suc 0)) a32 b32
     = Inr (Binary Sub a32 b32, True)"
proof -
  note t1 = C6_subtract_by_negation [where Q = model_queries and x = b32
      and b = "bop_c Mul b32 8" and a = a32 and X = model_externals
      and mut = "OptimizePatterns model_queries model_externals (Suc 0)"]
  note t2 = C6_subtract_by_negation [where Q = model_queries and x = b32
      and b = b32 and a = a32 and X = model_externals
      and mut = "OptimizePatterns model_queries model_externals (Suc 0)"]
  from t1 sub_vector negate_mul_8
  have a: "visit_Sub model_queries model_externals
       (OptimizePatterns model_queries model_externals (Suc 0)) a32 (bop_c Mul b32 8)
     = ebind (apply_patterns model_externals
                (OptimizePatterns model_queries model_externals (Suc 0)) adds
                (Binary Add a32 (Binary Mul b32 (Broadcast (IntImm (Int_t 32 1) (- 8)) 64))))
         (\<lambda>r1. if \<not> snd r1 then Inr (fst r1, False)
              else
                ebind (apply_patterns model_externals
                        (OptimizePatterns model_queries model_externals (Suc 0)) adds
                        (Binary Add (Binary Mul b32 (Broadcast (IntImm (Int_t 32 1) (- 8)) 64)) a32))
                  (\<lambda>r2. if \<not> snd r2 then Inr (fst r2, False)
                    else IRMutator_visit (OptimizePatterns model_queries model_externals (Suc 0))
                           (Binary Sub a32 (bop_c Mul b32 8))))"
    by blast
  have a': "visit_Sub model_queries model_externals
       (OptimizePatterns model_queries model_externals (Suc 0)) a32 (bop_c Mul b32 8)
     = Inr (Call (Int_t 32 64) ''halide.hexagon.add_mul.vw.vw.h''
         [a32, b32, IntImm (Int_t 16 1) (- 8)] PureExtern, False)"
    by (simp only: a add_neg_8 ebind_def sum.case snd_conv fst_conv simp_thms if_True)
  from t2 negate_b32
  have b: "lossless_negate model_queries b32 = None"
    and c: "visit_Sub model_queries model_externals
       (OptimizePatterns model_queries model_externals (Suc 0)) a32 b32
     = IRMutator_visit (OptimizePatterns model_queries model_externals (Suc 0)) (Binary Sub a32 b32)"
    by blast+
  have c': "IRMutator_visit (OptimizePatterns model_queries model_externals (Suc 0))
      (Binary Sub a32 b32) = Inr (Binary Sub a32 b32, True)"
    by (simp add: example_defs2 ebind_def del: OptimizePatterns.simps add: mutate_leaves)
  from negate_mul_8 a' b c c' show ?thesis by simp
qed

lemma cls_loop_Some:
  "cls_loop X t e cls = Some r \<Longrightarrow>
     \<exists>i m0 m1 ms. i \<in> set cls \<and> expr_match X (snd i) e = Some (m0 # m1 # ms) \<and> m0 = m1
        \<and> r = bop_c Add (Call t (fst i) [m0] PureExtern) 1"
proof (induction cls)
  case Nil
  then show ?case by simp
next
  case (Cons i cls)
  show ?case
  proof (cases "\<exists>m0 ms. expr_match X (snd i) e = Some (m0 # m0 # ms)")
    case True
    then obtain m0 ms where m: "expr_match X (snd i) e = Some (m0 # m0 # ms)" by blast
    with Cons.prems have "r = bop_c Add (Call t (fst i) [m0] PureExtern) 1" by simp
    with m show ?thesis by (intro exI [of _ i] exI [of _ m0] exI [of _ ms]) simp
  next
    case False
    then have "cls_loop X t e (i # cls) = cls_loop X t e cls"
      by (auto split: option.splits list.splits)
    with Cons.prems Cons.IH obtain j m0 m1 ms where
      "j \<in> set cls \<and> expr_match X (snd j) e = Some (m0 # m1 # ms) \<and> m0 = m1
        \<and> r = bop_c Add (Call t (fst j) [m0] PureExtern) 1"
      by auto
    then show ?thesis by (intro exI [of _ j] exI [of _ m0] exI [of _ m1] exI [of _ ms]) simp
  qed
qed

lemma cls_loop_first:
  "expr_match X (snd i) e = Some (m0 # m0 # ms)
     \<Longrightarrow> cls_loop X t e (i # cls) = Some (bop_c Add (Call t (fst i) [m0] PureExtern) 1)"
  by simp

lemma cls_loop_no:
  "(\<forall>i\<in>set cls. \<forall>m0 ms. expr_match X (snd i) e \<noteq> Some (m0 # m0 # ms))
     \<Longrightarrow> cls_loop X t e cls = None"
proof (induction cls)
  case Nil
  then show ?case by simp
next
  case (Cons i cls)
  then show ?case by (auto split: option.splits list.splits)
qed

lemma cl_names: "i \<in> set cl \<Longrightarrow> fst i = ''halide.hexagon.cls.vh'' \<or> fst i = ''halide.hexagon.cls.vw''"
  by (auto simp: cl_def)

lemma cl_templates:
  "cl = [(''halide.hexagon.cls.vh'',
          Binary Max_op (Call (Type TInt 16 0) ''count_leading_zeros'' [wild_i16x] PureIntrinsic)
            (Call (Type TInt 16 0) ''count_leading_zeros''
               [Call (Type TInt 16 0) ''bitwise_not'' [wild_i16x] PureIntrinsic] PureIntrinsic)),
         (''halide.hexagon.cls.vw'',
          Binary Max_op (Call (Type TInt 32 0) ''count_leading_zeros'' [wild_i32x] PureIntrinsic)
            (Call (Type TInt 32 0) ''count_leading_zeros''
               [Call (Type TInt 32 0) ''bitwise_not'' [wild_i32x] PureIntrinsic] PureIntrinsic))]"
  by (simp add: cl_def count_leading_zeros_def bitwise_not_def template_defs)

lemma visit_Max_result:
  assumes "IRMutator_visit mut (Binary Max_op a b) = Inr r"
  shows "visit_Max X mut a b =
     (if is_vector (type_of (Binary Max_op a b)) then
        (case cls_loop X (type_of (Binary Max_op a b)) (fst r) cl of
           Some e \<Rightarrow> Inr (e, False)
         | None \<Rightarrow> Inr r)
      else Inr r)"
  using assms by (simp add: visit_Max_def ebind_def)

lemma cl_nth: "cl = [cl ! 0, cl ! 1]" "fst (cl ! 0) = ''halide.hexagon.cls.vh''"
  "fst (cl ! 1) = ''halide.hexagon.cls.vw''"
  by (simp_all add: cl_def)

lemma cls_loop_second:
  assumes "\<forall>m ms'. expr_match X (snd i) e \<noteq> Some (m # m # ms')"
    and "expr_match X (snd j) e = Some (m0 # m0 # ms)"
  shows "cls_loop X t e [i, j] = Some (bop_c Add (Call t (fst j) [m0] PureExtern) 1)"
proof -
  have "cls_loop X t e [i, j] = cls_loop X t e [j]"
    using assms(1) by (auto split: option.splits list.splits)
  with assms(2) show ?thesis by simp
qed

lemma cls_match_16:
  "expr_match_model (snd (cl ! 0))
     (Binary Max_op (count_leading_zeros x) (count_leading_zeros (bitwise_not y)))
   = (if code (type_of x) = TInt \<and> bits (type_of x) = 16
         \<and> code (type_of y) = TInt \<and> bits (type_of y) = 16
         \<and> lanes (type_of y) = lanes (type_of x)
      then Some [x, y] else None)"
  by (simp add: cl_templates count_leading_zeros_def bitwise_not_def expr_match_model_def
        types_match_def unify_lanes_def wild_i16x_def wild_i32x_def)

lemma cls_match_32:
  "expr_match_model (snd (cl ! 1))
     (Binary Max_op (count_leading_zeros x) (count_leading_zeros (bitwise_not y)))
   = (if code (type_of x) = TInt \<and> bits (type_of x) = 32
         \<and> code (type_of y) = TInt \<and> bits (type_of y) = 32
         \<and> lanes (type_of y) = lanes (type_of x)
      then Some [x, y] else None)"
  by (simp add: cl_templates count_leading_zeros_def bitwise_not_def expr_match_model_def
        types_match_def unify_lanes_def wild_i16x_def wild_i32x_def)

lemma cls_loop_model:
  assumes "expr_match X = expr_match_model"
  shows "cls_loop X t (Binary Max_op (count_leading_zeros x) (count_leading_zeros (bitwise_not y))) cl
   = (if x = y \<and> code (type_of x) = TInt \<and> bits (type_of x) = 16
        then Some (bop_c Add (Call t ''halide.hexagon.cls.vh'' [x] PureExtern) 1)
      else if x = y \<and> code (type_of x) = TInt \<and> bits (type_of x) = 32
        then Some (bop_c Add (Call t ''halide.hexagon.cls.vw'' [x] PureExtern) 1)
      else None)"
proof -
  have l: "cls_loop X t (Binary Max_op (count_leading_zeros x) (count_leading_zeros (bitwise_not y))) cl
    = cls_loop X t (Binary Max_op (count_leading_zeros x) (count_leading_zeros (bitwise_not y)))
        [cl ! 0, cl ! 1]"
    by (subst cl_nth(1)) (rule refl)
  show ?thesis
    unfolding l
    by (cases "x = y"; cases "bits (type_of x) = 16"; cases "bits (type_of x) = 32";
        cases "code (type_of x) = TInt")
      (simp_all add: assms cls_match_16 cls_match_32 cl_nth(2,3) del: One_nat_def)
qed

lemma visit_Max_model:
  assumes "IRMutator_visit mut (Binary Max_op a b) = Inr r"
    and "expr_match X = expr_match_model"
    and "fst r = Binary Max_op (count_leading_zeros x) (count_leading_zeros (bitwise_not y))"
  shows "visit_Max X mut a b =
     (if is_vector (type_of (Binary Max_op a b)) \<and> x = y
         \<and> code (type_of x) = TInt \<and> bits (type_of x) = 16
      then Inr (bop_c Add (Call (type_of (Binary Max_op a b)) ''halide.hexagon.cls.vh'' [x]
             PureExtern) 1, False)
      else if is_vector (type_of (Binary Max_op a b)) \<and> x = y
         \<and> code (type_of x) = TInt \<and> bits (type_of x) = 32
      then Inr (bop_c Add (Call (type_of (Binary Max_op a b)) ''halide.hexagon.cls.vw'' [x]
             PureExtern) 1, False)
      else Inr r)"
proof -
  note c = cls_loop_model [OF assms(2), of "type_of (Binary Max_op a b)" x y]
  show ?thesis
    unfolding visit_Max_result [OF assms(1), of X] assms(3) c
    by (cases "x = y"; cases "bits (type_of x) = 16"; cases "bits (type_of x) = 32";
        cases "code (type_of x) = TInt"; cases "is_vector (type_of (Binary Max_op a b))")
      (simp_all del: type_of.simps)
qed

lemma visit_Max_only_equal:
  assumes "IRMutator_visit mut (Binary Max_op a b) = Inr r"
    and "visit_Max X mut a b \<noteq> Inr r"
  shows "is_vector (type_of (Binary Max_op a b))
     \<and> (\<exists>i m ms'. i \<in> set cl \<and> expr_match X (snd i) (fst r) = Some (m # m # ms')
           \<and> visit_Max X mut a b =
               Inr (bop_c Add (Call (type_of (Binary Max_op a b)) (fst i) [m] PureExtern) 1,
                 False))"
proof -
  note v = visit_Max_result [OF assms(1), of X]
  from assms(2) have vec: "is_vector (type_of (Binary Max_op a b))"
    unfolding v by (cases "is_vector (type_of (Binary Max_op a b))") simp_all
  from assms(2) vec obtain e where
    e: "cls_loop X (type_of (Binary Max_op a b)) (fst r) cl = Some e"
    unfolding v
    by (cases "cls_loop X (type_of (Binary Max_op a b)) (fst r) cl") simp_all
  from cls_loop_Some [OF e] obtain i m ms' where
    "i \<in> set cl" "expr_match X (snd i) (fst r) = Some (m # m # ms')"
    "e = bop_c Add (Call (type_of (Binary Max_op a b)) (fst i) [m] PureExtern) 1"
    by blast
  with e vec have "\<exists>i m ms'. i \<in> set cl \<and> expr_match X (snd i) (fst r) = Some (m # m # ms')
                \<and> visit_Max X mut a b =
                    Inr (bop_c Add (Call (type_of (Binary Max_op a b)) (fst i) [m] PureExtern) 1,
                      False)"
    unfolding v by (intro exI [of _ i] exI [of _ m] exI [of _ ms']) (simp del: type_of.simps)
  with vec show ?thesis by blast
qed

lemma visit_Max_unchanged:
  assumes "IRMutator_visit mut (Binary Max_op a b) = Inr r"
    and "\<not> is_vector (type_of (Binary Max_op a b))
          \<or> (\<forall>i\<in>set cl. \<forall>m ms'. expr_match X (snd i) (fst r) \<noteq> Some (m # m # ms'))"
  shows "visit_Max X mut a b = Inr r"
  using assms(2) cls_loop_no [of cl X "fst r" "type_of (Binary Max_op a b)"]
  unfolding visit_Max_result [OF assms(1), of X]
  by (cases "is_vector (type_of (Binary Max_op a b))") (auto simp del: type_of.simps)

text \<open>
  Claim C8, as amended. A vector \<open>max\<close> node is first mutated in the ordinary way. When
  the mutated node is \<open>max(count_leading_zeros(x), count_leading_zeros(~y))\<close>, it is
  replaced by the call of the leading-sign-count intrinsic on \<open>x\<close>, plus one, exactly
  when \<open>x\<close> and \<open>y\<close> are structurally equal and \<open>x\<close> is a signed integer vector of 16 bits
  (\<open>cls.vh\<close>) or of 32 bits (\<open>cls.vw\<close>); for an unsigned vector, another width, two
  different operands or a scalar \<open>max\<close> the mutated node is returned. This is for the
  matcher as the specification describes it. For every matcher, a replacement happens
  only with a match of one of the two templates whose two operands are structurally
  equal, and the mutated node is returned when there is none.
\<close>

theorem C8_max_of_leading_zeros:
  assumes "IRMutator_visit mut (Binary Max_op a b) = Inr r"
  shows "(expr_match X = expr_match_model
          \<and> fst r = Binary Max_op (count_leading_zeros x) (count_leading_zeros (bitwise_not y))
        \<longrightarrow> visit_Max X mut a b =
           (if is_vector (type_of (Binary Max_op a b)) \<and> x = y
               \<and> code (type_of x) = TInt \<and> bits (type_of x) = 16
            then Inr (bop_c Add (Call (type_of (Binary Max_op a b)) ''halide.hexagon.cls.vh'' [x]
                   PureExtern) 1, False)
            else if is_vector (type_of (Binary Max_op a b)) \<and> x = y
               \<and> code (type_of x) = TInt \<and> bits (type_of x) = 32
            then Inr (bop_c Add (Call (type_of (Binary Max_op a b)) ''halide.hexagon.cls.vw'' [x]
                   PureExtern) 1, False)
            else Inr r))
   \<and> (visit_Max X mut a b \<noteq> Inr r
        \<longrightarrow> is_vector (type_of (Binary Max_op a b))
          \<and> (\<exists>i m ms'. i \<in> set cl \<and> expr_match X (snd i) (fst r) = Some (m # m # ms')
                \<and> visit_Max X mut a b =
                    Inr (bop_c Add (Call (type_of (Binary Max_op a b)) (fst i) [m] PureExtern) 1,
                      False)))
   \<and> (\<not> is_vector (type_of (Binary Max_op a b))
          \<or> (\<forall>i\<in>set cl. \<forall>m ms'. expr_match X (snd i) (fst r) \<noteq> Some (m # m # ms'))
        \<longrightarrow> visit_Max X mut a b = Inr r)"
proof (intro conjI impI)
  assume "expr_match X = expr_match_model
          \<and> fst r = Binary Max_op (count_leading_zeros x) (count_leading_zeros (bitwise_not y))"
  then have m: "expr_match X = expr_match_model"
    and f: "fst r = Binary Max_op (count_leading_zeros x) (count_leading_zeros (bitwise_not y))"
    by blast+
  show "visit_Max X mut a b =
           (if is_vector (type_of (Binary Max_op a b)) \<and> x = y
               \<and> code (type_of x) = TInt \<and> bits (type_of x) = 16
            then Inr (bop_c Add (Call (type_of (Binary Max_op a b)) ''halide.hexagon.cls.vh'' [x]
                   PureExtern) 1, False)
            else if is_vector (type_of (Binary Max_op a b)) \<and> x = y
               \<and> code (type_of x) = TInt \<and> bits (type_of x) = 32
            then Inr (bop_c Add (Call (type_of (Binary Max_op a b)) ''halide.hexagon.cls.vw'' [x]
                   PureExtern) 1, False)
            else Inr r)"
    by (rule visit_Max_model [OF assms m f])
next
  assume n: "visit_Max X mut a b \<noteq> Inr r"
  from visit_Max_only_equal [OF assms n]
  show "is_vector (type_of (Binary Max_op a b))" by blast
  from visit_Max_only_equal [OF assms n]
  show "\<exists>i m ms'. i \<in> set cl \<and> expr_match X (snd i) (fst r) = Some (m # m # ms')
                \<and> visit_Max X mut a b =
                    Inr (bop_c Add (Call (type_of (Binary Max_op a b)) (fst i) [m] PureExtern) 1,
                      False)" by blast
next
  assume "\<not> is_vector (type_of (Binary Max_op a b))
          \<or> (\<forall>i\<in>set cl. \<forall>m ms'. expr_match X (snd i) (fst r) \<noteq> Some (m # m # ms'))"
  then show "visit_Max X mut a b = Inr r" by (rule visit_Max_unchanged [OF assms])
qed

lemmas cls_defs = h16_def g16_def u16v_def cls_same_def cls_other_def count_leading_zeros_def
  bitwise_not_def

lemma cls_mutation:
  "IRMutator_visit (OptimizePatterns Q X (Suc (Suc (Suc 0))))
     (Binary Max_op (count_leading_zeros h16) (count_leading_zeros (bitwise_not x)))
   = Inr (Binary Max_op (count_leading_zeros h16) (count_leading_zeros (bitwise_not x)), True)"
  if "x = h16 \<or> x = g16"
  using that by (auto simp: cls_defs ebind_def)

lemma cls_mutation_u:
  "IRMutator_visit (OptimizePatterns Q X (Suc (Suc (Suc 0))))
     (Binary Max_op (count_leading_zeros u16v) (count_leading_zeros (bitwise_not u16v)))
   = Inr (Binary Max_op (count_leading_zeros u16v) (count_leading_zeros (bitwise_not u16v)), True)"
  by (simp add: cls_defs ebind_def)

lemma example_types:
  "type_of h16 = Type TInt 16 64" "type_of g16 = Type TInt 16 64"
  "type_of u16v = Type TUInt 16 64" "h16 \<noteq> g16"
  "type_of (Binary Max_op (count_leading_zeros h16) z) = Type TInt 16 64"
  "type_of (Binary Max_op (count_leading_zeros u16v) z) = Type TUInt 16 64"
  "is_vector (Type TInt 16 64)" "is_vector (Type TUInt 16 64)"
  by (simp_all add: cls_defs Int_t_def UInt_t_def is_compare_def is_vector_def)

lemma model_matcher: "expr_match model_externals = expr_match_model"
  by (simp add: model_externals_def)

theorem C8_max_of_leading_zeros_witness:
  "visit_Max model_externals (OptimizePatterns model_queries model_externals (Suc (Suc (Suc 0))))
     (count_leading_zeros h16) (count_leading_zeros (bitwise_not h16))
   = Inr (bop_c Add (Call (Type TInt 16 64) ''halide.hexagon.cls.vh'' [h16] PureExtern) 1, False)
   \<and> visit_Max model_externals (OptimizePatterns model_queries model_externals (Suc (Suc (Suc 0))))
     (count_leading_zeros h16) (count_leading_zeros (bitwise_not g16))
   = Inr (Binary Max_op (count_leading_zeros h16) (count_leading_zeros (bitwise_not g16)), True)"
proof -
  have s: "h16 = h16 \<or> h16 = g16" and o: "g16 = h16 \<or> g16 = g16" by simp_all
  from C8_max_of_leading_zeros [OF cls_mutation [OF s], where X = model_externals
      and x = h16 and y = h16] model_matcher
  have a: "visit_Max model_externals
     (OptimizePatterns model_queries model_externals (Suc (Suc (Suc 0))))
     (count_leading_zeros h16) (count_leading_zeros (bitwise_not h16))
   = Inr (bop_c Add (Call (Type TInt 16 64) ''halide.hexagon.cls.vh'' [h16] PureExtern) 1, False)"
    by (simp add: example_types del: type_of.simps)
  from C8_max_of_leading_zeros [OF cls_mutation [OF o], where X = model_externals
      and x = h16 and y = g16] model_matcher
  have b: "visit_Max model_externals
     (OptimizePatterns model_queries model_externals (Suc (Suc (Suc 0))))
     (count_leading_zeros h16) (count_leading_zeros (bitwise_not g16))
   = Inr (Binary Max_op (count_leading_zeros h16) (count_leading_zeros (bitwise_not g16)), True)"
    by (simp add: example_types del: type_of.simps)
  from a b show ?thesis by simp
qed

text \<open>
  The claim as stated fails for an unsigned vector: the two templates are built on the
  signed wildcards \<open>wild_i16x\<close> and \<open>wild_i32x\<close>, so
  \<open>max(count_leading_zeros(u), count_leading_zeros(~u))\<close> on an unsigned 16-bit vector
  \<open>u\<close>, a 16-bit integer vector with both occurrences structurally equal, comes back
  unchanged and no leading-sign-count call is made.
\<close>

theorem C8_counterexample:
  "type_of u16v = Type TUInt 16 64
   \<and> is_vector (type_of (Binary Max_op (count_leading_zeros u16v)
        (count_leading_zeros (bitwise_not u16v))))
   \<and> visit_Max model_externals (OptimizePatterns model_queries model_externals (Suc (Suc (Suc 0))))
       (count_leading_zeros u16v) (count_leading_zeros (bitwise_not u16v))
     = Inr (Binary Max_op (count_leading_zeros u16v) (count_leading_zeros (bitwise_not u16v)),
         True)
   \<and> OptimizePatterns model_queries model_externals (Suc (Suc (Suc (Suc 0))))
       (Binary Max_op (count_leading_zeros u16v) (count_leading_zeros (bitwise_not u16v)))
     = Inr (Binary Max_op (count_leading_zeros u16v) (count_leading_zeros (bitwise_not u16v)),
         True)"
proof -
  have v: "visit_Max model_externals
       (OptimizePatterns model_queries model_externals (Suc (Suc (Suc 0))))
       (count_leading_zeros u16v) (count_leading_zeros (bitwise_not u16v))
     = Inr (Binary Max_op (count_leading_zeros u16v) (count_leading_zeros (bitwise_not u16v)),
         True)"
    using visit_Max_model [OF cls_mutation_u model_matcher, where x = u16v and y = u16v]
    by (simp add: example_types del: type_of.simps)
  have d: "OptimizePatterns model_queries model_externals (Suc (Suc (Suc (Suc 0))))
       (Binary Max_op (count_leading_zeros u16v) (count_leading_zeros (bitwise_not u16v)))
     = visit_Max model_externals
       (OptimizePatterns model_queries model_externals (Suc (Suc (Suc 0))))
       (count_leading_zeros u16v) (count_leading_zeros (bitwise_not u16v))"
    by (subst OptimizePatterns.simps(2)) simp
  from v d show ?thesis by (simp add: example_types del: type_of.simps)
qed























lemmas upper_defs = sx_def sy_def sk_def sa_def max_diff_def min_diff_def neg_diff_def Int_t_def

lemma upper_bound_max_diff:
  "upper_bound model_queries (Suc (Suc (Suc 0))) max_diff = Inr (Binary Sub sx sy)"
  by (simp add: upper_bound_def upper_defs UpperBound_visit_Sub_def ebind_def equal_second_def
        bop_def is_scalar_def is_vector_def query_defs)

lemma upper_bound_min_diff:
  "upper_bound model_queries (Suc (Suc (Suc 0))) min_diff = Inr (Binary Sub sx sy)"
  by (simp add: upper_bound_def upper_defs UpperBound_visit_Sub_def ebind_def equal_second_def
        bop_def is_scalar_def is_vector_def query_defs)

lemma values_max:
  "value_of env_max max_diff = Some 0" "value_of env_max (Binary Sub sx sy) = Some (- 5)"
  by (simp_all add: upper_defs env_max_def)

lemma values_min:
  "value_of env_min min_diff = Some 0" "value_of env_min (Binary Sub sx sy) = Some (- 5)"
  by (simp_all add: upper_defs env_min_def)

lemma upper_bound_neg_diff:
  "upper_bound model_queries (Suc (Suc (Suc (Suc 0)))) neg_diff
     = Inr (Binary Sub sa (Binary Sub sx sy))"
  by (simp add: upper_bound_def upper_defs UpperBound_visit_Sub_def ebind_def equal_second_def
        bop_def is_scalar_def is_vector_def query_defs)

lemma values_neg:
  "value_of env_neg neg_diff = Some 0"
  "value_of env_neg (Binary Sub sa (Binary Sub sx sy)) = Some (- 5)"
  by (simp_all add: upper_defs env_neg_def)

text \<open>
  Claim C7. The upper-bound helper rewrites \<open>max(x, k) - max(y, k)\<close> and
  \<open>min(x, k) - min(y, k)\<close> to \<open>x - y\<close>, but the rewriting does not only widen: at the
  valuation \<open>x = 0\<close>, \<open>y = 5\<close>, \<open>k = 10\<close> the first difference is 0 and at \<open>x = 15\<close>,
  \<open>y = 20\<close>, \<open>k = 10\<close> the second is 0, while \<open>x - y\<close> is -5 at both. The rewriting is
  applied to every difference inside the expression, also to one that is subtracted:
  \<open>a - (max(x, k) - max(y, k))\<close> becomes \<open>a - (x - y)\<close>, which at \<open>a = 0\<close>, \<open>x = 5\<close>,
  \<open>y = 0\<close>, \<open>k = 10\<close> is -5 while the expression is 0. The helper is documented as
  finding a conservative upper bound of an expression.
\<close>

theorem C7_upper_bound_not_conservative:
  "upper_bound model_queries (Suc (Suc (Suc 0))) max_diff = Inr (Binary Sub sx sy)
   \<and> value_of env_max max_diff = Some 0
   \<and> value_of env_max (Binary Sub sx sy) = Some (- 5)
   \<and> upper_bound model_queries (Suc (Suc (Suc 0))) min_diff = Inr (Binary Sub sx sy)
   \<and> value_of env_min min_diff = Some 0
   \<and> value_of env_min (Binary Sub sx sy) = Some (- 5)
   \<and> upper_bound model_queries (Suc (Suc (Suc (Suc 0)))) neg_diff
       = Inr (Binary Sub sa (Binary Sub sx sy))
   \<and> value_of env_neg neg_diff = Some 0
   \<and> value_of env_neg (Binary Sub sa (Binary Sub sx sy)) = Some (- 5)"
  by (simp only: upper_bound_max_diff upper_bound_min_diff upper_bound_neg_diff values_max
        values_min values_neg simp_thms)

end
